theory Spec2Isabelle
  imports Complex_Main
begin

section \<open>The SeaExplorer simulation engine\<close>

text \<open>
  A shallow embedding of the update engine of the game component \<^verbatim>\<open>SeaquestGame\<close>
  (the second module of \<^verbatim>\<open>src/components/TouchControls.tsx\<close>).

  Conventions of the embedding.
  \<^item> A TypeScript \<^verbatim>\<open>number\<close> that holds a continuous quantity (positions, velocities,
    timers, oxygen) is a \<^typ>\<open>real\<close>: the model idealises IEEE doubles as exact reals.
    A \<^verbatim>\<open>number\<close> that only ever holds whole values (score, level, lives, combo counter,
    health, pickup values) is an \<^typ>\<open>int\<close>.
  \<^item> The mutable \<^verbatim>\<open>game\<close> object is the record \<open>Game\<close>, passed through every
    procedure and returned updated. The environment the procedures reach into
    (\<^verbatim>\<open>Math.random\<close>, the React state \<^verbatim>\<open>uiGameState\<close>/\<^verbatim>\<open>finalScore\<close>,
    \<^verbatim>\<open>setTimeout\<close>, \<^verbatim>\<open>requestAnimationFrame\<close>, the renderer) is kept in extra fields
    of the same record, listed last.
  \<^item> \<^verbatim>\<open>Math.random()\<close> reads the next element of an arbitrary sequence \<open>rnd\<close>.
  \<^item> Sound triggers (\<^verbatim>\<open>playSound\<close>, \<^verbatim>\<open>stopSound\<close>) and console output have no
    effect on the state and are left out.
  \<^item> A loop \<^verbatim>\<open>for (let e of game.xs)\<close> whose body mutates \<open>e\<close> in place and may
    execute \<^verbatim>\<open>game.xs = game.xs.filter(o => o !== e)\<close> walks the array it started
    with; every element is visited once and is either kept (as mutated) or removed.
    That is \<open>forEach\<close> below; the collection field is written back when the loop ends.
\<close>

subsection \<open>Constants\<close>

definition MAX_OXYGEN :: real where "MAX_OXYGEN = 300"
definition COMBO_TIMEOUT_FRAMES :: real where "COMBO_TIMEOUT_FRAMES = 180"
definition GRAVITY :: real where "GRAVITY = 0.02"
definition PARTICLE_LIFESPAN :: real where "PARTICLE_LIFESPAN = 60"
definition RAPID_FIRE_THRESHOLD_FACTOR :: real where "RAPID_FIRE_THRESHOLD_FACTOR = 0.5"
definition MAX_PLAYER_LIVES :: int where "MAX_PLAYER_LIVES = 10"
definition ENEMY_SHARK_CHANCE :: real where "ENEMY_SHARK_CHANCE = 0.5"

text \<open>The canvas element is created with \<^verbatim>\<open>width={1408} height={768}\<close>.\<close>

definition canvas_width :: real where "canvas_width = 1408"
definition canvas_height :: real where "canvas_height = 768"

subsection \<open>Data model\<close>

datatype Color = Css string | Hsl real nat nat

datatype Facing = FacingLeft | FacingRight

datatype UiState = UiStart | UiPlaying | UiOver

record GameObject =
  x :: real
  y :: real
  width :: real
  height :: real

text \<open>The interfaces \<^verbatim>\<open>Treasure\<close> and \<^verbatim>\<open>Heart\<close> have the same fields.\<close>

record Pickup = GameObject +
  color :: Color
  "value" :: int
  angle :: real
  rotationSpeed :: real
  dy :: real
  targetY :: real
  isFalling :: bool

type_synonym Treasure = Pickup
type_synonym Heart = Pickup

record Enemy = GameObject +
  color :: Color
  dx :: real
  amplitude :: real
  frequency :: real
  offsetY :: real
  baseY :: real
  health :: int
  maxHealth :: int
  isShark :: bool
  aggressionLevel :: real

record Crab = GameObject +
  dx :: real
  color :: Color
  speed :: real

record OxygenBubble =
  x :: real
  y :: real
  radius :: real
  speed :: real
  color :: Color
  oxygenAmount :: real
  offset :: real
  isLarge :: bool
  pulse :: "real option"

record Harpoon =
  x :: real
  y :: real
  dx :: real
  dy :: real
  length_h :: real
  width :: real
  angle :: real
  lifespan :: real

record Particle =
  x :: real
  y :: real
  dx :: real
  dy :: real
  radius :: real
  color :: Color
  lifespan :: real
  initialLifespan :: real

record OxygenBonus = GameObject +
  "value" :: int
  angle :: real
  rotationSpeed :: real
  dy :: real
  fullyVisible :: bool
  alpha :: real
  lifespan :: real

record Diver = GameObject +
  speed :: real
  baseSpeed :: real
  dx :: real
  dy :: real
  color :: Color
  oxygenDepletionRate :: real
  size_d :: real
  canFire :: bool
  weaponCooldown :: real
  weaponCooldownMax :: real
  facingDirection :: Facing
  comboCounter :: int
  comboTimer :: real
  isShieldActive :: bool
  shieldTimer :: real

text \<open>
  \<^verbatim>\<open>game.keys\<close>. The key handlers store the space bar under \<^verbatim>\<open>Space\<close>; the property
  \<^verbatim>\<open>keys[" "]\<close> that \<^verbatim>\<open>updateWeaponSystem\<close> also reads is never written.
\<close>

record Keys =
  ArrowRight :: bool
  ArrowLeft :: bool
  ArrowUp :: bool
  ArrowDown :: bool
  Space :: bool

record Game =
  gameStarted :: bool
  gameOver :: bool
  score :: int
  oxygen :: real
  level :: int
  playerLives :: int
  hearts :: "Heart list"
  treasures :: "Treasure list"
  enemies :: "Enemy list"
  crabs :: "Crab list"
  oxygenBubbles :: "OxygenBubble list"
  harpoons :: "Harpoon list"
  particles :: "Particle list"
  oxygenBonus :: "OxygenBonus list"
  oxygenGenerator :: GameObject
  diver :: Diver
  keys :: Keys
  lastUpdateTime :: real
  animationFrameId :: "nat option"
  \<comment> \<open>the environment\<close>
  rnd :: "nat \<Rightarrow> real"
  rndPos :: nat
  uiGameState :: UiState
  finalScore :: int
  respawnTimers :: "real list"
  rafCount :: nat
  renderCount :: nat

subsection \<open>Environment\<close>

text \<open>\<^verbatim>\<open>Math.random()\<close>: the next element of the sequence.\<close>

definition random :: "Game \<Rightarrow> real \<times> Game" where
  "random g = (rnd g (rndPos g), g\<lparr>rndPos := Suc (rndPos g)\<rparr>)"

text \<open>\<^verbatim>\<open>game.animationFrameId = requestAnimationFrame(gameLoop)\<close>: the browser hands out
  a fresh handle and will call the loop again.\<close>

definition requestAnimationFrame :: "Game \<Rightarrow> Game" where
  "requestAnimationFrame g =
     g\<lparr>animationFrameId := Some (Suc (rafCount g)), rafCount := Suc (rafCount g)\<rparr>"

text \<open>\<^verbatim>\<open>render()\<close> draws the state and changes none of it; the model counts the frames drawn.\<close>

definition render :: "Game \<Rightarrow> Game" where
  "render g = g\<lparr>renderCount := Suc (renderCount g)\<rparr>"

text \<open>The \<^verbatim>\<open>for (let e of xs)\<close> loop with in-place mutation and removal by identity
  (also \<^verbatim>\<open>xs.filter\<close> with a callback that has effects).\<close>

fun forEach :: "('a \<Rightarrow> 's \<Rightarrow> 'a option \<times> 's) \<Rightarrow> 'a list \<Rightarrow> 's \<Rightarrow> 'a list \<times> 's" where
  "forEach step [] s = ([], s)"
| "forEach step (e # es) s =
     (case step e s of (r, s1) \<Rightarrow>
        (case forEach step es s1 of (rs, s2) \<Rightarrow>
           ((case r of None \<Rightarrow> rs | Some e' \<Rightarrow> e' # rs), s2)))"

subsection \<open>Collision detection\<close>

text \<open>
  \<^verbatim>\<open>isColliding(obj1, obj2)\<close>. The two run-time tests of the source are arguments here:
  \<open>isDiver\<close> is \<^verbatim>\<open>obj1 === game.diver\<close> and \<open>shark\<close> is \<^verbatim>\<open>(obj2 as Enemy)?.isShark\<close>
  (false for an object without that field).
\<close>

definition isColliding ::
  "bool \<Rightarrow> 'a GameObject_scheme \<Rightarrow> 'b GameObject_scheme \<Rightarrow> bool \<Rightarrow> bool" where
  "isColliding isDiver obj1 obj2 shark =
     (let extraMargin = (if shark then 1 else 0 :: real);
          widthReduction = GameObject.width obj1 * 0.1;
          heightReduction = GameObject.height obj1 * 0.1;
          obj1Width = (if isDiver then GameObject.width obj1 - widthReduction
                       else GameObject.width obj1);
          obj1Height = (if isDiver then GameObject.height obj1 - heightReduction
                        else GameObject.height obj1);
          obj1X = (if isDiver then GameObject.x obj1 + widthReduction / 2
                   else GameObject.x obj1);
          obj1Y = (if isDiver then GameObject.y obj1 + heightReduction / 2
                   else GameObject.y obj1)
      in obj1X < GameObject.x obj2 + GameObject.width obj2 + extraMargin \<and>
         obj1X + obj1Width > GameObject.x obj2 - extraMargin \<and>
         obj1Y < GameObject.y obj2 + GameObject.height obj2 + extraMargin \<and>
         obj1Y + obj1Height > GameObject.y obj2 - extraMargin)"

definition isCollidingCircle :: "bool \<Rightarrow> 'a GameObject_scheme \<Rightarrow> OxygenBubble \<Rightarrow> bool" where
  "isCollidingCircle isDiver obj circle =
     (let widthReduction = GameObject.width obj * 0.1;
          heightReduction = GameObject.height obj * 0.1;
          objWidth = (if isDiver then GameObject.width obj - widthReduction
                      else GameObject.width obj);
          objHeight = (if isDiver then GameObject.height obj - heightReduction
                       else GameObject.height obj);
          objX = (if isDiver then GameObject.x obj + widthReduction / 2 else GameObject.x obj);
          objY = (if isDiver then GameObject.y obj + heightReduction / 2 else GameObject.y obj);
          closestX = max objX (min (OxygenBubble.x circle) (objX + objWidth));
          closestY = max objY (min (OxygenBubble.y circle) (objY + objHeight));
          distanceX = OxygenBubble.x circle - closestX;
          distanceY = OxygenBubble.y circle - closestY;
          distanceSquared = distanceX * distanceX + distanceY * distanceY
      in distanceSquared < OxygenBubble.radius circle * OxygenBubble.radius circle)"

text \<open>The rectangle \<^verbatim>\<open>harpoonRect\<close> that \<^verbatim>\<open>updateEnemies\<close> and \<^verbatim>\<open>updateCrabs\<close> build.\<close>

definition harpoonRect :: "Harpoon \<Rightarrow> GameObject" where
  "harpoonRect harpoon =
     \<lparr>GameObject.x = Harpoon.x harpoon,
      GameObject.y = Harpoon.y harpoon - Harpoon.width harpoon / 2,
      GameObject.width = Harpoon.length_h harpoon,
      GameObject.height = Harpoon.width harpoon\<rparr>"

subsection \<open>Particle bursts\<close>

fun explosionLoop :: "nat \<Rightarrow> real \<Rightarrow> real \<Rightarrow> Color \<Rightarrow> Game \<Rightarrow> Game" where
  "explosionLoop 0 px py c g = g"
| "explosionLoop (Suc n) px py c g =
     (case random g of (r1, g1) \<Rightarrow>
      case random g1 of (r2, g2) \<Rightarrow>
      case random g2 of (r3, g3) \<Rightarrow>
        (let angle = r1 * pi * 2;
             speed = 1 + r2 * 3;
             radius = 1 + r3 * 2
         in explosionLoop n px py c
              (g3\<lparr>particles := particles g3 @
                 [\<lparr>Particle.x = px, Particle.y = py,
                   Particle.dx = cos angle * speed, Particle.dy = sin angle * speed,
                   Particle.radius = radius, Particle.color = c,
                   Particle.lifespan = PARTICLE_LIFESPAN,
                   Particle.initialLifespan = PARTICLE_LIFESPAN\<rparr>]\<rparr>)))"

definition createExplosion :: "real \<Rightarrow> real \<Rightarrow> Color \<Rightarrow> Game \<Rightarrow> Game" where
  "createExplosion px py c g =
     (case random g of (r, g1) \<Rightarrow> explosionLoop (nat (10 + \<lfloor>r * 10\<rfloor>)) px py c g1)"

subsection \<open>Entity factories\<close>

definition generateHeart :: "real \<times> real \<Rightarrow> Game \<Rightarrow> Game" where
  "generateHeart position g =
     (if playerLives g \<ge> MAX_PLAYER_LIVES then g
      else
        (let startX = fst position; startY = snd position in
         case random g of (r1, g1) \<Rightarrow>
         case random g1 of (r2, g2) \<Rightarrow>
         case random g2 of (r3, g3) \<Rightarrow>
           (let stopY = canvas_height - 25 - r1 * 10 in
            g3\<lparr>hearts := hearts g3 @
              [\<lparr>GameObject.x = max 10 (min (canvas_width - 10) startX),
                GameObject.y = startY,
                GameObject.width = 20, GameObject.height = 18,
                Pickup.color = Css ''#ff3377'',
                Pickup.value = 1,
                Pickup.angle = r2 * pi * 2,
                Pickup.rotationSpeed = (r3 - 0.5) * 0.05,
                Pickup.dy = 0.3,
                Pickup.targetY = stopY,
                Pickup.isFalling = True\<rparr>]\<rparr>)))"

text \<open>One pass of the loop of \<^verbatim>\<open>generateTreasures\<close>; \<open>position\<close> is the optional argument.\<close>

definition spawnTreasure :: "(real \<times> real) option \<Rightarrow> Game \<Rightarrow> Game" where
  "spawnTreasure position g =
     (case (case position of Some p \<Rightarrow> (fst p, g)
            | None \<Rightarrow> (case random g of (r, g') \<Rightarrow> (r * (canvas_width - 20), g')))
      of (startX, g0) \<Rightarrow>
        (let startY = (case position of Some p \<Rightarrow> snd p | None \<Rightarrow> 50) in
         case random g0 of (r1, g1) \<Rightarrow>
         case random g1 of (r2, g2) \<Rightarrow>
         case random g2 of (r3, g3) \<Rightarrow>
         case random g3 of (r4, g4) \<Rightarrow>
           (let stopY = canvas_height - 25 - r1 * 10 in
            g4\<lparr>treasures := treasures g4 @
              [\<lparr>GameObject.x = max 10 (min (canvas_width - 10) startX),
                GameObject.y = startY,
                GameObject.width = 16, GameObject.height = 20,
                Pickup.color = Css ''#ffff00'',
                Pickup.value = 15 + \<lfloor>r2 * 10\<rfloor>,
                Pickup.angle = r3 * pi * 2,
                Pickup.rotationSpeed = (r4 - 0.5) * 0.1,
                Pickup.dy = 0.5,
                Pickup.targetY = stopY,
                Pickup.isFalling = True\<rparr>]\<rparr>)))"

definition generateTreasures :: "nat \<Rightarrow> (real \<times> real) option \<Rightarrow> Game \<Rightarrow> Game" where
  "generateTreasures count position g = (spawnTreasure position ^^ count) g"

text \<open>One pass of the loop of \<^verbatim>\<open>generateEnemies\<close>. The second draw of the shark test
  happens only for a small fish (\<^verbatim>\<open>&&\<close> short-circuits).\<close>

definition spawnEnemy :: "Game \<Rightarrow> Game" where
  "spawnEnemy g =
     (case random g of (r1, g1) \<Rightarrow>
        (let isSmallSize = (r1 < 0.5) in
         case (if isSmallSize then (case random g1 of (r, g') \<Rightarrow> (r < ENEMY_SHARK_CHANCE, g'))
               else (False, g1)) of (shark, g2) \<Rightarrow>
         case random g2 of (r3, g3) \<Rightarrow>
           (let size = (if shark then 35 + r3 * 15
                        else if isSmallSize then 20 + r3 * 10 else 30 + r3 * 15) in
            case random g3 of (r4, g4) \<Rightarrow>
              (let startY = 50 + r4 * (canvas_height - 150);
                   maxHealth = (if shark then 3 else if \<not> isSmallSize then 2 else 1 :: int) in
               case random g4 of (r5, g5) \<Rightarrow>
                 (let color = (if shark then Hsl (r5 * 20 + 10) 70 40
                               else Hsl (r5 * 60 + 180) 70 60) in
                  case random g5 of (r6, g6) \<Rightarrow>
                    (let baseSpeed = (if shark then 1.5 + r6 * 1.5 else 1 + r6 * 1);
                         levelFactor = 1 + (real_of_int (level g6) - 1) * 0.2;
                         aggressionLevel =
                           (if shark then 1 + (real_of_int (level g6) - 1) * 0.3 else 1) in
                     case random g6 of (r7, g7) \<Rightarrow>
                       (let startFromLeft = (r7 < 0.5);
                            xPosition = (if startFromLeft then - size else canvas_width + size);
                            direction = (if startFromLeft then 1 else - 1 :: real) in
                        case random g7 of (r8, g8) \<Rightarrow>
                        case random g8 of (r9, g9) \<Rightarrow>
                        case random g9 of (r10, g10) \<Rightarrow>
                          g10\<lparr>enemies := enemies g10 @
                            [\<lparr>GameObject.x = xPosition, GameObject.y = startY,
                              GameObject.width = size, GameObject.height = size * 0.6,
                              Enemy.color = color,
                              Enemy.dx = (baseSpeed * levelFactor) * direction,
                              Enemy.amplitude = 5 + r8 * 15,
                              Enemy.frequency = 0.001 + r9 * 0.003,
                              Enemy.offsetY = r10 * pi * 2,
                              Enemy.baseY = startY,
                              Enemy.health = maxHealth,
                              Enemy.maxHealth = maxHealth,
                              Enemy.isShark = shark,
                              Enemy.aggressionLevel = aggressionLevel\<rparr>]\<rparr>)))))))"

definition generateEnemies :: "nat \<Rightarrow> Game \<Rightarrow> Game" where
  "generateEnemies count g =
     (if int (length (enemies g)) > 2 + level g div 2 then g
      else (spawnEnemy ^^ count) g)"

definition spawnOxygenBubble :: "Game \<Rightarrow> Game" where
  "spawnOxygenBubble g =
     (case random g of (r1, g1) \<Rightarrow>
      case random g1 of (r2, g2) \<Rightarrow>
      case random g2 of (r3, g3) \<Rightarrow>
      case random g3 of (r4, g4) \<Rightarrow>
      case random g4 of (r5, g5) \<Rightarrow>
        (let radius = 12 + r1 * 12 in
         g5\<lparr>oxygenBubbles := oxygenBubbles g5 @
           [\<lparr>OxygenBubble.x = GameObject.x (oxygenGenerator g5)
                                + r2 * GameObject.width (oxygenGenerator g5),
             OxygenBubble.y = GameObject.y (oxygenGenerator g5),
             OxygenBubble.radius = radius,
             OxygenBubble.speed = 0.8 + r3 * 1.2,
             OxygenBubble.color = Css ''rgba(255, 255, 255, 0.7)'',
             OxygenBubble.oxygenAmount = 15 + r4 * 20,
             OxygenBubble.offset = r5 * pi * 2,
             OxygenBubble.isLarge = False,
             OxygenBubble.pulse = None\<rparr>]\<rparr>))"

definition generateOxygenBubbles :: "nat \<Rightarrow> Game \<Rightarrow> Game" where
  "generateOxygenBubbles count g = (spawnOxygenBubble ^^ count) g"

definition generateLargeOxygenBubble :: "Game \<Rightarrow> Game" where
  "generateLargeOxygenBubble g =
     (case random g of (r1, g1) \<Rightarrow>
      case random g1 of (r2, g2) \<Rightarrow>
      case random g2 of (r3, g3) \<Rightarrow>
      case random g3 of (r4, g4) \<Rightarrow>
      case random g4 of (r5, g5) \<Rightarrow>
        (let radius = 30 + r1 * 15 in
         g5\<lparr>oxygenBubbles := oxygenBubbles g5 @
           [\<lparr>OxygenBubble.x = GameObject.x (oxygenGenerator g5)
                                + GameObject.width (oxygenGenerator g5) / 2
                                + (r2 * 20 - 10),
             OxygenBubble.y = GameObject.y (oxygenGenerator g5),
             OxygenBubble.radius = radius,
             OxygenBubble.speed = 0.6 + r3 * 0.6,
             OxygenBubble.color = Css ''rgba(100, 200, 255, 0.8)'',
             OxygenBubble.oxygenAmount = 60 + r4 * 40,
             OxygenBubble.offset = r5 * pi * 2,
             OxygenBubble.isLarge = True,
             OxygenBubble.pulse = Some 0\<rparr>]\<rparr>))"

definition generateOxygenBonus :: "Game \<Rightarrow> Game" where
  "generateOxygenBonus g =
     (case random g of (r1, g1) \<Rightarrow>
      case random g1 of (r2, g2) \<Rightarrow>
        (let bx = 50 + r1 * (canvas_width - 100);
             by = canvas_height - 50 in
         g2\<lparr>oxygenBonus := oxygenBonus g2 @
           [\<lparr>GameObject.x = bx, GameObject.y = by,
             GameObject.width = 50, GameObject.height = 50,
             OxygenBonus.value = 150,
             OxygenBonus.angle = 0,
             OxygenBonus.rotationSpeed = 0.01 + r2 * 0.02,
             OxygenBonus.dy = - 0.8,
             OxygenBonus.fullyVisible = False,
             OxygenBonus.alpha = 0,
             OxygenBonus.lifespan = 800\<rparr>]\<rparr>))"

definition generateCrab :: "Game \<Rightarrow> Game" where
  "generateCrab g =
     (case random g of (r1, g1) \<Rightarrow>
      case random g1 of (r2, g2) \<Rightarrow>
        (let startFromLeft = (r1 < 0.5);
             speed = 0.8 + r2 * 0.4;
             direction = (if startFromLeft then 1 else - 1 :: real);
             width = (40 :: real);
             height = (25 :: real);
             cy = canvas_height - height - 5 in
         g2\<lparr>crabs := crabs g2 @
           [\<lparr>GameObject.x = (if startFromLeft then - width else canvas_width),
             GameObject.y = cy,
             GameObject.width = width, GameObject.height = height,
             Crab.dx = speed * direction,
             Crab.color = Css ''#ff5533'',
             Crab.speed = speed\<rparr>]\<rparr>))"

text \<open>One pass of the loop of \<^verbatim>\<open>createLevelUpEffect\<close>: a particle on one of the four edges.\<close>

definition levelUpParticle :: "Game \<Rightarrow> Game" where
  "levelUpParticle g =
     (case random g of (r0, g0) \<Rightarrow>
        (let edge = \<lfloor>r0 * 4\<rfloor> in
         case (if edge = 0 then (case random g0 of (r, g') \<Rightarrow> ((r * canvas_width, 0), g'))
               else if edge = 1 then (case random g0 of (r, g') \<Rightarrow> ((canvas_width, r * canvas_height), g'))
               else if edge = 2 then (case random g0 of (r, g') \<Rightarrow> ((r * canvas_width, canvas_height), g'))
               else if edge = 3 then (case random g0 of (r, g') \<Rightarrow> ((0, r * canvas_height), g'))
               else ((0, 0), g0)) of ((px, py), g1) \<Rightarrow>
         case random g1 of (r2, g2) \<Rightarrow>
         case random g2 of (r3, g3) \<Rightarrow>
         case random g3 of (r4, g4) \<Rightarrow>
         case random g4 of (r5, g5) \<Rightarrow>
           g5\<lparr>particles := particles g5 @
             [\<lparr>Particle.x = px, Particle.y = py,
               Particle.dx = (r2 - 0.5) * 3, Particle.dy = (r3 - 0.5) * 3,
               Particle.radius = 2 + r4 * 3,
               Particle.color = (if r5 < 0.5 then Css ''#ffff00'' else Css ''#ffffff''),
               Particle.lifespan = PARTICLE_LIFESPAN * 2,
               Particle.initialLifespan = PARTICLE_LIFESPAN * 2\<rparr>]\<rparr>))"

definition createLevelUpEffect :: "Game \<Rightarrow> Game" where
  "createLevelUpEffect g = (levelUpParticle ^^ 40) g"

subsection \<open>Player and weapon update\<close>

text \<open>The combo countdown of \<^verbatim>\<open>updateDiver\<close> (the block under "Update combo timer").\<close>

definition comboTick :: "real \<Rightarrow> Diver \<Rightarrow> Diver" where
  "comboTick scaleFactor d =
     (if Diver.comboTimer d > 0 then
        (let d1 = d\<lparr>Diver.comboTimer := Diver.comboTimer d - scaleFactor\<rparr> in
         if Diver.comboTimer d1 \<le> 0
         then d1\<lparr>Diver.comboCounter := 0, Diver.comboTimer := 0\<rparr> else d1)
      else d)"

definition shieldTick :: "real \<Rightarrow> Diver \<Rightarrow> Diver" where
  "shieldTick scaleFactor d =
     (if Diver.shieldTimer d > 0 then
        (let d1 = d\<lparr>Diver.shieldTimer := Diver.shieldTimer d - scaleFactor\<rparr> in
         if Diver.shieldTimer d1 \<le> 0 then d1\<lparr>Diver.isShieldActive := False\<rparr> else d1)
      else d)"

text \<open>The movement part of \<^verbatim>\<open>updateDiver\<close>, one definition per group of statements:
  buoyancy, horizontal and vertical steering, integration, clamping to the arena.
  \<^verbatim>\<open>Math.pow(0.9, scaleFactor)\<close> is \<open>0.9 powr scaleFactor\<close>.\<close>

definition buoyancy :: "real \<Rightarrow> Diver \<Rightarrow> Diver" where
  "buoyancy scaleFactor d = d\<lparr>Diver.dy := Diver.dy d - 0.02 * scaleFactor\<rparr>"

definition steerHorizontal :: "real \<Rightarrow> Keys \<Rightarrow> Diver \<Rightarrow> Diver" where
  "steerHorizontal scaleFactor ks d =
     (if ArrowRight ks
      then d\<lparr>Diver.dx := Diver.speed d, Diver.facingDirection := FacingRight\<rparr>
      else if ArrowLeft ks
      then d\<lparr>Diver.dx := - Diver.speed d, Diver.facingDirection := FacingLeft\<rparr>
      else d\<lparr>Diver.dx := Diver.dx d * (0.9 powr scaleFactor)\<rparr>)"

definition steerVertical :: "real \<Rightarrow> Keys \<Rightarrow> Diver \<Rightarrow> Diver" where
  "steerVertical scaleFactor ks d =
     (if ArrowDown ks then d\<lparr>Diver.dy := Diver.speed d\<rparr>
      else if ArrowUp ks then d\<lparr>Diver.dy := - Diver.speed d\<rparr>
      else d\<lparr>Diver.dy := Diver.dy d * (0.9 powr scaleFactor)\<rparr>)"

definition integrateDiver :: "real \<Rightarrow> Diver \<Rightarrow> Diver" where
  "integrateDiver scaleFactor d =
     (let d1 = d\<lparr>GameObject.x := GameObject.x d + Diver.dx d * scaleFactor\<rparr>
      in d1\<lparr>GameObject.y := GameObject.y d1 + Diver.dy d1 * scaleFactor\<rparr>)"

definition clampDiver :: "Diver \<Rightarrow> Diver" where
  "clampDiver d =
     (let d1 = d\<lparr>GameObject.x :=
                    max 0 (min (canvas_width - GameObject.width d) (GameObject.x d))\<rparr>
      in d1\<lparr>GameObject.y :=
               max 0 (min (canvas_height - GameObject.height d1) (GameObject.y d1))\<rparr>)"

definition moveDiver :: "real \<Rightarrow> Keys \<Rightarrow> Diver \<Rightarrow> Diver" where
  "moveDiver scaleFactor ks d =
     clampDiver (integrateDiver scaleFactor
       (steerVertical scaleFactor ks (steerHorizontal scaleFactor ks (buoyancy scaleFactor d))))"

definition updateDiver :: "real \<Rightarrow> Game \<Rightarrow> Game" where
  "updateDiver deltaTime g =
     (let scaleFactor = deltaTime / (1000 / 60) in
      g\<lparr>diver := shieldTick scaleFactor
                    (comboTick scaleFactor (moveDiver scaleFactor (keys g) (diver g)))\<rparr>)"

definition fireHarpoon :: "Game \<Rightarrow> Game" where
  "fireHarpoon g =
     (let d = diver g;
          direction = (if Diver.facingDirection d = FacingRight then 1 else - 1 :: real);
          speed = (10 :: real)
      in g\<lparr>harpoons := harpoons g @
           [\<lparr>Harpoon.x = (if Diver.facingDirection d = FacingLeft then GameObject.x d
                            else GameObject.x d + GameObject.width d),
             Harpoon.y = GameObject.y d + GameObject.height d / 2,
             Harpoon.dx = direction * speed,
             Harpoon.dy = 0,
             Harpoon.length_h = 20,
             Harpoon.width = 3,
             Harpoon.angle = (if direction = 1 then 0 else pi),
             Harpoon.lifespan = 60\<rparr>]\<rparr>)"

text \<open>The callback of \<^verbatim>\<open>game.harpoons.filter\<close> in \<^verbatim>\<open>updateWeaponSystem\<close>.\<close>

definition harpoonStep :: "real \<Rightarrow> Harpoon \<Rightarrow> Harpoon option" where
  "harpoonStep scaleFactor harpoon =
     (let h1 = harpoon\<lparr>Harpoon.x := Harpoon.x harpoon + Harpoon.dx harpoon * scaleFactor\<rparr>;
          h2 = h1\<lparr>Harpoon.y := Harpoon.y h1 + Harpoon.dy h1 * scaleFactor\<rparr>;
          h3 = h2\<lparr>Harpoon.lifespan := Harpoon.lifespan h2 - scaleFactor\<rparr>
      in if Harpoon.lifespan h3 > 0 \<and>
            Harpoon.x h3 > - Harpoon.length_h h3 \<and>
            Harpoon.x h3 < canvas_width + Harpoon.length_h h3 \<and>
            Harpoon.y h3 > - Harpoon.length_h h3 \<and>
            Harpoon.y h3 < canvas_height + Harpoon.length_h h3
         then Some h3 else None)"

definition weaponCooldownTick :: "real \<Rightarrow> Diver \<Rightarrow> Diver" where
  "weaponCooldownTick scaleFactor d =
     (if Diver.weaponCooldown d > 0 then
        (let d1 = d\<lparr>Diver.weaponCooldown := Diver.weaponCooldown d - scaleFactor\<rparr> in
         if Diver.weaponCooldown d1 \<le> 0 then d1\<lparr>Diver.canFire := True\<rparr> else d1)
      else d)"

definition updateWeaponSystem :: "real \<Rightarrow> Game \<Rightarrow> Game" where
  "updateWeaponSystem deltaTime g =
     (let scaleFactor = deltaTime / (1000 / 60);
          g1 = g\<lparr>diver := weaponCooldownTick scaleFactor (diver g)\<rparr>;
          g2 = (if Space (keys g1) \<and>
                   (Diver.canFire (diver g1) \<or>
                    Diver.weaponCooldown (diver g1)
                      \<le> Diver.weaponCooldownMax (diver g1) * RAPID_FIRE_THRESHOLD_FACTOR)
                then (let g' = fireHarpoon g1 in
                      g'\<lparr>diver := (diver g')\<lparr>Diver.canFire := False,
                          Diver.weaponCooldown := Diver.weaponCooldownMax (diver g')\<rparr>\<rparr>)
                else g1)
      in g2\<lparr>harpoons := List.map_filter (harpoonStep scaleFactor) (harpoons g2)\<rparr>)"

subsection \<open>Pickups: treasures and hearts\<close>

text \<open>The fall of a pickup; \<open>gravity\<close> is \<^verbatim>\<open>GRAVITY\<close> for a treasure and
  \<^verbatim>\<open>GRAVITY * 0.8\<close> for a heart.\<close>

definition pickupFall :: "real \<Rightarrow> real \<Rightarrow> Pickup \<Rightarrow> Pickup" where
  "pickupFall gravity scaleFactor p =
     (let p1 = p\<lparr>Pickup.angle := Pickup.angle p + Pickup.rotationSpeed p * scaleFactor\<rparr> in
      if Pickup.isFalling p1 then
        (let p2 = p1\<lparr>Pickup.dy := Pickup.dy p1 + gravity * scaleFactor\<rparr>;
             p3 = p2\<lparr>GameObject.y := GameObject.y p2 + Pickup.dy p2 * scaleFactor\<rparr>
         in if GameObject.y p3 \<ge> Pickup.targetY p3
            then p3\<lparr>GameObject.y := Pickup.targetY p3, Pickup.isFalling := False,
                    Pickup.dy := 0\<rparr>
            else p3)
      else p1)"

definition treasureFall :: "real \<Rightarrow> Treasure \<Rightarrow> Treasure" where
  "treasureFall scaleFactor treasure = pickupFall GRAVITY scaleFactor treasure"

definition heartFall :: "real \<Rightarrow> Heart \<Rightarrow> Heart" where
  "heartFall scaleFactor heart = pickupFall (GRAVITY * 0.8) scaleFactor heart"

text \<open>The combo update that follows every credited score.\<close>

definition bumpCombo :: "Game \<Rightarrow> Game" where
  "bumpCombo g =
     g\<lparr>diver := (diver g)\<lparr>Diver.comboCounter := Diver.comboCounter (diver g) + 1,
                            Diver.comboTimer := COMBO_TIMEOUT_FRAMES\<rparr>\<rparr>"

definition collectTreasure :: "Treasure \<Rightarrow> Game \<Rightarrow> Game" where
  "collectTreasure treasure g =
     (let g1 = g\<lparr>score := score g
                    + Pickup.value treasure * (Diver.comboCounter (diver g) + 1)\<rparr>;
          g2 = bumpCombo g1
      in createExplosion (GameObject.x treasure + GameObject.width treasure / 2)
           (GameObject.y treasure + GameObject.height treasure / 2)
           (Pickup.color treasure) g2)"

definition treasureStep :: "real \<Rightarrow> Treasure \<Rightarrow> Game \<Rightarrow> Treasure option \<times> Game" where
  "treasureStep scaleFactor treasure g =
     (let t = treasureFall scaleFactor treasure in
      if isColliding True (diver g) t False then (None, collectTreasure t g)
      else (Some t, g))"

definition updateTreasures :: "real \<Rightarrow> Game \<Rightarrow> Game" where
  "updateTreasures deltaTime g =
     (let scaleFactor = deltaTime / (1000 / 60) in
      case forEach (treasureStep scaleFactor) (treasures g) g of
        (ts, g1) \<Rightarrow> g1\<lparr>treasures := ts\<rparr>)"

text \<open>The body of \<^verbatim>\<open>if (game.playerLives < MAX_PLAYER_LIVES)\<close> in \<^verbatim>\<open>updateHearts\<close>.\<close>

definition collectHeart :: "Heart \<Rightarrow> Game \<Rightarrow> Game" where
  "collectHeart heart g =
     (let g1 = g\<lparr>playerLives := playerLives g + Pickup.value heart\<rparr>;
          g2 = g1\<lparr>playerLives := min (playerLives g1) MAX_PLAYER_LIVES\<rparr>;
          g3 = g2\<lparr>score := score g2 + 50 * (Diver.comboCounter (diver g2) + 1)\<rparr>;
          g4 = bumpCombo g3;
          g5 = createExplosion (GameObject.x heart + GameObject.width heart / 2)
                 (GameObject.y heart + GameObject.height heart / 2)
                 (Pickup.color heart) g4
      in createExplosion (GameObject.x heart + GameObject.width heart / 2)
           (GameObject.y heart + GameObject.height heart / 2)
           (Css ''#ff88aa'') g5)"

definition heartStep :: "real \<Rightarrow> Heart \<Rightarrow> Game \<Rightarrow> Heart option \<times> Game" where
  "heartStep scaleFactor heart g =
     (let h = heartFall scaleFactor heart in
      if isColliding True (diver g) h False
      then (None, if playerLives g < MAX_PLAYER_LIVES then collectHeart h g else g)
      else (Some h, g))"

definition updateHearts :: "real \<Rightarrow> Game \<Rightarrow> Game" where
  "updateHearts deltaTime g =
     (let scaleFactor = deltaTime / (1000 / 60) in
      case forEach (heartStep scaleFactor) (hearts g) g of
        (hs, g1) \<Rightarrow> g1\<lparr>hearts := hs\<rparr>)"

subsection \<open>Hostiles\<close>

text \<open>
  \<^verbatim>\<open>for (let h of hs) { if (hit h) { ...; hs = hs.filter(o => o !== h); break } }\<close>:
  the list without the first element that is hit, if there is one.
\<close>

fun removeFirst :: "('a \<Rightarrow> bool) \<Rightarrow> 'a list \<Rightarrow> 'a list option" where
  "removeFirst hit [] = None"
| "removeFirst hit (h # hs) =
     (if hit h then Some hs else map_option ((#) h) (removeFirst hit hs))"

definition moveEnemy :: "real \<Rightarrow> Enemy \<Rightarrow> Enemy" where
  "moveEnemy scaleFactor enemy =
     (let e1 = enemy\<lparr>GameObject.x := GameObject.x enemy + Enemy.dx enemy * scaleFactor\<rparr>;
          e2 = e1\<lparr>GameObject.y := Enemy.baseY e1 + sin (Enemy.offsetY e1) * Enemy.amplitude e1\<rparr>;
          e3 = e2\<lparr>Enemy.offsetY := Enemy.offsetY e2 + Enemy.frequency e2 * scaleFactor\<rparr>
      in if GameObject.x e3 < - GameObject.width e3 * 2 \<and> Enemy.dx e3 < 0
         then e3\<lparr>GameObject.x := canvas_width + GameObject.width e3\<rparr>
         else if GameObject.x e3 > canvas_width + GameObject.width e3 * 2 \<and> Enemy.dx e3 > 0
         then e3\<lparr>GameObject.x := - GameObject.width e3\<rparr>
         else e3)"

text \<open>The block "Collision with player (if no shield active)".\<close>

definition enemyHitsDiver :: "Enemy \<Rightarrow> Game \<Rightarrow> Enemy \<times> Game" where
  "enemyHitsDiver enemy g =
     (if isColliding True (diver g) enemy (Enemy.isShark enemy)
         \<and> \<not> Diver.isShieldActive (diver g)
      then
        (let g1 = g\<lparr>oxygen := max 0 (oxygen g - 30)\<rparr>;
             g2 = createExplosion
                    (GameObject.x (diver g1) + GameObject.width (diver g1) / 2)
                    (GameObject.y (diver g1) + GameObject.height (diver g1) / 2)
                    (Css ''#ff0000'') g1;
             g3 = g2\<lparr>diver := (diver g2)\<lparr>Diver.comboCounter := 0, Diver.comboTimer := 0\<rparr>\<rparr>;
             e1 = enemy\<lparr>Enemy.dx := - Enemy.dx enemy\<rparr>;
             e2 = e1\<lparr>GameObject.x := GameObject.x e1 + Enemy.dx e1 * 20\<rparr>
         in (e2, g3))
      else (enemy, g))"

text \<open>The block "If enemy is dead": drops, removal and the delayed respawn. The
  \<^verbatim>\<open>setTimeout\<close> is recorded in \<open>respawnTimers\<close> with its delay.\<close>

definition enemyDies :: "Enemy \<Rightarrow> Game \<Rightarrow> Game" where
  "enemyDies enemy g =
     (let g1 = (if Enemy.isShark enemy then
                  (case random g of (r, g') \<Rightarrow>
                     if r < 0.5 then generateHeart (GameObject.x enemy, GameObject.y enemy) g'
                     else g')
                else g);
          g2 = (if Enemy.isShark enemy then
                  (case random g1 of (r, g') \<Rightarrow>
                     if r < 0.4
                     then generateTreasures 1 (Some (GameObject.x enemy, GameObject.y enemy)) g'
                     else g')
                else g1)
      in case random g2 of (r, g3) \<Rightarrow>
           g3\<lparr>respawnTimers := respawnTimers g3 @ [1000 + r * 2000]\<rparr>)"

text \<open>The body of \<^verbatim>\<open>if (isColliding(harpoonRect, enemy))\<close>; \<open>rest\<close> is
  \<^verbatim>\<open>game.harpoons\<close> without the harpoon that hit.\<close>

definition harpoonHitsEnemy :: "Enemy \<Rightarrow> Harpoon list \<Rightarrow> Game \<Rightarrow> Enemy option \<times> Game" where
  "harpoonHitsEnemy enemy rest g =
     (let g1 = createExplosion (GameObject.x enemy + GameObject.width enemy / 2)
                 (GameObject.y enemy + GameObject.height enemy / 2) (Enemy.color enemy) g;
          e1 = enemy\<lparr>Enemy.health := Enemy.health enemy - 1\<rparr>;
          g2 = (if Enemy.health e1 \<le> 0
                then g1\<lparr>score := score g1 + 25 * (Diver.comboCounter (diver g1) + 1)\<rparr>
                else g1\<lparr>score := score g1 + 10 * (Diver.comboCounter (diver g1) + 1)\<rparr>);
          g3 = bumpCombo g2;
          g4 = g3\<lparr>harpoons := rest\<rparr>
      in if Enemy.health e1 \<le> 0 then (None, enemyDies e1 g4)
         else (Some (e1\<lparr>Enemy.dx := Enemy.dx e1 * (- 0.8)\<rparr>), g4))"

definition enemyStep :: "real \<Rightarrow> Enemy \<Rightarrow> Game \<Rightarrow> Enemy option \<times> Game" where
  "enemyStep scaleFactor enemy g =
     (case enemyHitsDiver (moveEnemy scaleFactor enemy) g of (e, g1) \<Rightarrow>
        (case removeFirst (\<lambda>harpoon. isColliding False (harpoonRect harpoon) e (Enemy.isShark e))
                (harpoons g1) of
           None \<Rightarrow> (Some e, g1)
         | Some rest \<Rightarrow> harpoonHitsEnemy e rest g1))"

definition updateEnemies :: "real \<Rightarrow> Game \<Rightarrow> Game" where
  "updateEnemies deltaTime g =
     (let scaleFactor = deltaTime / (1000 / 60) in
      case forEach (enemyStep scaleFactor) (enemies g) g of
        (es, g1) \<Rightarrow>
          (let g2 = g1\<lparr>enemies := es\<rparr> in
           if int (length (enemies g2)) < 3 + level g2 then
             (case random g2 of (r, g3) \<Rightarrow>
                if r < 0.002 * scaleFactor then generateEnemies 1 g3 else g3)
           else g2))"

subsection \<open>Crabs\<close>

definition crabEatsTreasure :: "Crab \<Rightarrow> Treasure \<Rightarrow> Game \<Rightarrow> Treasure option \<times> Game" where
  "crabEatsTreasure crab treasure g =
     (if \<not> Pickup.isFalling treasure \<and> isColliding False crab treasure False then
        (let g1 = createExplosion (GameObject.x treasure + GameObject.width treasure / 2)
                    (GameObject.y treasure + GameObject.height treasure / 2)
                    (Pickup.color treasure) g
         in (None, g1\<lparr>score := score g1 + 5\<rparr>))
      else (Some treasure, g))"

definition crabEatsHeart :: "Crab \<Rightarrow> Heart \<Rightarrow> Game \<Rightarrow> Heart option \<times> Game" where
  "crabEatsHeart crab heart g =
     (if \<not> Pickup.isFalling heart \<and> isColliding False crab heart False then
        (None, createExplosion (GameObject.x heart + GameObject.width heart / 2)
                 (GameObject.y heart + GameObject.height heart / 2)
                 (Pickup.color heart) g)
      else (Some heart, g))"

definition moveCrab :: "real \<Rightarrow> Crab \<Rightarrow> Crab" where
  "moveCrab scaleFactor crab =
     (let c1 = crab\<lparr>GameObject.x := GameObject.x crab + Crab.dx crab * scaleFactor\<rparr>
      in if GameObject.x c1 < - GameObject.width c1 * 2 \<and> Crab.dx c1 < 0
         then c1\<lparr>GameObject.x := canvas_width + GameObject.width c1\<rparr>
         else if GameObject.x c1 > canvas_width + GameObject.width c1 * 2 \<and> Crab.dx c1 > 0
         then c1\<lparr>GameObject.x := - GameObject.width c1\<rparr>
         else c1)"

text \<open>The two pickup loops in the body of the crab loop.\<close>

definition crabForages :: "Crab \<Rightarrow> Game \<Rightarrow> Game" where
  "crabForages crab g =
     (case forEach (crabEatsTreasure crab) (treasures g) g of (ts, ga) \<Rightarrow>
        (let g1 = ga\<lparr>treasures := ts\<rparr> in
         case forEach (crabEatsHeart crab) (hearts g1) g1 of (hs, gb) \<Rightarrow>
           gb\<lparr>hearts := hs\<rparr>))"

text \<open>The harpoon loop in the body of the crab loop.\<close>

definition crabHarpooned :: "Crab \<Rightarrow> Game \<Rightarrow> Crab \<times> Game" where
  "crabHarpooned crab g =
     (case removeFirst (\<lambda>harpoon. isColliding False (harpoonRect harpoon) crab False)
             (harpoons g) of
        None \<Rightarrow> (crab, g)
      | Some rest \<Rightarrow>
          (let c1 = crab\<lparr>Crab.dx := - Crab.dx crab\<rparr>;
               c2 = c1\<lparr>GameObject.x := GameObject.x c1 + Crab.dx c1 * 10\<rparr>;
               g1 = g\<lparr>harpoons := rest\<rparr>
           in (c2, createExplosion (GameObject.x c2 + GameObject.width c2 / 2)
                     (GameObject.y c2 + GameObject.height c2 / 2) (Crab.color c2) g1)))"

text \<open>The body of the crab loop; a crab is never removed.\<close>

definition crabStep :: "real \<Rightarrow> Crab \<Rightarrow> Game \<Rightarrow> Crab option \<times> Game" where
  "crabStep scaleFactor crab g =
     (let c = moveCrab scaleFactor crab in
      case crabHarpooned c (crabForages c g) of (c', g') \<Rightarrow> (Some c', g'))"

definition updateCrabs :: "real \<Rightarrow> Game \<Rightarrow> Game" where
  "updateCrabs deltaTime g =
     (let scaleFactor = deltaTime / (1000 / 60);
          g1 = (if length (crabs g) = 0 then
                  (case random g of (r, g') \<Rightarrow>
                     if r < 0.001 * scaleFactor then generateCrab g' else g')
                else g)
      in case forEach (crabStep scaleFactor) (crabs g1) g1 of
           (cs, g2) \<Rightarrow> g2\<lparr>crabs := cs\<rparr>)"

subsection \<open>Session end\<close>

definition endGame :: "Game \<Rightarrow> Game" where
  "endGame g = g\<lparr>gameOver := True, finalScore := score g, uiGameState := UiOver\<rparr>"

subsection \<open>Oxygen system\<close>

text \<open>The depth-scaled depletion at the head of \<^verbatim>\<open>updateOxygenBubbles\<close>.\<close>

definition depleteOxygen :: "real \<Rightarrow> Game \<Rightarrow> Game" where
  "depleteOxygen scaleFactor g =
     (let depthFactor = GameObject.y (diver g) / canvas_height;
          depthMultiplier = 1.0 + depthFactor
      in g\<lparr>oxygen := max 0 (oxygen g
             - (Diver.oxygenDepletionRate (diver g) * depthMultiplier) * scaleFactor)\<rparr>)"

text \<open>The two warning cues only play a sound; the second one draws a random number
  when the oxygen is below 10 percent.\<close>

definition oxygenWarnings :: "real \<Rightarrow> Game \<Rightarrow> Game" where
  "oxygenWarnings scaleFactor g =
     (let oxygenPercentage = oxygen g / MAX_OXYGEN in
      if oxygenPercentage < 0.1 then snd (random g) else g)"

text \<open>The movement of one bubble: rise, sway, and the pulse of a large bubble.\<close>

definition moveBubble :: "real \<Rightarrow> OxygenBubble \<Rightarrow> OxygenBubble" where
  "moveBubble scaleFactor bubble =
     (let b1 = bubble\<lparr>OxygenBubble.y := OxygenBubble.y bubble
                         - OxygenBubble.speed bubble * scaleFactor\<rparr>;
          b2 = b1\<lparr>OxygenBubble.x := OxygenBubble.x b1
                         + sin (OxygenBubble.offset b1) * 0.3 * scaleFactor\<rparr>;
          b3 = b2\<lparr>OxygenBubble.offset := OxygenBubble.offset b2 + 0.03 * scaleFactor\<rparr>
      in case OxygenBubble.pulse b3 of
           Some p \<Rightarrow>
             if OxygenBubble.isLarge b3 then
               (let b' = b3\<lparr>OxygenBubble.pulse := Some (p + 0.05 * scaleFactor)\<rparr>;
                    pulseFactor = sin (p + 0.05 * scaleFactor) * 0.1 + 1
                in b'\<lparr>OxygenBubble.radius :=
                       (if OxygenBubble.isLarge b' then 25 else 10) * pulseFactor\<rparr>)
             else b3
         | None \<Rightarrow> b3)"

text \<open>The body of the bubble loop: movement, collection by the diver, leaving the screen.\<close>

definition bubbleStep :: "real \<Rightarrow> OxygenBubble \<Rightarrow> Game \<Rightarrow> OxygenBubble option \<times> Game" where
  "bubbleStep scaleFactor bubble g =
     (let b4 = moveBubble scaleFactor bubble;
          collided = isCollidingCircle True (diver g) b4;
          g1 = (if collided then
                  createExplosion (OxygenBubble.x b4) (OxygenBubble.y b4) (OxygenBubble.color b4)
                    (g\<lparr>oxygen := min MAX_OXYGEN (oxygen g + OxygenBubble.oxygenAmount b4)\<rparr>)
                else g);
          offScreen = (OxygenBubble.y b4 < - OxygenBubble.radius b4)
      in (if collided \<or> offScreen then None else Some b4, g1))"

text \<open>The block "Handle player death if oxygen depletes completely".\<close>

definition oxygenDeath :: "Game \<Rightarrow> Game" where
  "oxygenDeath g =
     (if oxygen g \<le> 0 \<and> gameStarted g \<and> \<not> gameOver g then
        (let g1 = g\<lparr>playerLives := playerLives g - 1\<rparr>;
             g2 = createExplosion
                    (GameObject.x (diver g1) + GameObject.width (diver g1) / 2)
                    (GameObject.y (diver g1) + GameObject.height (diver g1) / 2)
                    (Css ''#ff0000'') g1
         in if playerLives g2 > 0 then
              g2\<lparr>oxygen := MAX_OXYGEN / 2,
                 diver := (diver g2)\<lparr>GameObject.x := canvas_width / 2,
                                       GameObject.y := canvas_height / 2,
                                       Diver.comboCounter := 0,
                                       Diver.comboTimer := 0,
                                       Diver.isShieldActive := True,
                                       Diver.shieldTimer := 180\<rparr>\<rparr>
            else endGame g2)
      else g)"

text \<open>Everything of \<^verbatim>\<open>updateOxygenBubbles\<close> before the death check.\<close>

definition breatheAndBubbles :: "real \<Rightarrow> Game \<Rightarrow> Game" where
  "breatheAndBubbles scaleFactor g =
     (let g1 = oxygenWarnings scaleFactor (depleteOxygen scaleFactor g) in
      case forEach (bubbleStep scaleFactor) (oxygenBubbles g1) g1 of
        (bs, g2) \<Rightarrow>
          (let g3 = g2\<lparr>oxygenBubbles := bs\<rparr> in
           case random g3 of (r1, g4) \<Rightarrow>
             (let g5 = (if r1 < 0.005 * scaleFactor then generateOxygenBubbles 1 g4 else g4) in
              case random g5 of (r2, g6) \<Rightarrow>
                if r2 < 0.0007 * scaleFactor then generateLargeOxygenBubble g6 else g6)))"

definition updateOxygenBubbles :: "real \<Rightarrow> Game \<Rightarrow> Game" where
  "updateOxygenBubbles deltaTime g =
     (let scaleFactor = deltaTime / (1000 / 60) in
      oxygenDeath (breatheAndBubbles scaleFactor g))"

subsection \<open>Oxygen bonus\<close>

text \<open>The first part of the filter callback of \<^verbatim>\<open>updateOxygenBonus\<close>: fade in,
  rotation, rise, lifespan, fade out.\<close>

definition moveBonus :: "real \<Rightarrow> OxygenBonus \<Rightarrow> OxygenBonus" where
  "moveBonus scaleFactor bonus =
     (let b1 = (if \<not> OxygenBonus.fullyVisible bonus \<and> OxygenBonus.alpha bonus < 1 then
                  (let b' = bonus\<lparr>OxygenBonus.alpha := OxygenBonus.alpha bonus
                                      + 0.02 * scaleFactor\<rparr>
                   in if OxygenBonus.alpha b' \<ge> 1
                      then b'\<lparr>OxygenBonus.alpha := 1, OxygenBonus.fullyVisible := True\<rparr>
                      else b')
                else bonus);
          b2 = b1\<lparr>OxygenBonus.angle := OxygenBonus.angle b1
                      + OxygenBonus.rotationSpeed b1 * scaleFactor\<rparr>;
          b3 = b2\<lparr>GameObject.y := GameObject.y b2 + OxygenBonus.dy b2 * scaleFactor\<rparr>;
          b4 = b3\<lparr>OxygenBonus.lifespan := OxygenBonus.lifespan b3 - scaleFactor\<rparr>
      in if OxygenBonus.lifespan b4 < 100
         then b4\<lparr>OxygenBonus.alpha := max 0 (OxygenBonus.alpha b4 - 0.02 * scaleFactor)\<rparr>
         else b4)"

definition bonusCentreX :: "OxygenBonus \<Rightarrow> real" where
  "bonusCentreX bonus = GameObject.x bonus + GameObject.width bonus / 2"

definition bonusCentreY :: "OxygenBonus \<Rightarrow> real" where
  "bonusCentreY bonus = GameObject.y bonus + GameObject.height bonus / 2"

text \<open>The branch "Bonus reached the surface safely".\<close>

definition bonusSurfaced :: "OxygenBonus \<Rightarrow> Game \<Rightarrow> Game" where
  "bonusSurfaced bonus g =
     (let g1 = g\<lparr>oxygen := min MAX_OXYGEN
                    (oxygen g + real_of_int (OxygenBonus.value bonus) * 1.5)\<rparr>;
          g2 = g1\<lparr>score := score g1 + 250 * (Diver.comboCounter (diver g1) + 1)\<rparr>;
          g3 = bumpCombo g2;
          g4 = createExplosion (bonusCentreX bonus) (bonusCentreY bonus) (Css ''#88ffff'') g3;
          g5 = createExplosion (bonusCentreX bonus) (bonusCentreY bonus) (Css ''#ffffff'') g4
      in createExplosion (bonusCentreX bonus) (bonusCentreY bonus) (Css ''#ffff88'') g5)"

text \<open>The branch "If bonus was hit by an enemy, destroy it".\<close>

definition bonusDestroyed :: "OxygenBonus \<Rightarrow> Game \<Rightarrow> Game" where
  "bonusDestroyed bonus g =
     (let g1 = createExplosion (bonusCentreX bonus) (bonusCentreY bonus) (Css ''#ff5555'') g
      in createExplosion (bonusCentreX bonus) (bonusCentreY bonus) (Css ''#ffaa55'') g1)"

text \<open>The branch "Collision with diver".\<close>

definition bonusCollected :: "OxygenBonus \<Rightarrow> Game \<Rightarrow> Game" where
  "bonusCollected bonus g =
     (let g1 = g\<lparr>oxygen := min MAX_OXYGEN
                    (oxygen g + real_of_int (OxygenBonus.value bonus))\<rparr>;
          g2 = g1\<lparr>score := score g1 + 150 * (Diver.comboCounter (diver g1) + 1)\<rparr>;
          g3 = bumpCombo g2;
          g4 = createExplosion (bonusCentreX bonus) (bonusCentreY bonus) (Css ''#88ffff'') g3
      in createExplosion (bonusCentreX bonus) (bonusCentreY bonus) (Css ''#ffff88'') g4)"

definition hitByEnemy :: "OxygenBonus \<Rightarrow> Game \<Rightarrow> bool" where
  "hitByEnemy bonus g = list_ex (\<lambda>enemy. isColliding False enemy bonus False) (enemies g)"

definition bonusStep :: "real \<Rightarrow> OxygenBonus \<Rightarrow> Game \<Rightarrow> OxygenBonus option \<times> Game" where
  "bonusStep scaleFactor bonus g =
     (let b = moveBonus scaleFactor bonus in
      if GameObject.y b \<le> 30 then (None, bonusSurfaced b g)
      else if hitByEnemy b g then (None, bonusDestroyed b g)
      else if isColliding True (diver g) b False then (None, bonusCollected b g)
      else (if OxygenBonus.lifespan b > 0 \<and> OxygenBonus.alpha b > 0 then Some b else None, g))"

definition updateOxygenBonus :: "real \<Rightarrow> Game \<Rightarrow> Game" where
  "updateOxygenBonus deltaTime g =
     (let scaleFactor = deltaTime / (1000 / 60);
          g1 = (if length (oxygenBonus g) = 0 then
                  (case random g of (r, g') \<Rightarrow>
                     if r < 0.0005 * scaleFactor then generateOxygenBonus g' else g')
                else g)
      in case forEach (bonusStep scaleFactor) (oxygenBonus g1) g1 of
           (bs, g2) \<Rightarrow> g2\<lparr>oxygenBonus := bs\<rparr>)"

subsection \<open>Particles and level progression\<close>

definition particleStep :: "real \<Rightarrow> Particle \<Rightarrow> Particle option" where
  "particleStep scaleFactor particle =
     (let p1 = particle\<lparr>Particle.x := Particle.x particle
                           + Particle.dx particle * scaleFactor\<rparr>;
          p2 = p1\<lparr>Particle.y := Particle.y p1 + Particle.dy p1 * scaleFactor\<rparr>;
          p3 = p2\<lparr>Particle.dx := Particle.dx p2 * 0.95\<rparr>;
          p4 = p3\<lparr>Particle.dy := Particle.dy p3 * 0.95\<rparr>;
          p5 = p4\<lparr>Particle.lifespan := Particle.lifespan p4 - scaleFactor\<rparr>
      in if Particle.lifespan p5 > 0 then Some p5 else None)"

definition updateParticles :: "real \<Rightarrow> Game \<Rightarrow> Game" where
  "updateParticles deltaTime g =
     (let scaleFactor = deltaTime / (1000 / 60) in
      g\<lparr>particles := List.map_filter (particleStep scaleFactor) (particles g)\<rparr>)"

definition updateLevel :: "Game \<Rightarrow> Game" where
  "updateLevel g =
     (let levelThreshold = 2000 * level g in
      if score g \<ge> levelThreshold \<and> level g < 5 then
        (let g1 = g\<lparr>level := level g + 1\<rparr>;
             g2 = g1\<lparr>diver := (diver g1)\<lparr>Diver.oxygenDepletionRate :=
                                   Diver.oxygenDepletionRate (diver g1) + 0.02\<rparr>\<rparr>;
             g3 = generateEnemies (nat (level g2)) g2;
             g4 = generateOxygenBubbles 1 g3
         in createLevelUpEffect g4)
      else g)"

subsection \<open>The loop driver\<close>

text \<open>The ten subsystems in the order \<^verbatim>\<open>gameLoop\<close> calls them.\<close>

definition updateAll :: "real \<Rightarrow> Game \<Rightarrow> Game" where
  "updateAll deltaTime g =
     updateLevel
      (updateParticles deltaTime
        (updateOxygenBonus deltaTime
          (updateOxygenBubbles deltaTime
            (updateCrabs deltaTime
              (updateEnemies deltaTime
                (updateHearts deltaTime
                  (updateTreasures deltaTime
                    (updateWeaponSystem deltaTime
                      (updateDiver deltaTime g)))))))))"

definition gameLoop :: "real \<Rightarrow> Game \<Rightarrow> Game" where
  "gameLoop timestamp g =
     (let deltaTime = timestamp - lastUpdateTime g;
          g1 = g\<lparr>lastUpdateTime := timestamp\<rparr>
      in if deltaTime > 100 then requestAnimationFrame g1
         else
           (let g2 = (if gameStarted g1 \<and> \<not> gameOver g1 then updateAll deltaTime g1 else g1)
            in requestAnimationFrame (render g2)))"

text \<open>\<^verbatim>\<open>init()\<close>, run on the first key press; \<open>now\<close> is \<^verbatim>\<open>performance.now()\<close>.\<close>

definition init :: "real \<Rightarrow> Game \<Rightarrow> Game" where
  "init now g =
     (let g1 = g\<lparr>gameStarted := True, gameOver := False, score := 0,
                  oxygen := MAX_OXYGEN, level := 1, lastUpdateTime := now,
                  playerLives := 3\<rparr>;
          d = diver g1;
          g2 = g1\<lparr>diver := d\<lparr>GameObject.x := canvas_width / 2,
                               GameObject.y := canvas_height / 2,
                               Diver.dx := 0, Diver.dy := 0, Diver.size_d := 1,
                               GameObject.width := 70, GameObject.height := 47,
                               Diver.speed := Diver.baseSpeed d,
                               Diver.oxygenDepletionRate := 0.05,
                               Diver.canFire := True, Diver.weaponCooldown := 0,
                               Diver.weaponCooldownMax := 30,
                               Diver.facingDirection := FacingRight,
                               Diver.comboCounter := 0, Diver.comboTimer := 0,
                               Diver.isShieldActive := False, Diver.shieldTimer := 0\<rparr>\<rparr>;
          g3 = g2\<lparr>treasures := [], enemies := [], oxygenBubbles := [], harpoons := [],
                   particles := [], hearts := [], crabs := [], oxygenBonus := [],
                   oxygenGenerator :=
                     \<lparr>GameObject.x = canvas_width / 2 - 30,
                      GameObject.y = canvas_height - 60,
                      GameObject.width = 60, GameObject.height = 50\<rparr>\<rparr>;
          g4 = generateCrab (generateLargeOxygenBubble
                 (generateOxygenBubbles 2 (generateEnemies 3 g3)));
          g5 = requestAnimationFrame g4
      in g5\<lparr>uiGameState := UiPlaying, finalScore := 0\<rparr>)"

subsection \<open>Invariants and runs of ticks\<close>

text \<open>
  The conditions under which the bounds on oxygen and lives are kept by a tick: the
  bounds themselves, at least one life left while the session runs, a depletion rate
  that is not negative, pickups whose values are not negative (the factories give
  bubbles 15 to 100 oxygen, the bonus 150 and a heart one life), and a random source
  that returns no negative number (\<^verbatim>\<open>Math.random\<close> returns numbers from 0 to 1).
\<close>

definition wellFormed :: "Game \<Rightarrow> bool" where
  "wellFormed g \<longleftrightarrow>
     0 \<le> oxygen g \<and> oxygen g \<le> MAX_OXYGEN
   \<and> 0 \<le> playerLives g \<and> playerLives g \<le> MAX_PLAYER_LIVES
   \<and> (gameStarted g \<and> \<not> gameOver g \<longrightarrow> 1 \<le> playerLives g)
   \<and> 0 \<le> Diver.oxygenDepletionRate (diver g)
   \<and> (\<forall>b \<in> set (oxygenBubbles g). 0 \<le> OxygenBubble.oxygenAmount b)
   \<and> (\<forall>b \<in> set (oxygenBonus g). 0 \<le> OxygenBonus.value b)
   \<and> (\<forall>h \<in> set (hearts g). 0 \<le> Pickup.value h)
   \<and> (\<forall>n. 0 \<le> rnd g n)"

text \<open>The movement of one pickup over successive ticks with the scale factors \<open>sfs\<close>,
  for as long as it stays in its collection: \<^verbatim>\<open>updateTreasures\<close> and \<^verbatim>\<open>updateHearts\<close>
  apply \<open>pickupFall\<close> to it once per tick, and nothing else writes its fields.\<close>

definition fallRun :: "real \<Rightarrow> real list \<Rightarrow> Pickup \<Rightarrow> Pickup" where
  "fallRun gravity sfs p = foldl (\<lambda>q sf. pickupFall gravity sf q) p sfs"

text \<open>The browser calls \<^verbatim>\<open>gameLoop\<close> once per animation frame; \<open>runFrames\<close> is a
  session driven through the frames with the given timestamps.\<close>

fun runFrames :: "real list \<Rightarrow> Game \<Rightarrow> Game" where
  "runFrames [] g = g"
| "runFrames (t # ts) g = runFrames ts (gameLoop t g)"

text \<open>The scale factors of the frames with the timestamps \<open>ts\<close>, the frame before them
  having had the timestamp \<open>previous\<close>.\<close>

fun scaleFactors :: "real \<Rightarrow> real list \<Rightarrow> real list" where
  "scaleFactors previous [] = []"
| "scaleFactors previous (t # ts) = (t - previous) / (1000 / 60) # scaleFactors t ts"



text \<open>What holds of every bonus that \<^verbatim>\<open>generateOxygenBonus\<close> makes, for as long as it
  lives: it rises by 0.8 per frame unit, it started at \<open>canvas_height - 50 = 718\<close> with
  a lifespan of 800, so its height is tied to the lifespan it has left.\<close>

definition onCourse :: "OxygenBonus \<Rightarrow> bool" where
  "onCourse b \<longleftrightarrow> OxygenBonus.dy b = - 0.8
     \<and> GameObject.y b = 78 + 0.8 * OxygenBonus.lifespan b
     \<and> 0 < OxygenBonus.lifespan b"

subsection \<open>The initial instance and example states\<close>

text \<open>The object literal assigned to \<^verbatim>\<open>gameInstance.current\<close> when the component mounts;
  \<open>now\<close> is \<^verbatim>\<open>performance.now()\<close> and \<open>randoms\<close> the sequence \<^verbatim>\<open>Math.random\<close> will read.\<close>

definition newGame :: "real \<Rightarrow> (nat \<Rightarrow> real) \<Rightarrow> Game" where
  "newGame now randoms =
     \<lparr>gameStarted = False, gameOver = False, score = 0, oxygen = MAX_OXYGEN, level = 1,
      playerLives = 3, hearts = [], treasures = [], enemies = [], crabs = [],
      oxygenBubbles = [], harpoons = [], particles = [], oxygenBonus = [],
      oxygenGenerator =
        \<lparr>GameObject.x = canvas_width / 2 - 30, GameObject.y = canvas_height - 60,
         GameObject.width = 60, GameObject.height = 50\<rparr>,
      diver =
        \<lparr>GameObject.x = canvas_width / 2, GameObject.y = canvas_height / 2,
         GameObject.width = 70, GameObject.height = 47,
         Diver.speed = 4, Diver.baseSpeed = 4, Diver.dx = 0, Diver.dy = 0,
         Diver.color = Css ''#00a8ff'', Diver.oxygenDepletionRate = 0.05,
         Diver.size_d = 1, Diver.canFire = True, Diver.weaponCooldown = 0,
         Diver.weaponCooldownMax = 30, Diver.facingDirection = FacingRight,
         Diver.comboCounter = 0, Diver.comboTimer = 0,
         Diver.isShieldActive = False, Diver.shieldTimer = 0\<rparr>,
      keys = \<lparr>ArrowRight = False, ArrowLeft = False, ArrowUp = False, ArrowDown = False,
              Space = False\<rparr>,
      lastUpdateTime = now, animationFrameId = None,
      rnd = randoms, rndPos = 0, uiGameState = UiStart, finalScore = 0,
      respawnTimers = [], rafCount = 0, renderCount = 0\<rparr>"

text \<open>A random source that always returns the same number.\<close>

definition constRandoms :: "real \<Rightarrow> nat \<Rightarrow> real" where
  "constRandoms c n = c"

text \<open>A running session with no entities in the arena, and a few entities placed by hand;
  they are the concrete inputs of the examples below.\<close>

definition playingGame :: Game where
  "playingGame = (newGame 0 (constRandoms 0.9))\<lparr>gameStarted := True\<rparr>"

definition restingHeart :: Heart where
  "restingHeart =
     \<lparr>GameObject.x = 710, GameObject.y = 390, GameObject.width = 20, GameObject.height = 18,
      Pickup.color = Css ''#ff3377'', Pickup.value = 1, Pickup.angle = 0,
      Pickup.rotationSpeed = 0, Pickup.dy = 0, Pickup.targetY = 390,
      Pickup.isFalling = False\<rparr>"

definition smallFish :: Enemy where
  "smallFish =
     \<lparr>GameObject.x = 300, GameObject.y = 200, GameObject.width = 30, GameObject.height = 18,
      Enemy.color = Hsl 200 70 60, Enemy.dx = 1, Enemy.amplitude = 0, Enemy.frequency = 0,
      Enemy.offsetY = 0, Enemy.baseY = 200, Enemy.health = 1, Enemy.maxHealth = 1,
      Enemy.isShark = False, Enemy.aggressionLevel = 1\<rparr>"

definition flyingHarpoon :: Harpoon where
  "flyingHarpoon =
     \<lparr>Harpoon.x = 295, Harpoon.y = 209, Harpoon.dx = 10, Harpoon.dy = 0,
      Harpoon.length_h = 20, Harpoon.width = 3, Harpoon.angle = 0, Harpoon.lifespan = 60\<rparr>"

definition huntGame :: Game where
  "huntGame =
     playingGame\<lparr>enemies := [smallFish], harpoons := [flyingHarpoon],
                  diver := (diver playingGame)\<lparr>Diver.comboCounter := 2\<rparr>\<rparr>"

definition risingBonus :: OxygenBonus where
  "risingBonus =
     \<lparr>GameObject.x = 290, GameObject.y = 190, GameObject.width = 50, GameObject.height = 50,
      OxygenBonus.value = 150, OxygenBonus.angle = 0, OxygenBonus.rotationSpeed = 0.02,
      OxygenBonus.dy = - 0.8, OxygenBonus.fullyVisible = True, OxygenBonus.alpha = 1,
      OxygenBonus.lifespan = 500\<rparr>"

definition comboGame :: Game where
  "comboGame =
     playingGame\<lparr>oxygen := 0,
                  keys := (keys playingGame)\<lparr>ArrowRight := True, ArrowDown := True\<rparr>,
                  diver := (diver playingGame)\<lparr>Diver.comboCounter := 5,
                                                 Diver.comboTimer := 100\<rparr>\<rparr>"

text \<open>The diver held against the surface, steering up and right.\<close>

definition surfaceGame :: Game where
  "surfaceGame =
     playingGame\<lparr>keys := (keys playingGame)\<lparr>ArrowRight := True, ArrowUp := True\<rparr>,
                  diver := (diver playingGame)\<lparr>GameObject.y := 0\<rparr>\<rparr>"

definition fallingTreasure :: Treasure where
  "fallingTreasure =
     \<lparr>GameObject.x = 100, GameObject.y = 50, GameObject.width = 16, GameObject.height = 20,
      Pickup.color = Css ''#ffff00'', Pickup.value = 15, Pickup.angle = 0,
      Pickup.rotationSpeed = 0, Pickup.dy = 1 / 2, Pickup.targetY = 51,
      Pickup.isFalling = True\<rparr>"

text \<open>A second harpoon that overlaps the same fish, and the session with both in flight.\<close>

definition secondHarpoon :: Harpoon where
  "secondHarpoon =
     \<lparr>Harpoon.x = 305, Harpoon.y = 209, Harpoon.dx = 10, Harpoon.dy = 0,
      Harpoon.length_h = 20, Harpoon.width = 3, Harpoon.angle = 0, Harpoon.lifespan = 60\<rparr>"

definition volleyGame :: Game where
  "volleyGame = huntGame\<lparr>harpoons := [flyingHarpoon, secondHarpoon]\<rparr>"

text \<open>A session with a hostile, a bubble and a bonus in the arena, all away from the
  diver, who steers down and right.\<close>

definition smallBubble :: OxygenBubble where
  "smallBubble =
     \<lparr>OxygenBubble.x = 200, OxygenBubble.y = 600, OxygenBubble.radius = 10,
      OxygenBubble.speed = 1, OxygenBubble.color = Css ''rgba(200, 240, 255, 0.7)'',
      OxygenBubble.oxygenAmount = 20, OxygenBubble.offset = 0, OxygenBubble.isLarge = False,
      OxygenBubble.pulse = None\<rparr>"

definition patrolGame :: Game where
  "patrolGame =
     playingGame\<lparr>keys := (keys playingGame)\<lparr>ArrowRight := True, ArrowDown := True\<rparr>,
                  enemies := [smallFish], oxygenBubbles := [smallBubble],
                  oxygenBonus := [risingBonus]\<rparr>"

text \<open>A session with one treasure on its way down.\<close>

definition fallGame :: Game where
  "fallGame = playingGame\<lparr>treasures := [fallingTreasure]\<rparr>"

text \<open>A session whose clock was set at 1000 ms, before its first frame.\<close>

definition earlyGame :: Game where
  "earlyGame = surfaceGame\<lparr>lastUpdateTime := 1000\<rparr>"

section \<open>Properties\<close>

subsection \<open>Frame lemmas: what each procedure leaves alone\<close>

lemma funpow_field: "(\<And>s. h (f s) = h s) \<Longrightarrow> h ((f ^^ n) s) = h s"
  by (induction n) simp_all

lemma forEach_snd_Cons [simp]:
  "snd (forEach step (e # es) s) = snd (forEach step es (snd (step e s)))"
  by (simp add: case_prod_beta)

lemma forEach_fst_Cons [simp]:
  "fst (forEach step (e # es) s) =
     (case fst (step e s) of
        None \<Rightarrow> fst (forEach step es (snd (step e s)))
      | Some e' \<Rightarrow> e' # fst (forEach step es (snd (step e s))))"
  by (simp add: case_prod_beta)

declare forEach.simps(2) [simp del]

lemma forEach_inv:
  "P s \<Longrightarrow> (\<And>e s. e \<in> set xs \<Longrightarrow> P s \<Longrightarrow> P (snd (step e s)))
     \<Longrightarrow> P (snd (forEach step xs s))"
  by (induction xs arbitrary: s) simp_all

lemma forEach_field:
  "(\<And>e s. h (snd (step e s)) = h s) \<Longrightarrow> h (snd (forEach step xs s)) = h s"
  by (induction xs arbitrary: s) simp_all



lemma explosionLoop_fields [simp]:
  "gameStarted (explosionLoop k px py c g) = gameStarted g"
  "gameOver (explosionLoop k px py c g) = gameOver g"
  "score (explosionLoop k px py c g) = score g"
  "oxygen (explosionLoop k px py c g) = oxygen g"
  "level (explosionLoop k px py c g) = level g"
  "playerLives (explosionLoop k px py c g) = playerLives g"
  "hearts (explosionLoop k px py c g) = hearts g"
  "treasures (explosionLoop k px py c g) = treasures g"
  "enemies (explosionLoop k px py c g) = enemies g"
  "crabs (explosionLoop k px py c g) = crabs g"
  "oxygenBubbles (explosionLoop k px py c g) = oxygenBubbles g"
  "harpoons (explosionLoop k px py c g) = harpoons g"
  "oxygenBonus (explosionLoop k px py c g) = oxygenBonus g"
  "oxygenGenerator (explosionLoop k px py c g) = oxygenGenerator g"
  "diver (explosionLoop k px py c g) = diver g"
  "keys (explosionLoop k px py c g) = keys g"
  "lastUpdateTime (explosionLoop k px py c g) = lastUpdateTime g"
  "animationFrameId (explosionLoop k px py c g) = animationFrameId g"
  "rnd (explosionLoop k px py c g) = rnd g"
  "uiGameState (explosionLoop k px py c g) = uiGameState g"
  "finalScore (explosionLoop k px py c g) = finalScore g"
  "respawnTimers (explosionLoop k px py c g) = respawnTimers g"
  "rafCount (explosionLoop k px py c g) = rafCount g"
  "renderCount (explosionLoop k px py c g) = renderCount g"
  by (induction k arbitrary: g) (simp_all add: random_def Let_def)

lemma createExplosion_fields [simp]:
  "gameStarted (createExplosion px py c g) = gameStarted g"
  "gameOver (createExplosion px py c g) = gameOver g"
  "score (createExplosion px py c g) = score g"
  "oxygen (createExplosion px py c g) = oxygen g"
  "level (createExplosion px py c g) = level g"
  "playerLives (createExplosion px py c g) = playerLives g"
  "hearts (createExplosion px py c g) = hearts g"
  "treasures (createExplosion px py c g) = treasures g"
  "enemies (createExplosion px py c g) = enemies g"
  "crabs (createExplosion px py c g) = crabs g"
  "oxygenBubbles (createExplosion px py c g) = oxygenBubbles g"
  "harpoons (createExplosion px py c g) = harpoons g"
  "oxygenBonus (createExplosion px py c g) = oxygenBonus g"
  "oxygenGenerator (createExplosion px py c g) = oxygenGenerator g"
  "diver (createExplosion px py c g) = diver g"
  "keys (createExplosion px py c g) = keys g"
  "lastUpdateTime (createExplosion px py c g) = lastUpdateTime g"
  "animationFrameId (createExplosion px py c g) = animationFrameId g"
  "rnd (createExplosion px py c g) = rnd g"
  "uiGameState (createExplosion px py c g) = uiGameState g"
  "finalScore (createExplosion px py c g) = finalScore g"
  "respawnTimers (createExplosion px py c g) = respawnTimers g"
  "rafCount (createExplosion px py c g) = rafCount g"
  "renderCount (createExplosion px py c g) = renderCount g"
  by (simp_all add: createExplosion_def random_def)

lemma generateHeart_fields [simp]:
  "gameStarted (generateHeart pos g) = gameStarted g"
  "gameOver (generateHeart pos g) = gameOver g"
  "score (generateHeart pos g) = score g"
  "oxygen (generateHeart pos g) = oxygen g"
  "level (generateHeart pos g) = level g"
  "playerLives (generateHeart pos g) = playerLives g"
  "treasures (generateHeart pos g) = treasures g"
  "enemies (generateHeart pos g) = enemies g"
  "crabs (generateHeart pos g) = crabs g"
  "oxygenBubbles (generateHeart pos g) = oxygenBubbles g"
  "harpoons (generateHeart pos g) = harpoons g"
  "particles (generateHeart pos g) = particles g"
  "oxygenBonus (generateHeart pos g) = oxygenBonus g"
  "oxygenGenerator (generateHeart pos g) = oxygenGenerator g"
  "diver (generateHeart pos g) = diver g"
  "keys (generateHeart pos g) = keys g"
  "lastUpdateTime (generateHeart pos g) = lastUpdateTime g"
  "animationFrameId (generateHeart pos g) = animationFrameId g"
  "rnd (generateHeart pos g) = rnd g"
  "uiGameState (generateHeart pos g) = uiGameState g"
  "finalScore (generateHeart pos g) = finalScore g"
  "respawnTimers (generateHeart pos g) = respawnTimers g"
  "rafCount (generateHeart pos g) = rafCount g"
  "renderCount (generateHeart pos g) = renderCount g"
  by (simp_all add: generateHeart_def random_def Let_def)

lemma spawnTreasure_fields [simp]:
  "gameStarted (spawnTreasure pos g) = gameStarted g"
  "gameOver (spawnTreasure pos g) = gameOver g"
  "score (spawnTreasure pos g) = score g"
  "oxygen (spawnTreasure pos g) = oxygen g"
  "level (spawnTreasure pos g) = level g"
  "playerLives (spawnTreasure pos g) = playerLives g"
  "hearts (spawnTreasure pos g) = hearts g"
  "enemies (spawnTreasure pos g) = enemies g"
  "crabs (spawnTreasure pos g) = crabs g"
  "oxygenBubbles (spawnTreasure pos g) = oxygenBubbles g"
  "harpoons (spawnTreasure pos g) = harpoons g"
  "particles (spawnTreasure pos g) = particles g"
  "oxygenBonus (spawnTreasure pos g) = oxygenBonus g"
  "oxygenGenerator (spawnTreasure pos g) = oxygenGenerator g"
  "diver (spawnTreasure pos g) = diver g"
  "keys (spawnTreasure pos g) = keys g"
  "lastUpdateTime (spawnTreasure pos g) = lastUpdateTime g"
  "animationFrameId (spawnTreasure pos g) = animationFrameId g"
  "rnd (spawnTreasure pos g) = rnd g"
  "uiGameState (spawnTreasure pos g) = uiGameState g"
  "finalScore (spawnTreasure pos g) = finalScore g"
  "respawnTimers (spawnTreasure pos g) = respawnTimers g"
  "rafCount (spawnTreasure pos g) = rafCount g"
  "renderCount (spawnTreasure pos g) = renderCount g"
  by (simp_all add: spawnTreasure_def random_def Let_def split: option.splits)

lemma generateTreasures_fields [simp]:
  "gameStarted (generateTreasures n pos g) = gameStarted g"
  "gameOver (generateTreasures n pos g) = gameOver g"
  "score (generateTreasures n pos g) = score g"
  "oxygen (generateTreasures n pos g) = oxygen g"
  "level (generateTreasures n pos g) = level g"
  "playerLives (generateTreasures n pos g) = playerLives g"
  "hearts (generateTreasures n pos g) = hearts g"
  "enemies (generateTreasures n pos g) = enemies g"
  "crabs (generateTreasures n pos g) = crabs g"
  "oxygenBubbles (generateTreasures n pos g) = oxygenBubbles g"
  "harpoons (generateTreasures n pos g) = harpoons g"
  "particles (generateTreasures n pos g) = particles g"
  "oxygenBonus (generateTreasures n pos g) = oxygenBonus g"
  "oxygenGenerator (generateTreasures n pos g) = oxygenGenerator g"
  "diver (generateTreasures n pos g) = diver g"
  "keys (generateTreasures n pos g) = keys g"
  "lastUpdateTime (generateTreasures n pos g) = lastUpdateTime g"
  "animationFrameId (generateTreasures n pos g) = animationFrameId g"
  "rnd (generateTreasures n pos g) = rnd g"
  "uiGameState (generateTreasures n pos g) = uiGameState g"
  "finalScore (generateTreasures n pos g) = finalScore g"
  "respawnTimers (generateTreasures n pos g) = respawnTimers g"
  "rafCount (generateTreasures n pos g) = rafCount g"
  "renderCount (generateTreasures n pos g) = renderCount g"
  by (simp_all add: generateTreasures_def funpow_field)

lemma spawnEnemy_fields [simp]:
  "gameStarted (spawnEnemy g) = gameStarted g"
  "gameOver (spawnEnemy g) = gameOver g"
  "score (spawnEnemy g) = score g"
  "oxygen (spawnEnemy g) = oxygen g"
  "level (spawnEnemy g) = level g"
  "playerLives (spawnEnemy g) = playerLives g"
  "hearts (spawnEnemy g) = hearts g"
  "treasures (spawnEnemy g) = treasures g"
  "crabs (spawnEnemy g) = crabs g"
  "oxygenBubbles (spawnEnemy g) = oxygenBubbles g"
  "harpoons (spawnEnemy g) = harpoons g"
  "particles (spawnEnemy g) = particles g"
  "oxygenBonus (spawnEnemy g) = oxygenBonus g"
  "oxygenGenerator (spawnEnemy g) = oxygenGenerator g"
  "diver (spawnEnemy g) = diver g"
  "keys (spawnEnemy g) = keys g"
  "lastUpdateTime (spawnEnemy g) = lastUpdateTime g"
  "animationFrameId (spawnEnemy g) = animationFrameId g"
  "rnd (spawnEnemy g) = rnd g"
  "uiGameState (spawnEnemy g) = uiGameState g"
  "finalScore (spawnEnemy g) = finalScore g"
  "respawnTimers (spawnEnemy g) = respawnTimers g"
  "rafCount (spawnEnemy g) = rafCount g"
  "renderCount (spawnEnemy g) = renderCount g"
  by (simp_all add: spawnEnemy_def random_def Let_def)

lemma generateEnemies_fields [simp]:
  "gameStarted (generateEnemies n g) = gameStarted g"
  "gameOver (generateEnemies n g) = gameOver g"
  "score (generateEnemies n g) = score g"
  "oxygen (generateEnemies n g) = oxygen g"
  "level (generateEnemies n g) = level g"
  "playerLives (generateEnemies n g) = playerLives g"
  "hearts (generateEnemies n g) = hearts g"
  "treasures (generateEnemies n g) = treasures g"
  "crabs (generateEnemies n g) = crabs g"
  "oxygenBubbles (generateEnemies n g) = oxygenBubbles g"
  "harpoons (generateEnemies n g) = harpoons g"
  "particles (generateEnemies n g) = particles g"
  "oxygenBonus (generateEnemies n g) = oxygenBonus g"
  "oxygenGenerator (generateEnemies n g) = oxygenGenerator g"
  "diver (generateEnemies n g) = diver g"
  "keys (generateEnemies n g) = keys g"
  "lastUpdateTime (generateEnemies n g) = lastUpdateTime g"
  "animationFrameId (generateEnemies n g) = animationFrameId g"
  "rnd (generateEnemies n g) = rnd g"
  "uiGameState (generateEnemies n g) = uiGameState g"
  "finalScore (generateEnemies n g) = finalScore g"
  "respawnTimers (generateEnemies n g) = respawnTimers g"
  "rafCount (generateEnemies n g) = rafCount g"
  "renderCount (generateEnemies n g) = renderCount g"
  by (simp_all add: generateEnemies_def funpow_field)

lemma spawnOxygenBubble_fields [simp]:
  "gameStarted (spawnOxygenBubble g) = gameStarted g"
  "gameOver (spawnOxygenBubble g) = gameOver g"
  "score (spawnOxygenBubble g) = score g"
  "oxygen (spawnOxygenBubble g) = oxygen g"
  "level (spawnOxygenBubble g) = level g"
  "playerLives (spawnOxygenBubble g) = playerLives g"
  "hearts (spawnOxygenBubble g) = hearts g"
  "treasures (spawnOxygenBubble g) = treasures g"
  "enemies (spawnOxygenBubble g) = enemies g"
  "crabs (spawnOxygenBubble g) = crabs g"
  "harpoons (spawnOxygenBubble g) = harpoons g"
  "particles (spawnOxygenBubble g) = particles g"
  "oxygenBonus (spawnOxygenBubble g) = oxygenBonus g"
  "oxygenGenerator (spawnOxygenBubble g) = oxygenGenerator g"
  "diver (spawnOxygenBubble g) = diver g"
  "keys (spawnOxygenBubble g) = keys g"
  "lastUpdateTime (spawnOxygenBubble g) = lastUpdateTime g"
  "animationFrameId (spawnOxygenBubble g) = animationFrameId g"
  "rnd (spawnOxygenBubble g) = rnd g"
  "uiGameState (spawnOxygenBubble g) = uiGameState g"
  "finalScore (spawnOxygenBubble g) = finalScore g"
  "respawnTimers (spawnOxygenBubble g) = respawnTimers g"
  "rafCount (spawnOxygenBubble g) = rafCount g"
  "renderCount (spawnOxygenBubble g) = renderCount g"
  by (simp_all add: spawnOxygenBubble_def random_def Let_def)

lemma generateOxygenBubbles_fields [simp]:
  "gameStarted (generateOxygenBubbles n g) = gameStarted g"
  "gameOver (generateOxygenBubbles n g) = gameOver g"
  "score (generateOxygenBubbles n g) = score g"
  "oxygen (generateOxygenBubbles n g) = oxygen g"
  "level (generateOxygenBubbles n g) = level g"
  "playerLives (generateOxygenBubbles n g) = playerLives g"
  "hearts (generateOxygenBubbles n g) = hearts g"
  "treasures (generateOxygenBubbles n g) = treasures g"
  "enemies (generateOxygenBubbles n g) = enemies g"
  "crabs (generateOxygenBubbles n g) = crabs g"
  "harpoons (generateOxygenBubbles n g) = harpoons g"
  "particles (generateOxygenBubbles n g) = particles g"
  "oxygenBonus (generateOxygenBubbles n g) = oxygenBonus g"
  "oxygenGenerator (generateOxygenBubbles n g) = oxygenGenerator g"
  "diver (generateOxygenBubbles n g) = diver g"
  "keys (generateOxygenBubbles n g) = keys g"
  "lastUpdateTime (generateOxygenBubbles n g) = lastUpdateTime g"
  "animationFrameId (generateOxygenBubbles n g) = animationFrameId g"
  "rnd (generateOxygenBubbles n g) = rnd g"
  "uiGameState (generateOxygenBubbles n g) = uiGameState g"
  "finalScore (generateOxygenBubbles n g) = finalScore g"
  "respawnTimers (generateOxygenBubbles n g) = respawnTimers g"
  "rafCount (generateOxygenBubbles n g) = rafCount g"
  "renderCount (generateOxygenBubbles n g) = renderCount g"
  by (simp_all add: generateOxygenBubbles_def funpow_field)

lemma generateLargeOxygenBubble_fields [simp]:
  "gameStarted (generateLargeOxygenBubble g) = gameStarted g"
  "gameOver (generateLargeOxygenBubble g) = gameOver g"
  "score (generateLargeOxygenBubble g) = score g"
  "oxygen (generateLargeOxygenBubble g) = oxygen g"
  "level (generateLargeOxygenBubble g) = level g"
  "playerLives (generateLargeOxygenBubble g) = playerLives g"
  "hearts (generateLargeOxygenBubble g) = hearts g"
  "treasures (generateLargeOxygenBubble g) = treasures g"
  "enemies (generateLargeOxygenBubble g) = enemies g"
  "crabs (generateLargeOxygenBubble g) = crabs g"
  "harpoons (generateLargeOxygenBubble g) = harpoons g"
  "particles (generateLargeOxygenBubble g) = particles g"
  "oxygenBonus (generateLargeOxygenBubble g) = oxygenBonus g"
  "oxygenGenerator (generateLargeOxygenBubble g) = oxygenGenerator g"
  "diver (generateLargeOxygenBubble g) = diver g"
  "keys (generateLargeOxygenBubble g) = keys g"
  "lastUpdateTime (generateLargeOxygenBubble g) = lastUpdateTime g"
  "animationFrameId (generateLargeOxygenBubble g) = animationFrameId g"
  "rnd (generateLargeOxygenBubble g) = rnd g"
  "uiGameState (generateLargeOxygenBubble g) = uiGameState g"
  "finalScore (generateLargeOxygenBubble g) = finalScore g"
  "respawnTimers (generateLargeOxygenBubble g) = respawnTimers g"
  "rafCount (generateLargeOxygenBubble g) = rafCount g"
  "renderCount (generateLargeOxygenBubble g) = renderCount g"
  by (simp_all add: generateLargeOxygenBubble_def random_def Let_def)

lemma generateOxygenBonus_fields [simp]:
  "gameStarted (generateOxygenBonus g) = gameStarted g"
  "gameOver (generateOxygenBonus g) = gameOver g"
  "score (generateOxygenBonus g) = score g"
  "oxygen (generateOxygenBonus g) = oxygen g"
  "level (generateOxygenBonus g) = level g"
  "playerLives (generateOxygenBonus g) = playerLives g"
  "hearts (generateOxygenBonus g) = hearts g"
  "treasures (generateOxygenBonus g) = treasures g"
  "enemies (generateOxygenBonus g) = enemies g"
  "crabs (generateOxygenBonus g) = crabs g"
  "oxygenBubbles (generateOxygenBonus g) = oxygenBubbles g"
  "harpoons (generateOxygenBonus g) = harpoons g"
  "particles (generateOxygenBonus g) = particles g"
  "oxygenGenerator (generateOxygenBonus g) = oxygenGenerator g"
  "diver (generateOxygenBonus g) = diver g"
  "keys (generateOxygenBonus g) = keys g"
  "lastUpdateTime (generateOxygenBonus g) = lastUpdateTime g"
  "animationFrameId (generateOxygenBonus g) = animationFrameId g"
  "rnd (generateOxygenBonus g) = rnd g"
  "uiGameState (generateOxygenBonus g) = uiGameState g"
  "finalScore (generateOxygenBonus g) = finalScore g"
  "respawnTimers (generateOxygenBonus g) = respawnTimers g"
  "rafCount (generateOxygenBonus g) = rafCount g"
  "renderCount (generateOxygenBonus g) = renderCount g"
  by (simp_all add: generateOxygenBonus_def random_def Let_def)

lemma generateCrab_fields [simp]:
  "gameStarted (generateCrab g) = gameStarted g"
  "gameOver (generateCrab g) = gameOver g"
  "score (generateCrab g) = score g"
  "oxygen (generateCrab g) = oxygen g"
  "level (generateCrab g) = level g"
  "playerLives (generateCrab g) = playerLives g"
  "hearts (generateCrab g) = hearts g"
  "treasures (generateCrab g) = treasures g"
  "enemies (generateCrab g) = enemies g"
  "oxygenBubbles (generateCrab g) = oxygenBubbles g"
  "harpoons (generateCrab g) = harpoons g"
  "particles (generateCrab g) = particles g"
  "oxygenBonus (generateCrab g) = oxygenBonus g"
  "oxygenGenerator (generateCrab g) = oxygenGenerator g"
  "diver (generateCrab g) = diver g"
  "keys (generateCrab g) = keys g"
  "lastUpdateTime (generateCrab g) = lastUpdateTime g"
  "animationFrameId (generateCrab g) = animationFrameId g"
  "rnd (generateCrab g) = rnd g"
  "uiGameState (generateCrab g) = uiGameState g"
  "finalScore (generateCrab g) = finalScore g"
  "respawnTimers (generateCrab g) = respawnTimers g"
  "rafCount (generateCrab g) = rafCount g"
  "renderCount (generateCrab g) = renderCount g"
  by (simp_all add: generateCrab_def random_def Let_def)

lemma levelUpParticle_fields [simp]:
  "gameStarted (levelUpParticle g) = gameStarted g"
  "gameOver (levelUpParticle g) = gameOver g"
  "score (levelUpParticle g) = score g"
  "oxygen (levelUpParticle g) = oxygen g"
  "level (levelUpParticle g) = level g"
  "playerLives (levelUpParticle g) = playerLives g"
  "hearts (levelUpParticle g) = hearts g"
  "treasures (levelUpParticle g) = treasures g"
  "enemies (levelUpParticle g) = enemies g"
  "crabs (levelUpParticle g) = crabs g"
  "oxygenBubbles (levelUpParticle g) = oxygenBubbles g"
  "harpoons (levelUpParticle g) = harpoons g"
  "oxygenBonus (levelUpParticle g) = oxygenBonus g"
  "oxygenGenerator (levelUpParticle g) = oxygenGenerator g"
  "diver (levelUpParticle g) = diver g"
  "keys (levelUpParticle g) = keys g"
  "lastUpdateTime (levelUpParticle g) = lastUpdateTime g"
  "animationFrameId (levelUpParticle g) = animationFrameId g"
  "rnd (levelUpParticle g) = rnd g"
  "uiGameState (levelUpParticle g) = uiGameState g"
  "finalScore (levelUpParticle g) = finalScore g"
  "respawnTimers (levelUpParticle g) = respawnTimers g"
  "rafCount (levelUpParticle g) = rafCount g"
  "renderCount (levelUpParticle g) = renderCount g"
  by (simp_all add: levelUpParticle_def random_def Let_def)

lemma createLevelUpEffect_fields [simp]:
  "gameStarted (createLevelUpEffect g) = gameStarted g"
  "gameOver (createLevelUpEffect g) = gameOver g"
  "score (createLevelUpEffect g) = score g"
  "oxygen (createLevelUpEffect g) = oxygen g"
  "level (createLevelUpEffect g) = level g"
  "playerLives (createLevelUpEffect g) = playerLives g"
  "hearts (createLevelUpEffect g) = hearts g"
  "treasures (createLevelUpEffect g) = treasures g"
  "enemies (createLevelUpEffect g) = enemies g"
  "crabs (createLevelUpEffect g) = crabs g"
  "oxygenBubbles (createLevelUpEffect g) = oxygenBubbles g"
  "harpoons (createLevelUpEffect g) = harpoons g"
  "oxygenBonus (createLevelUpEffect g) = oxygenBonus g"
  "oxygenGenerator (createLevelUpEffect g) = oxygenGenerator g"
  "diver (createLevelUpEffect g) = diver g"
  "keys (createLevelUpEffect g) = keys g"
  "lastUpdateTime (createLevelUpEffect g) = lastUpdateTime g"
  "animationFrameId (createLevelUpEffect g) = animationFrameId g"
  "rnd (createLevelUpEffect g) = rnd g"
  "uiGameState (createLevelUpEffect g) = uiGameState g"
  "finalScore (createLevelUpEffect g) = finalScore g"
  "respawnTimers (createLevelUpEffect g) = respawnTimers g"
  "rafCount (createLevelUpEffect g) = rafCount g"
  "renderCount (createLevelUpEffect g) = renderCount g"
  by (simp_all add: createLevelUpEffect_def funpow_field)

lemma endGame_fields [simp]:
  "score (endGame g) = score g"
  "oxygen (endGame g) = oxygen g"
  "level (endGame g) = level g"
  "playerLives (endGame g) = playerLives g"
  "hearts (endGame g) = hearts g"
  "oxygenBubbles (endGame g) = oxygenBubbles g"
  "oxygenBonus (endGame g) = oxygenBonus g"
  "diver (endGame g) = diver g"
  "gameStarted (endGame g) = gameStarted g"
  "gameOver (endGame g) = True"
  "finalScore (endGame g) = score g"
  "uiGameState (endGame g) = UiOver"
  "rnd (endGame g) = rnd g"
  by (simp_all add: endGame_def)

lemma bumpCombo_fields [simp]:
  "score (bumpCombo g) = score g"
  "oxygen (bumpCombo g) = oxygen g"
  "playerLives (bumpCombo g) = playerLives g"
  "gameStarted (bumpCombo g) = gameStarted g"
  "gameOver (bumpCombo g) = gameOver g"
  "rnd (bumpCombo g) = rnd g"
  "level (bumpCombo g) = level g"
  "hearts (bumpCombo g) = hearts g"
  "harpoons (bumpCombo g) = harpoons g"
  "enemies (bumpCombo g) = enemies g"
  "oxygenBubbles (bumpCombo g) = oxygenBubbles g"
  "oxygenBonus (bumpCombo g) = oxygenBonus g"
  "Diver.comboCounter (diver (bumpCombo g)) = Diver.comboCounter (diver g) + 1"
  "Diver.comboTimer (diver (bumpCombo g)) = COMBO_TIMEOUT_FRAMES"
  "Diver.oxygenDepletionRate (diver (bumpCombo g)) = Diver.oxygenDepletionRate (diver g)"
  "Diver.isShieldActive (diver (bumpCombo g)) = Diver.isShieldActive (diver g)"
  "GameObject.x (diver (bumpCombo g)) = GameObject.x (diver g)"
  "GameObject.y (diver (bumpCombo g)) = GameObject.y (diver g)"
  "GameObject.width (diver (bumpCombo g)) = GameObject.width (diver g)"
  "GameObject.height (diver (bumpCombo g)) = GameObject.height (diver g)"
  by (simp_all add: bumpCombo_def)

lemma enemyDies_fields [simp]:
  "score (enemyDies e g) = score g"
  "oxygen (enemyDies e g) = oxygen g"
  "playerLives (enemyDies e g) = playerLives g"
  "gameStarted (enemyDies e g) = gameStarted g"
  "gameOver (enemyDies e g) = gameOver g"
  "rnd (enemyDies e g) = rnd g"
  "level (enemyDies e g) = level g"
  "diver (enemyDies e g) = diver g"
  "harpoons (enemyDies e g) = harpoons g"
  "enemies (enemyDies e g) = enemies g"
  "oxygenBubbles (enemyDies e g) = oxygenBubbles g"
  "oxygenBonus (enemyDies e g) = oxygenBonus g"
  by (simp_all add: enemyDies_def random_def Let_def)


lemma removeFirst_None: "removeFirst hit hs = None \<longleftrightarrow> (\<forall>h \<in> set hs. \<not> hit h)"
  by (induction hs) auto

subsection \<open>Level progression\<close>

text \<open>
  Claim C7. The progression check raises the level by one exactly when
  \<open>score \<ge> 2000 * level\<close> and \<open>level < 5\<close>, and then adds the fixed increment 0.02 to the
  diver's oxygen depletion rate; in particular a score of exactly \<open>2000 * L\<close> at level
  \<open>L < 5\<close> gives level \<open>L + 1\<close>, and from level 5 on the check changes nothing, whatever
  the score.
\<close>

theorem updateLevel_progression:
  "level (updateLevel g) =
     (if score g \<ge> 2000 * level g \<and> level g < 5 then level g + 1 else level g)
   \<and> Diver.oxygenDepletionRate (diver (updateLevel g)) =
     (if score g \<ge> 2000 * level g \<and> level g < 5
      then Diver.oxygenDepletionRate (diver g) + 0.02
      else Diver.oxygenDepletionRate (diver g))
   \<and> (score g = 2000 * L \<and> level g = L \<and> L < 5 \<longrightarrow> level (updateLevel g) = L + 1)
   \<and> (level g \<ge> 5 \<longrightarrow> updateLevel g = g)"
  by (simp add: updateLevel_def Let_def)

theorem updateLevel_progression_witness:
  "score (playingGame\<lparr>score := 2000\<rparr>) = 2000 * 1
   \<and> level (playingGame\<lparr>score := 2000\<rparr>) = 1
   \<and> level (updateLevel (playingGame\<lparr>score := 2000\<rparr>)) = 2
   \<and> Diver.oxygenDepletionRate (diver (updateLevel (playingGame\<lparr>score := 2000\<rparr>))) = 0.07
   \<and> updateLevel (playingGame\<lparr>score := 99999, level := 5\<rparr>)
       = playingGame\<lparr>score := 99999, level := 5\<rparr>"
  using updateLevel_progression [of "playingGame\<lparr>score := 2000\<rparr>" 1]
        updateLevel_progression [of "playingGame\<lparr>score := 99999, level := 5\<rparr>" 5]
  by (simp add: playingGame_def newGame_def)

subsection \<open>Hearts at the lives cap\<close>

lemma heartsLoop_full_lives:
  "playerLives g \<ge> MAX_PLAYER_LIVES \<Longrightarrow>
   forEach (heartStep sf) hs g =
     (filter (\<lambda>h. \<not> isColliding True (diver g) h False) (map (heartFall sf) hs), g)"
  by (induction hs) (simp_all add: prod_eq_iff heartStep_def Let_def)

text \<open>
  Claim C10. When the diver overlaps a heart while the lives are at the maximum, the heart
  is removed and the state is otherwise untouched: lives, score, combo counter, combo
  timer and particles stay as they are. For the whole of \<^verbatim>\<open>updateHearts\<close> the only
  field that changes is the heart collection, which loses the overlapped hearts. The
  heart factory returns the state unchanged when the lives are at the maximum.
\<close>

theorem heart_at_max_lives:
  "(isColliding True (diver g) (heartFall sf heart) False \<and> playerLives g \<ge> MAX_PLAYER_LIVES
      \<longrightarrow> heartStep sf heart g = (None, g))
   \<and> (playerLives g \<ge> MAX_PLAYER_LIVES \<longrightarrow>
        updateHearts dt g =
          g\<lparr>hearts := filter (\<lambda>h. \<not> isColliding True (diver g) h False)
                         (map (heartFall (dt / (1000 / 60))) (hearts g))\<rparr>)
   \<and> (playerLives g \<ge> MAX_PLAYER_LIVES \<longrightarrow> generateHeart pos g = g)"
  by (simp add: heartStep_def Let_def updateHearts_def heartsLoop_full_lives generateHeart_def)

theorem heart_at_max_lives_witness:
  "isColliding True (diver (playingGame\<lparr>playerLives := 10, hearts := [restingHeart]\<rparr>))
     (heartFall 1 restingHeart) False
   \<and> playerLives (playingGame\<lparr>playerLives := 10, hearts := [restingHeart]\<rparr>)
       \<ge> MAX_PLAYER_LIVES
   \<and> heartStep 1 restingHeart (playingGame\<lparr>playerLives := 10, hearts := [restingHeart]\<rparr>)
       = (None, playingGame\<lparr>playerLives := 10, hearts := [restingHeart]\<rparr>)
   \<and> updateHearts (50 / 3) (playingGame\<lparr>playerLives := 10, hearts := [restingHeart]\<rparr>)
       = playingGame\<lparr>playerLives := 10, hearts := []\<rparr>
   \<and> generateHeart (0, 0) (playingGame\<lparr>playerLives := 10, hearts := [restingHeart]\<rparr>)
       = playingGame\<lparr>playerLives := 10, hearts := [restingHeart]\<rparr>"
  using heart_at_max_lives [where g = "playingGame\<lparr>playerLives := 10, hearts := [restingHeart]\<rparr>"
          and sf = 1 and heart = restingHeart and dt = "50 / 3" and pos = "(0, 0)"]
  by (simp add: playingGame_def newGame_def restingHeart_def heartFall_def pickupFall_def
        isColliding_def MAX_PLAYER_LIVES_def canvas_width_def canvas_height_def Let_def)

subsection \<open>Running out of oxygen\<close>

text \<open>
  Claim C2. \<^verbatim>\<open>updateOxygenBubbles\<close> ends with the death check. When that check finds the
  oxygen at zero in a running session, the lives drop by one. If lives remain, the diver
  is put at the arena centre with oxygen \<open>MAX_OXYGEN / 2\<close>, combo counter and timer are
  cleared, the shield is switched on with a timer of 180 frame units, and the session
  keeps running. If no lives remain, the session is over and the recorded final score is
  the score at that moment. Otherwise the check does nothing.
\<close>

theorem oxygen_death:
  "updateOxygenBubbles dt g = oxygenDeath (breatheAndBubbles (dt / (1000 / 60)) g)
   \<and> (oxygen g \<le> 0 \<and> gameStarted g \<and> \<not> gameOver g \<longrightarrow>
        playerLives (oxygenDeath g) = playerLives g - 1
        \<and> score (oxygenDeath g) = score g
        \<and> (playerLives g - 1 > 0 \<longrightarrow>
             GameObject.x (diver (oxygenDeath g)) = canvas_width / 2
             \<and> GameObject.y (diver (oxygenDeath g)) = canvas_height / 2
             \<and> oxygen (oxygenDeath g) = MAX_OXYGEN / 2
             \<and> Diver.comboCounter (diver (oxygenDeath g)) = 0
             \<and> Diver.comboTimer (diver (oxygenDeath g)) = 0
             \<and> Diver.isShieldActive (diver (oxygenDeath g))
             \<and> Diver.shieldTimer (diver (oxygenDeath g)) = 180
             \<and> gameStarted (oxygenDeath g) \<and> \<not> gameOver (oxygenDeath g)
             \<and> uiGameState (oxygenDeath g) = uiGameState g
             \<and> finalScore (oxygenDeath g) = finalScore g)
        \<and> (playerLives g - 1 \<le> 0 \<longrightarrow>
             gameOver (oxygenDeath g)
             \<and> uiGameState (oxygenDeath g) = UiOver
             \<and> finalScore (oxygenDeath g) = score g))
   \<and> (\<not> (oxygen g \<le> 0 \<and> gameStarted g \<and> \<not> gameOver g) \<longrightarrow> oxygenDeath g = g)"
  by (simp add: updateOxygenBubbles_def oxygenDeath_def Let_def)

theorem oxygen_death_witness:
  "oxygen (playingGame\<lparr>oxygen := 0, score := 1234\<rparr>) \<le> 0
   \<and> playerLives (oxygenDeath (playingGame\<lparr>oxygen := 0, score := 1234\<rparr>)) = 2
   \<and> oxygen (oxygenDeath (playingGame\<lparr>oxygen := 0, score := 1234\<rparr>)) = 150
   \<and> Diver.shieldTimer (diver (oxygenDeath (playingGame\<lparr>oxygen := 0, score := 1234\<rparr>))) = 180
   \<and> \<not> gameOver (oxygenDeath (playingGame\<lparr>oxygen := 0, score := 1234\<rparr>))
   \<and> playerLives (oxygenDeath (playingGame\<lparr>oxygen := 0, score := 1234, playerLives := 1\<rparr>)) = 0
   \<and> gameOver (oxygenDeath (playingGame\<lparr>oxygen := 0, score := 1234, playerLives := 1\<rparr>))
   \<and> finalScore (oxygenDeath (playingGame\<lparr>oxygen := 0, score := 1234, playerLives := 1\<rparr>))
       = 1234"
  using oxygen_death [of 0 "playingGame\<lparr>oxygen := 0, score := 1234\<rparr>"]
        oxygen_death [of 0 "playingGame\<lparr>oxygen := 0, score := 1234, playerLives := 1\<rparr>"]
  by (simp add: playingGame_def newGame_def MAX_OXYGEN_def)

subsection \<open>Frames after a long pause\<close>

text \<open>
  Claim C5, as the code has it. When the computed \<open>\<Delta>t\<close> exceeds 100 ms the loop stores
  the new timestamp in \<open>lastUpdateTime\<close>, requests the next animation frame (which writes
  the new handle to \<open>animationFrameId\<close>) and returns: no subsystem runs, nothing is
  rendered, and every other field of the state keeps its value.
\<close>

theorem gameLoop_skips_long_frame:
  "timestamp - lastUpdateTime g > 100 \<Longrightarrow>
   gameLoop timestamp g =
     g\<lparr>lastUpdateTime := timestamp,
       animationFrameId := Some (Suc (rafCount g)),
       rafCount := Suc (rafCount g)\<rparr>"
  by (simp add: gameLoop_def requestAnimationFrame_def Let_def)

theorem gameLoop_skips_long_frame_witness:
  "200 - lastUpdateTime playingGame > 100
   \<and> gameLoop 200 playingGame =
       playingGame\<lparr>lastUpdateTime := 200, animationFrameId := Some 1, rafCount := 1\<rparr>"
  using gameLoop_skips_long_frame [of 200 playingGame]
  by (simp add: playingGame_def newGame_def)

text \<open>The claim as stated (no field is updated) fails: the skipped frame moves
  \<open>lastUpdateTime\<close> from 0 to 200 and sets the frame handle.\<close>

theorem gameLoop_skip_updates_timestamp:
  "200 - lastUpdateTime playingGame > 100
   \<and> lastUpdateTime playingGame = 0
   \<and> lastUpdateTime (gameLoop 200 playingGame) = 200
   \<and> animationFrameId playingGame = None
   \<and> animationFrameId (gameLoop 200 playingGame) = Some 1
   \<and> gameLoop 200 playingGame \<noteq> playingGame"
proof -
  have t: "lastUpdateTime (gameLoop 200 playingGame) = 200"
    by (simp add: gameLoop_def requestAnimationFrame_def Let_def playingGame_def newGame_def)
  have z: "lastUpdateTime playingGame = 0"
    by (simp add: playingGame_def newGame_def)
  have "gameLoop 200 playingGame \<noteq> playingGame"
  proof
    assume "gameLoop 200 playingGame = playingGame"
    with t z show False by simp
  qed
  with t z show ?thesis
    by (simp add: gameLoop_def requestAnimationFrame_def Let_def playingGame_def newGame_def)
qed

subsection \<open>Oxygen bonus outcomes\<close>

lemma moveBonus_value [simp]: "OxygenBonus.value (moveBonus sf bonus) = OxygenBonus.value bonus"
  by (simp add: moveBonus_def Let_def)

lemma bonusSurfaced_fields [simp]:
  "oxygen (bonusSurfaced b g) = min MAX_OXYGEN (oxygen g + real_of_int (OxygenBonus.value b) * 1.5)"
  "score (bonusSurfaced b g) = score g + 250 * (Diver.comboCounter (diver g) + 1)"
  "diver (bonusSurfaced b g) = diver (bumpCombo g)"
  "playerLives (bonusSurfaced b g) = playerLives g"
  "gameStarted (bonusSurfaced b g) = gameStarted g"
  "gameOver (bonusSurfaced b g) = gameOver g"
  "rnd (bonusSurfaced b g) = rnd g"
  "hearts (bonusSurfaced b g) = hearts g"
  "enemies (bonusSurfaced b g) = enemies g"
  "oxygenBubbles (bonusSurfaced b g) = oxygenBubbles g"
  "oxygenBonus (bonusSurfaced b g) = oxygenBonus g"
  "level (bonusSurfaced b g) = level g"
  by (simp_all add: bonusSurfaced_def Let_def bumpCombo_def)

lemma bonusCollected_fields [simp]:
  "oxygen (bonusCollected b g) = min MAX_OXYGEN (oxygen g + real_of_int (OxygenBonus.value b))"
  "score (bonusCollected b g) = score g + 150 * (Diver.comboCounter (diver g) + 1)"
  "diver (bonusCollected b g) = diver (bumpCombo g)"
  "playerLives (bonusCollected b g) = playerLives g"
  "gameStarted (bonusCollected b g) = gameStarted g"
  "gameOver (bonusCollected b g) = gameOver g"
  "rnd (bonusCollected b g) = rnd g"
  "hearts (bonusCollected b g) = hearts g"
  "enemies (bonusCollected b g) = enemies g"
  "oxygenBubbles (bonusCollected b g) = oxygenBubbles g"
  "oxygenBonus (bonusCollected b g) = oxygenBonus g"
  "level (bonusCollected b g) = level g"
  by (simp_all add: bonusCollected_def Let_def bumpCombo_def)

lemma bonusDestroyed_fields [simp]:
  "oxygen (bonusDestroyed b g) = oxygen g"
  "score (bonusDestroyed b g) = score g"
  "diver (bonusDestroyed b g) = diver g"
  "playerLives (bonusDestroyed b g) = playerLives g"
  "gameStarted (bonusDestroyed b g) = gameStarted g"
  "gameOver (bonusDestroyed b g) = gameOver g"
  "rnd (bonusDestroyed b g) = rnd g"
  "hearts (bonusDestroyed b g) = hearts g"
  "enemies (bonusDestroyed b g) = enemies g"
  "oxygenBubbles (bonusDestroyed b g) = oxygenBubbles g"
  "oxygenBonus (bonusDestroyed b g) = oxygenBonus g"
  "level (bonusDestroyed b g) = level g"
  by (simp_all add: bonusDestroyed_def Let_def)

text \<open>
  Claim C6, as the code has it. After its move, a bonus is handled by the first test
  that applies, and by that one only:
  \<^item> at the surface (\<open>y \<le> 30\<close>) it is removed, the oxygen grows by 1.5 times its value
    (capped at \<^verbatim>\<open>MAX_OXYGEN\<close>), the score by \<open>250 * (combo + 1)\<close>, the combo counter by
    one, and the combo timer is reset;
  \<^item> overlapped by a hostile, it is removed and oxygen, score and combo stay as they are;
  \<^item> touched by the diver, it is removed, the oxygen grows by its value (capped), the
    score by \<open>150 * (combo + 1)\<close>, the combo counter by one, and the timer is reset;
  \<^item> otherwise the state is unchanged, and the bonus is kept while its lifespan and its
    alpha are positive and removed once either has run out.
\<close>

theorem oxygen_bonus_outcomes:
  assumes "bonusStep sf bonus g = (r, g')" and "b = moveBonus sf bonus"
  shows "OxygenBonus.value b = OxygenBonus.value bonus
    \<and> (GameObject.y b \<le> 30 \<longrightarrow>
         r = None
         \<and> oxygen g' = min MAX_OXYGEN (oxygen g + real_of_int (OxygenBonus.value b) * 1.5)
         \<and> score g' = score g + 250 * (Diver.comboCounter (diver g) + 1)
         \<and> Diver.comboCounter (diver g') = Diver.comboCounter (diver g) + 1
         \<and> Diver.comboTimer (diver g') = COMBO_TIMEOUT_FRAMES)
    \<and> (GameObject.y b > 30 \<and> hitByEnemy b g \<longrightarrow>
         r = None \<and> oxygen g' = oxygen g \<and> score g' = score g \<and> diver g' = diver g)
    \<and> (GameObject.y b > 30 \<and> \<not> hitByEnemy b g \<and> isColliding True (diver g) b False \<longrightarrow>
         r = None
         \<and> oxygen g' = min MAX_OXYGEN (oxygen g + real_of_int (OxygenBonus.value b))
         \<and> score g' = score g + 150 * (Diver.comboCounter (diver g) + 1)
         \<and> Diver.comboCounter (diver g') = Diver.comboCounter (diver g) + 1
         \<and> Diver.comboTimer (diver g') = COMBO_TIMEOUT_FRAMES)
    \<and> (GameObject.y b > 30 \<and> \<not> hitByEnemy b g \<and> \<not> isColliding True (diver g) b False \<longrightarrow>
         g' = g
         \<and> r = (if OxygenBonus.lifespan b > 0 \<and> OxygenBonus.alpha b > 0 then Some b else None))"
  using assms by (auto simp add: bonusStep_def Let_def)

theorem oxygen_bonus_outcomes_witness:
  "hitByEnemy (moveBonus 1 risingBonus) huntGame
   \<and> GameObject.y (moveBonus 1 risingBonus) > 30
   \<and> fst (bonusStep 1 risingBonus huntGame) = None
   \<and> score (snd (bonusStep 1 risingBonus huntGame)) = score huntGame
   \<and> diver (snd (bonusStep 1 risingBonus huntGame)) = diver huntGame"
proof -
  have h: "hitByEnemy (moveBonus 1 risingBonus) huntGame"
    by (simp add: hitByEnemy_def moveBonus_def risingBonus_def huntGame_def smallFish_def
          isColliding_def Let_def)
  have y: "GameObject.y (moveBonus 1 risingBonus) > 30"
    by (simp add: moveBonus_def risingBonus_def Let_def)
  from oxygen_bonus_outcomes [of 1 risingBonus huntGame "fst (bonusStep 1 risingBonus huntGame)"
      "snd (bonusStep 1 risingBonus huntGame)" "moveBonus 1 risingBonus"] h y
  show ?thesis by simp
qed

text \<open>The claim as stated fails twice: a bonus destroyed by a hostile awards neither score
  nor combo, and a bonus whose lifespan runs out is removed by a fourth outcome that
  changes nothing.\<close>

theorem oxygen_bonus_destroyed_unrewarded:
  "hitByEnemy (moveBonus 1 risingBonus) huntGame
   \<and> fst (bonusStep 1 risingBonus huntGame) = None
   \<and> score (snd (bonusStep 1 risingBonus huntGame)) = score huntGame
   \<and> Diver.comboCounter (diver (snd (bonusStep 1 risingBonus huntGame)))
       = Diver.comboCounter (diver huntGame)
   \<and> oxygen (snd (bonusStep 1 risingBonus huntGame)) = oxygen huntGame
   \<and> bonusStep 1 (risingBonus\<lparr>OxygenBonus.lifespan := 1 / 2\<rparr>) playingGame = (None, playingGame)"
  by (simp add: bonusStep_def hitByEnemy_def moveBonus_def risingBonus_def huntGame_def
        smallFish_def playingGame_def newGame_def isColliding_def Let_def
        canvas_width_def canvas_height_def)

text \<open>
  A remark on the first outcome. A bonus rises 0.8 per frame unit from \<open>y = 718\<close> and
  has 800 frame units to live, so with its lifespan used up it is still at \<open>y = 78\<close>. A
  frame advances at most 6 frame units (\<open>\<Delta>t \<le> 100\<close>), so a bonus made by the factory is
  below the surface line \<open>y = 30\<close> whenever the surface test looks at it.
\<close>

lemma generateOxygenBonus_onCourse:
  "(\<forall>b \<in> set (oxygenBonus g). onCourse b) \<Longrightarrow>
   \<forall>b \<in> set (oxygenBonus (generateOxygenBonus g)). onCourse b"
  by (simp add: generateOxygenBonus_def random_def Let_def onCourse_def canvas_height_def)

lemma moveBonus_lifespan [simp]:
  "OxygenBonus.lifespan (moveBonus sf b) = OxygenBonus.lifespan b - sf"
  by (simp add: moveBonus_def Let_def)

lemma moveBonus_course:
  "onCourse b \<Longrightarrow> OxygenBonus.dy (moveBonus sf b) = - 0.8
     \<and> GameObject.y (moveBonus sf b) = 78 + 0.8 * OxygenBonus.lifespan (moveBonus sf b)"
  by (simp add: onCourse_def moveBonus_def Let_def)

lemma bonus_below_surface:
  assumes "onCourse b" "sf \<le> 6"
  shows "30 < GameObject.y (moveBonus sf b)"
proof -
  from moveBonus_course [OF assms(1), of sf]
  have "GameObject.y (moveBonus sf b) = 78 + 0.8 * (OxygenBonus.lifespan b - sf)"
    by simp
  moreover have "0 < OxygenBonus.lifespan b"
    using assms(1) by (simp add: onCourse_def)
  ultimately show ?thesis using assms(2) by argo
qed

lemma bonusStep_keeps_course:
  "onCourse b \<Longrightarrow> fst (bonusStep sf b g) = Some b' \<Longrightarrow> onCourse b'"
  using moveBonus_course [of b sf]
  by (auto simp add: bonusStep_def Let_def onCourse_def split: if_splits)



subsection \<open>Frame lemmas for the update steps\<close>

lemma comboTick_fields [simp]:
  "Diver.oxygenDepletionRate (comboTick sf d) = Diver.oxygenDepletionRate d"
  "GameObject.x (comboTick sf d) = GameObject.x d"
  "GameObject.y (comboTick sf d) = GameObject.y d"
  "GameObject.width (comboTick sf d) = GameObject.width d"
  "GameObject.height (comboTick sf d) = GameObject.height d"
  "Diver.isShieldActive (comboTick sf d) = Diver.isShieldActive d"
  "Diver.shieldTimer (comboTick sf d) = Diver.shieldTimer d"
  by (simp_all add: comboTick_def Let_def)

lemma comboTick_counter:
  "Diver.comboCounter (comboTick sf d) =
     (if 0 < Diver.comboTimer d \<and> Diver.comboTimer d - sf \<le> 0 then 0 else Diver.comboCounter d)"
  by (simp add: comboTick_def Let_def)

lemma shieldTick_fields [simp]:
  "Diver.oxygenDepletionRate (shieldTick sf d) = Diver.oxygenDepletionRate d"
  "GameObject.x (shieldTick sf d) = GameObject.x d"
  "GameObject.y (shieldTick sf d) = GameObject.y d"
  "GameObject.width (shieldTick sf d) = GameObject.width d"
  "GameObject.height (shieldTick sf d) = GameObject.height d"
  "Diver.comboCounter (shieldTick sf d) = Diver.comboCounter d"
  "Diver.comboTimer (shieldTick sf d) = Diver.comboTimer d"
  by (simp_all add: shieldTick_def Let_def)

lemma buoyancy_fields [simp]:
  "Diver.oxygenDepletionRate (buoyancy sf d) = Diver.oxygenDepletionRate d"
  "GameObject.width (buoyancy sf d) = GameObject.width d"
  "GameObject.height (buoyancy sf d) = GameObject.height d"
  "Diver.comboCounter (buoyancy sf d) = Diver.comboCounter d"
  "Diver.comboTimer (buoyancy sf d) = Diver.comboTimer d"
  "Diver.isShieldActive (buoyancy sf d) = Diver.isShieldActive d"
  "Diver.shieldTimer (buoyancy sf d) = Diver.shieldTimer d"
  "GameObject.x (buoyancy sf d) = GameObject.x d"
  "GameObject.y (buoyancy sf d) = GameObject.y d"
  by (simp_all add: buoyancy_def)

lemma steerHorizontal_fields [simp]:
  "Diver.oxygenDepletionRate (steerHorizontal sf ks d) = Diver.oxygenDepletionRate d"
  "GameObject.width (steerHorizontal sf ks d) = GameObject.width d"
  "GameObject.height (steerHorizontal sf ks d) = GameObject.height d"
  "Diver.comboCounter (steerHorizontal sf ks d) = Diver.comboCounter d"
  "Diver.comboTimer (steerHorizontal sf ks d) = Diver.comboTimer d"
  "Diver.isShieldActive (steerHorizontal sf ks d) = Diver.isShieldActive d"
  "Diver.shieldTimer (steerHorizontal sf ks d) = Diver.shieldTimer d"
  "GameObject.x (steerHorizontal sf ks d) = GameObject.x d"
  "GameObject.y (steerHorizontal sf ks d) = GameObject.y d"
  by (simp_all add: steerHorizontal_def)

lemma steerVertical_fields [simp]:
  "Diver.oxygenDepletionRate (steerVertical sf ks d) = Diver.oxygenDepletionRate d"
  "GameObject.width (steerVertical sf ks d) = GameObject.width d"
  "GameObject.height (steerVertical sf ks d) = GameObject.height d"
  "Diver.comboCounter (steerVertical sf ks d) = Diver.comboCounter d"
  "Diver.comboTimer (steerVertical sf ks d) = Diver.comboTimer d"
  "Diver.isShieldActive (steerVertical sf ks d) = Diver.isShieldActive d"
  "Diver.shieldTimer (steerVertical sf ks d) = Diver.shieldTimer d"
  "GameObject.x (steerVertical sf ks d) = GameObject.x d"
  "GameObject.y (steerVertical sf ks d) = GameObject.y d"
  by (simp_all add: steerVertical_def)

lemma integrateDiver_fields [simp]:
  "Diver.oxygenDepletionRate (integrateDiver sf d) = Diver.oxygenDepletionRate d"
  "GameObject.width (integrateDiver sf d) = GameObject.width d"
  "GameObject.height (integrateDiver sf d) = GameObject.height d"
  "Diver.comboCounter (integrateDiver sf d) = Diver.comboCounter d"
  "Diver.comboTimer (integrateDiver sf d) = Diver.comboTimer d"
  "Diver.isShieldActive (integrateDiver sf d) = Diver.isShieldActive d"
  "Diver.shieldTimer (integrateDiver sf d) = Diver.shieldTimer d"
  by (simp_all add: integrateDiver_def Let_def)

lemma clampDiver_fields [simp]:
  "Diver.oxygenDepletionRate (clampDiver d) = Diver.oxygenDepletionRate d"
  "GameObject.width (clampDiver d) = GameObject.width d"
  "GameObject.height (clampDiver d) = GameObject.height d"
  "Diver.comboCounter (clampDiver d) = Diver.comboCounter d"
  "Diver.comboTimer (clampDiver d) = Diver.comboTimer d"
  "Diver.isShieldActive (clampDiver d) = Diver.isShieldActive d"
  "Diver.shieldTimer (clampDiver d) = Diver.shieldTimer d"
  by (simp_all add: clampDiver_def Let_def)

lemma moveDiver_fields [simp]:
  "Diver.oxygenDepletionRate (moveDiver sf ks d) = Diver.oxygenDepletionRate d"
  "GameObject.width (moveDiver sf ks d) = GameObject.width d"
  "GameObject.height (moveDiver sf ks d) = GameObject.height d"
  "Diver.comboCounter (moveDiver sf ks d) = Diver.comboCounter d"
  "Diver.comboTimer (moveDiver sf ks d) = Diver.comboTimer d"
  "Diver.isShieldActive (moveDiver sf ks d) = Diver.isShieldActive d"
  "Diver.shieldTimer (moveDiver sf ks d) = Diver.shieldTimer d"
  by (simp_all add: moveDiver_def)


lemma weaponCooldownTick_fields [simp]:
  "Diver.oxygenDepletionRate (weaponCooldownTick sf d) = Diver.oxygenDepletionRate d"
  "GameObject.x (weaponCooldownTick sf d) = GameObject.x d"
  "GameObject.y (weaponCooldownTick sf d) = GameObject.y d"
  "GameObject.width (weaponCooldownTick sf d) = GameObject.width d"
  "GameObject.height (weaponCooldownTick sf d) = GameObject.height d"
  "Diver.comboCounter (weaponCooldownTick sf d) = Diver.comboCounter d"
  "Diver.comboTimer (weaponCooldownTick sf d) = Diver.comboTimer d"
  "Diver.isShieldActive (weaponCooldownTick sf d) = Diver.isShieldActive d"
  "Diver.shieldTimer (weaponCooldownTick sf d) = Diver.shieldTimer d"
  by (simp_all add: weaponCooldownTick_def Let_def)

lemma updateDiver_fields [simp]:
  "gameStarted (updateDiver dt g) = gameStarted g"
  "gameOver (updateDiver dt g) = gameOver g"
  "score (updateDiver dt g) = score g"
  "oxygen (updateDiver dt g) = oxygen g"
  "level (updateDiver dt g) = level g"
  "playerLives (updateDiver dt g) = playerLives g"
  "hearts (updateDiver dt g) = hearts g"
  "enemies (updateDiver dt g) = enemies g"
  "oxygenBubbles (updateDiver dt g) = oxygenBubbles g"
  "oxygenBonus (updateDiver dt g) = oxygenBonus g"
  "rnd (updateDiver dt g) = rnd g"
  "Diver.oxygenDepletionRate (diver (updateDiver dt g)) = Diver.oxygenDepletionRate (diver g)"
  by (simp_all add: updateDiver_def Let_def)


lemma updateWeaponSystem_fields [simp]:
  "gameStarted (updateWeaponSystem dt g) = gameStarted g"
  "gameOver (updateWeaponSystem dt g) = gameOver g"
  "score (updateWeaponSystem dt g) = score g"
  "oxygen (updateWeaponSystem dt g) = oxygen g"
  "level (updateWeaponSystem dt g) = level g"
  "playerLives (updateWeaponSystem dt g) = playerLives g"
  "hearts (updateWeaponSystem dt g) = hearts g"
  "enemies (updateWeaponSystem dt g) = enemies g"
  "oxygenBubbles (updateWeaponSystem dt g) = oxygenBubbles g"
  "oxygenBonus (updateWeaponSystem dt g) = oxygenBonus g"
  "rnd (updateWeaponSystem dt g) = rnd g"
  "Diver.oxygenDepletionRate (diver (updateWeaponSystem dt g)) = Diver.oxygenDepletionRate (diver g)"
  "GameObject.y (diver (updateWeaponSystem dt g)) = GameObject.y (diver g)"
  "Diver.comboCounter (diver (updateWeaponSystem dt g)) = Diver.comboCounter (diver g)"
  "Diver.comboTimer (diver (updateWeaponSystem dt g)) = Diver.comboTimer (diver g)"
  by (simp_all add: updateWeaponSystem_def fireHarpoon_def Let_def)

lemma pickupFall_value [simp]: "Pickup.value (pickupFall gr sf p) = Pickup.value p"
  by (simp add: pickupFall_def Let_def)

lemma collectTreasure_fields [simp]:
  "gameStarted (collectTreasure t g) = gameStarted g"
  "gameOver (collectTreasure t g) = gameOver g"
  "score (collectTreasure t g) = score g + Pickup.value t * (Diver.comboCounter (diver g) + 1)"
  "oxygen (collectTreasure t g) = oxygen g"
  "level (collectTreasure t g) = level g"
  "playerLives (collectTreasure t g) = playerLives g"
  "hearts (collectTreasure t g) = hearts g"
  "enemies (collectTreasure t g) = enemies g"
  "oxygenBubbles (collectTreasure t g) = oxygenBubbles g"
  "oxygenBonus (collectTreasure t g) = oxygenBonus g"
  "rnd (collectTreasure t g) = rnd g"
  "diver (collectTreasure t g) = diver (bumpCombo g)"
  by (simp_all add: collectTreasure_def Let_def bumpCombo_def)

lemma collectHeart_fields [simp]:
  "gameStarted (collectHeart h g) = gameStarted g"
  "gameOver (collectHeart h g) = gameOver g"
  "score (collectHeart h g) = score g + 50 * (Diver.comboCounter (diver g) + 1)"
  "oxygen (collectHeart h g) = oxygen g"
  "level (collectHeart h g) = level g"
  "playerLives (collectHeart h g) = min (playerLives g + Pickup.value h) MAX_PLAYER_LIVES"
  "hearts (collectHeart h g) = hearts g"
  "enemies (collectHeart h g) = enemies g"
  "oxygenBubbles (collectHeart h g) = oxygenBubbles g"
  "oxygenBonus (collectHeart h g) = oxygenBonus g"
  "rnd (collectHeart h g) = rnd g"
  "diver (collectHeart h g) = diver (bumpCombo g)"
  by (simp_all add: collectHeart_def Let_def bumpCombo_def)

lemma enemyHitsDiver_fields [simp]:
  "gameStarted (snd (enemyHitsDiver e g)) = gameStarted g"
  "gameOver (snd (enemyHitsDiver e g)) = gameOver g"
  "score (snd (enemyHitsDiver e g)) = score g"
  "level (snd (enemyHitsDiver e g)) = level g"
  "playerLives (snd (enemyHitsDiver e g)) = playerLives g"
  "hearts (snd (enemyHitsDiver e g)) = hearts g"
  "enemies (snd (enemyHitsDiver e g)) = enemies g"
  "harpoons (snd (enemyHitsDiver e g)) = harpoons g"
  "oxygenBubbles (snd (enemyHitsDiver e g)) = oxygenBubbles g"
  "oxygenBonus (snd (enemyHitsDiver e g)) = oxygenBonus g"
  "rnd (snd (enemyHitsDiver e g)) = rnd g"
  "Diver.oxygenDepletionRate (diver (snd (enemyHitsDiver e g))) = Diver.oxygenDepletionRate (diver g)"
  "GameObject.y (diver (snd (enemyHitsDiver e g))) = GameObject.y (diver g)"
  by (simp_all add: enemyHitsDiver_def Let_def)

lemma enemyHitsDiver_oxygen:
  "oxygen (snd (enemyHitsDiver e g)) =
     (if isColliding True (diver g) e (Enemy.isShark e) \<and> \<not> Diver.isShieldActive (diver g)
      then max 0 (oxygen g - 30) else oxygen g)"
  by (simp add: enemyHitsDiver_def Let_def)

lemma enemyHitsDiver_combo:
  "Diver.comboCounter (diver (snd (enemyHitsDiver e g))) =
     (if isColliding True (diver g) e (Enemy.isShark e) \<and> \<not> Diver.isShieldActive (diver g)
      then 0 else Diver.comboCounter (diver g))"
  by (simp add: enemyHitsDiver_def Let_def)

lemma harpoonHitsEnemy_fields [simp]:
  "gameStarted (snd (harpoonHitsEnemy e rest g)) = gameStarted g"
  "gameOver (snd (harpoonHitsEnemy e rest g)) = gameOver g"
  "oxygen (snd (harpoonHitsEnemy e rest g)) = oxygen g"
  "level (snd (harpoonHitsEnemy e rest g)) = level g"
  "playerLives (snd (harpoonHitsEnemy e rest g)) = playerLives g"
  "enemies (snd (harpoonHitsEnemy e rest g)) = enemies g"
  "oxygenBubbles (snd (harpoonHitsEnemy e rest g)) = oxygenBubbles g"
  "oxygenBonus (snd (harpoonHitsEnemy e rest g)) = oxygenBonus g"
  "rnd (snd (harpoonHitsEnemy e rest g)) = rnd g"
  "diver (snd (harpoonHitsEnemy e rest g)) = diver (bumpCombo g)"
  "score (snd (harpoonHitsEnemy e rest g)) =
     score g + (if Enemy.health e - 1 \<le> 0 then 25 else 10) * (Diver.comboCounter (diver g) + 1)"
  by (simp_all add: harpoonHitsEnemy_def Let_def bumpCombo_def)



lemma enemyStep_snd:
  "snd (enemyStep sf enemy g) =
     (case removeFirst (\<lambda>harpoon. isColliding False (harpoonRect harpoon)
                (fst (enemyHitsDiver (moveEnemy sf enemy) g))
                (Enemy.isShark (fst (enemyHitsDiver (moveEnemy sf enemy) g))))
             (harpoons (snd (enemyHitsDiver (moveEnemy sf enemy) g))) of
        None \<Rightarrow> snd (enemyHitsDiver (moveEnemy sf enemy) g)
      | Some rest \<Rightarrow> snd (harpoonHitsEnemy (fst (enemyHitsDiver (moveEnemy sf enemy) g)) rest
                           (snd (enemyHitsDiver (moveEnemy sf enemy) g))))"
  by (simp add: enemyStep_def case_prod_beta split: option.splits)

lemma enemyStep_fields [simp]:
  "gameStarted (snd (enemyStep sf e g)) = gameStarted g"
  "gameOver (snd (enemyStep sf e g)) = gameOver g"
  "level (snd (enemyStep sf e g)) = level g"
  "playerLives (snd (enemyStep sf e g)) = playerLives g"
  "enemies (snd (enemyStep sf e g)) = enemies g"
  "oxygenBubbles (snd (enemyStep sf e g)) = oxygenBubbles g"
  "oxygenBonus (snd (enemyStep sf e g)) = oxygenBonus g"
  "rnd (snd (enemyStep sf e g)) = rnd g"
  "Diver.oxygenDepletionRate (diver (snd (enemyStep sf e g))) = Diver.oxygenDepletionRate (diver g)"
  "GameObject.y (diver (snd (enemyStep sf e g))) = GameObject.y (diver g)"
  by (simp_all add: enemyStep_snd bumpCombo_def split: option.splits)

lemma enemyStep_oxygen:
  "oxygen (snd (enemyStep sf e g)) = oxygen (snd (enemyHitsDiver (moveEnemy sf e) g))"
  by (simp add: enemyStep_snd split: option.splits)

lemma crabEatsTreasure_fields [simp]:
  "gameStarted (snd (crabEatsTreasure c t g)) = gameStarted g"
  "gameOver (snd (crabEatsTreasure c t g)) = gameOver g"
  "oxygen (snd (crabEatsTreasure c t g)) = oxygen g"
  "level (snd (crabEatsTreasure c t g)) = level g"
  "playerLives (snd (crabEatsTreasure c t g)) = playerLives g"
  "hearts (snd (crabEatsTreasure c t g)) = hearts g"
  "harpoons (snd (crabEatsTreasure c t g)) = harpoons g"
  "enemies (snd (crabEatsTreasure c t g)) = enemies g"
  "oxygenBubbles (snd (crabEatsTreasure c t g)) = oxygenBubbles g"
  "oxygenBonus (snd (crabEatsTreasure c t g)) = oxygenBonus g"
  "rnd (snd (crabEatsTreasure c t g)) = rnd g"
  "diver (snd (crabEatsTreasure c t g)) = diver g"
  by (simp_all add: crabEatsTreasure_def Let_def)

lemma crabEatsHeart_fields [simp]:
  "gameStarted (snd (crabEatsHeart c h g)) = gameStarted g"
  "gameOver (snd (crabEatsHeart c h g)) = gameOver g"
  "oxygen (snd (crabEatsHeart c h g)) = oxygen g"
  "score (snd (crabEatsHeart c h g)) = score g"
  "level (snd (crabEatsHeart c h g)) = level g"
  "playerLives (snd (crabEatsHeart c h g)) = playerLives g"
  "hearts (snd (crabEatsHeart c h g)) = hearts g"
  "harpoons (snd (crabEatsHeart c h g)) = harpoons g"
  "enemies (snd (crabEatsHeart c h g)) = enemies g"
  "oxygenBubbles (snd (crabEatsHeart c h g)) = oxygenBubbles g"
  "oxygenBonus (snd (crabEatsHeart c h g)) = oxygenBonus g"
  "rnd (snd (crabEatsHeart c h g)) = rnd g"
  "diver (snd (crabEatsHeart c h g)) = diver g"
  by (simp_all add: crabEatsHeart_def Let_def)


lemma crabForages_fields [simp]:
  "gameStarted (crabForages c g) = gameStarted g"
  "gameOver (crabForages c g) = gameOver g"
  "oxygen (crabForages c g) = oxygen g"
  "level (crabForages c g) = level g"
  "playerLives (crabForages c g) = playerLives g"
  "harpoons (crabForages c g) = harpoons g"
  "enemies (crabForages c g) = enemies g"
  "oxygenBubbles (crabForages c g) = oxygenBubbles g"
  "oxygenBonus (crabForages c g) = oxygenBonus g"
  "rnd (crabForages c g) = rnd g"
  "diver (crabForages c g) = diver g"
  by (simp_all add: crabForages_def Let_def case_prod_beta forEach_field)


lemma crabHarpooned_fields [simp]:
  "gameStarted (snd (crabHarpooned c g)) = gameStarted g"
  "gameOver (snd (crabHarpooned c g)) = gameOver g"
  "oxygen (snd (crabHarpooned c g)) = oxygen g"
  "score (snd (crabHarpooned c g)) = score g"
  "level (snd (crabHarpooned c g)) = level g"
  "playerLives (snd (crabHarpooned c g)) = playerLives g"
  "hearts (snd (crabHarpooned c g)) = hearts g"
  "enemies (snd (crabHarpooned c g)) = enemies g"
  "oxygenBubbles (snd (crabHarpooned c g)) = oxygenBubbles g"
  "oxygenBonus (snd (crabHarpooned c g)) = oxygenBonus g"
  "rnd (snd (crabHarpooned c g)) = rnd g"
  "diver (snd (crabHarpooned c g)) = diver g"
  by (simp_all add: crabHarpooned_def Let_def split: option.splits)

lemma crabStep_snd: "snd (crabStep sf c g) = snd (crabHarpooned (moveCrab sf c) (crabForages (moveCrab sf c) g))"
  by (simp add: crabStep_def Let_def case_prod_beta)

lemma crabStep_fields [simp]:
  "gameStarted (snd (crabStep sf c g)) = gameStarted g"
  "gameOver (snd (crabStep sf c g)) = gameOver g"
  "oxygen (snd (crabStep sf c g)) = oxygen g"
  "level (snd (crabStep sf c g)) = level g"
  "playerLives (snd (crabStep sf c g)) = playerLives g"
  "enemies (snd (crabStep sf c g)) = enemies g"
  "oxygenBubbles (snd (crabStep sf c g)) = oxygenBubbles g"
  "oxygenBonus (snd (crabStep sf c g)) = oxygenBonus g"
  "rnd (snd (crabStep sf c g)) = rnd g"
  "diver (snd (crabStep sf c g)) = diver g"
  by (simp_all add: crabStep_snd)


lemma wellFormed_cong:
  "oxygen g' = oxygen g \<Longrightarrow> playerLives g' = playerLives g \<Longrightarrow>
   gameStarted g' = gameStarted g \<Longrightarrow> gameOver g' = gameOver g \<Longrightarrow>
   Diver.oxygenDepletionRate (diver g') = Diver.oxygenDepletionRate (diver g) \<Longrightarrow>
   oxygenBubbles g' = oxygenBubbles g \<Longrightarrow> oxygenBonus g' = oxygenBonus g \<Longrightarrow>
   hearts g' = hearts g \<Longrightarrow> rnd g' = rnd g \<Longrightarrow>
   wellFormed g' = wellFormed g"
  by (simp add: wellFormed_def)


lemma wf_createExplosion [simp]: "wellFormed (createExplosion px py c g) = wellFormed g"
  by (rule wellFormed_cong) simp_all

lemma wf_bumpCombo [simp]: "wellFormed (bumpCombo g) = wellFormed g"
  by (rule wellFormed_cong) simp_all

lemma wf_generateTreasures [simp]: "wellFormed (generateTreasures n pos g) = wellFormed g"
  by (rule wellFormed_cong) simp_all

lemma wf_generateEnemies [simp]: "wellFormed (generateEnemies n g) = wellFormed g"
  by (rule wellFormed_cong) simp_all

lemma wf_generateCrab [simp]: "wellFormed (generateCrab g) = wellFormed g"
  by (rule wellFormed_cong) simp_all

lemma wf_createLevelUpEffect [simp]: "wellFormed (createLevelUpEffect g) = wellFormed g"
  by (rule wellFormed_cong) simp_all






lemma wf_random [simp]: "wellFormed (snd (random g)) = wellFormed g"
  by (simp add: wellFormed_def random_def)

lemma random_nonneg: "wellFormed g \<Longrightarrow> 0 \<le> fst (random g)"
  by (simp add: wellFormed_def random_def)

subsection \<open>Each subsystem keeps the state well formed\<close>


















lemma depleteOxygen_diver [simp]: "diver (depleteOxygen sf g) = diver g"
  by (simp add: depleteOxygen_def Let_def)

lemma wf_oxygenWarnings [simp]: "wellFormed (oxygenWarnings sf g) = wellFormed g"
  by (simp add: oxygenWarnings_def Let_def)






lemma updateTreasures_diver_y [simp]:
  "GameObject.y (diver (updateTreasures dt g)) = GameObject.y (diver g)"
proof -
  have "\<And>e s. GameObject.y (diver (snd (treasureStep (dt / (1000 / 60)) e s))) = GameObject.y (diver s)"
    by (simp add: treasureStep_def Let_def)
  then have "GameObject.y (diver (snd (forEach (treasureStep (dt / (1000 / 60))) (treasures g) g)))
      = GameObject.y (diver g)"
    by (rule forEach_field [where h = "\<lambda>s. GameObject.y (diver s)"])
  then show ?thesis by (simp add: updateTreasures_def Let_def case_prod_beta)
qed

lemma updateHearts_diver_y [simp]:
  "GameObject.y (diver (updateHearts dt g)) = GameObject.y (diver g)"
proof -
  have "\<And>e s. GameObject.y (diver (snd (heartStep (dt / (1000 / 60)) e s))) = GameObject.y (diver s)"
    by (simp add: heartStep_def Let_def)
  then have "GameObject.y (diver (snd (forEach (heartStep (dt / (1000 / 60))) (hearts g) g)))
      = GameObject.y (diver g)"
    by (rule forEach_field [where h = "\<lambda>s. GameObject.y (diver s)"])
  then show ?thesis by (simp add: updateHearts_def Let_def case_prod_beta)
qed

lemma updateEnemies_diver_y [simp]:
  "GameObject.y (diver (updateEnemies dt g)) = GameObject.y (diver g)"
proof -
  have "GameObject.y (diver (snd (forEach (enemyStep (dt / (1000 / 60))) (enemies g) g)))
      = GameObject.y (diver g)"
    by (rule forEach_field [where h = "\<lambda>s. GameObject.y (diver s)"]) simp
  then show ?thesis by (simp add: updateEnemies_def Let_def case_prod_beta random_def)
qed

lemma updateCrabs_diver [simp]: "diver (updateCrabs dt g) = diver g"
proof -
  have "\<And>s cs. diver (snd (forEach (crabStep (dt / (1000 / 60))) cs s)) = diver s"
    by (rule forEach_field [where h = diver]) simp
  then show ?thesis by (simp add: updateCrabs_def Let_def case_prod_beta random_def)
qed






lemma wf_updateParticles [simp]: "wellFormed (updateParticles dt g) = wellFormed g"
  by (simp add: updateParticles_def Let_def wellFormed_def)





subsection \<open>The timestamp is written by the loop driver only\<close>

lemma lut_bumpCombo [simp]: "lastUpdateTime (bumpCombo g) = lastUpdateTime g"
  by (simp add: bumpCombo_def)

lemma lut_collectTreasure [simp]: "lastUpdateTime (collectTreasure t g) = lastUpdateTime g"
  by (simp add: collectTreasure_def Let_def)

lemma lut_treasureStep [simp]: "lastUpdateTime (snd (treasureStep sf t g)) = lastUpdateTime g"
  by (simp add: treasureStep_def Let_def)

lemma lut_collectHeart [simp]: "lastUpdateTime (collectHeart h g) = lastUpdateTime g"
  by (simp add: collectHeart_def Let_def)

lemma lut_heartStep [simp]: "lastUpdateTime (snd (heartStep sf h g)) = lastUpdateTime g"
  by (simp add: heartStep_def Let_def)

lemma lut_enemyDies [simp]: "lastUpdateTime (enemyDies e g) = lastUpdateTime g"
  by (simp add: enemyDies_def Let_def case_prod_beta random_def)

lemma lut_enemyHitsDiver [simp]: "lastUpdateTime (snd (enemyHitsDiver e g)) = lastUpdateTime g"
  by (simp add: enemyHitsDiver_def Let_def)

lemma lut_harpoonHitsEnemy [simp]:
  "lastUpdateTime (snd (harpoonHitsEnemy e rest g)) = lastUpdateTime g"
  by (simp add: harpoonHitsEnemy_def Let_def)

lemma lut_crabEats [simp]:
  "lastUpdateTime (snd (crabEatsTreasure c t g)) = lastUpdateTime g"
  "lastUpdateTime (snd (crabEatsHeart c h g)) = lastUpdateTime g"
  by (simp_all add: crabEatsTreasure_def crabEatsHeart_def Let_def)

lemma lut_crabForages [simp]: "lastUpdateTime (crabForages c g) = lastUpdateTime g"
  by (simp add: crabForages_def Let_def case_prod_beta forEach_field)

lemma lut_crabHarpooned [simp]: "lastUpdateTime (snd (crabHarpooned c g)) = lastUpdateTime g"
  by (simp add: crabHarpooned_def Let_def split: option.splits)

lemma lut_bubbleStep [simp]: "lastUpdateTime (snd (bubbleStep sf b g)) = lastUpdateTime g"
  by (simp add: bubbleStep_def moveBubble_def Let_def)

lemma lut_bonus [simp]:
  "lastUpdateTime (bonusSurfaced bo g) = lastUpdateTime g"
  "lastUpdateTime (bonusDestroyed bo g) = lastUpdateTime g"
  "lastUpdateTime (bonusCollected bo g) = lastUpdateTime g"
  by (simp_all add: bonusSurfaced_def bonusDestroyed_def bonusCollected_def Let_def)

lemma lut_bonusStep [simp]: "lastUpdateTime (snd (bonusStep sf bo g)) = lastUpdateTime g"
  by (simp add: bonusStep_def Let_def)

lemma lut_oxygenDeath [simp]: "lastUpdateTime (oxygenDeath g) = lastUpdateTime g"
  by (simp add: oxygenDeath_def endGame_def Let_def)

lemma lut_updateLevel [simp]: "lastUpdateTime (updateLevel g) = lastUpdateTime g"
  by (simp add: updateLevel_def Let_def)

lemma lut_updateParticles [simp]: "lastUpdateTime (updateParticles dt g) = lastUpdateTime g"
  by (simp add: updateParticles_def Let_def)

lemma lut_updateWeaponSystem [simp]: "lastUpdateTime (updateWeaponSystem dt g) = lastUpdateTime g"
  by (simp add: updateWeaponSystem_def fireHarpoon_def Let_def)

lemma lut_updateDiver [simp]: "lastUpdateTime (updateDiver dt g) = lastUpdateTime g"
  by (simp add: updateDiver_def Let_def)

lemma lut_enemyStep [simp]: "lastUpdateTime (snd (enemyStep sf e g)) = lastUpdateTime g"
  by (simp add: enemyStep_snd split: option.splits)

lemma lut_crabStep [simp]: "lastUpdateTime (snd (crabStep sf c g)) = lastUpdateTime g"
  by (simp add: crabStep_snd)

lemma lut_updateTreasures [simp]: "lastUpdateTime (updateTreasures dt g) = lastUpdateTime g"
  by (simp add: updateTreasures_def Let_def case_prod_beta forEach_field)

lemma lut_updateHearts [simp]: "lastUpdateTime (updateHearts dt g) = lastUpdateTime g"
  by (simp add: updateHearts_def Let_def case_prod_beta forEach_field)

lemma lut_updateEnemies [simp]: "lastUpdateTime (updateEnemies dt g) = lastUpdateTime g"
  by (simp add: updateEnemies_def Let_def case_prod_beta forEach_field random_def)

lemma lut_updateCrabs [simp]: "lastUpdateTime (updateCrabs dt g) = lastUpdateTime g"
  by (simp add: updateCrabs_def Let_def case_prod_beta forEach_field random_def)

lemma lut_breatheAndBubbles [simp]: "lastUpdateTime (breatheAndBubbles sf g) = lastUpdateTime g"
proof -
  have a: "\<And>s bs. lastUpdateTime (snd (forEach (bubbleStep sf) bs s)) = lastUpdateTime s"
    by (rule forEach_field [where h = lastUpdateTime]) simp
  have b: "lastUpdateTime (oxygenWarnings sf (depleteOxygen sf g)) = lastUpdateTime g"
    by (simp add: oxygenWarnings_def depleteOxygen_def Let_def random_def)
  have c: "\<And>s. lastUpdateTime (snd (random s)) = lastUpdateTime s"
    by (simp add: random_def)
  show ?thesis
    by (simp add: breatheAndBubbles_def Let_def case_prod_beta a b c)
qed

lemma lut_updateOxygenBubbles [simp]: "lastUpdateTime (updateOxygenBubbles dt g) = lastUpdateTime g"
  by (simp add: updateOxygenBubbles_def Let_def)

lemma lut_updateOxygenBonus [simp]: "lastUpdateTime (updateOxygenBonus dt g) = lastUpdateTime g"
proof -
  have a: "\<And>s bs sf. lastUpdateTime (snd (forEach (bonusStep sf) bs s)) = lastUpdateTime s"
    by (rule forEach_field [where h = lastUpdateTime]) simp
  have c: "\<And>s. lastUpdateTime (snd (random s)) = lastUpdateTime s"
    by (simp add: random_def)
  show ?thesis
    by (simp add: updateOxygenBonus_def Let_def case_prod_beta a c)
qed

lemma gameLoop_lastUpdateTime [simp]: "lastUpdateTime (gameLoop t g) = t"
  by (simp add: gameLoop_def updateAll_def requestAnimationFrame_def render_def Let_def)


subsection \<open>Bounds on oxygen and lives\<close>



subsection \<open>Combo counter\<close>

lemma updateDiver_combo:
  "Diver.comboCounter (diver (updateDiver dt g)) =
     (if 0 < Diver.comboTimer (diver g) \<and> Diver.comboTimer (diver g) - dt / (1000 / 60) \<le> 0
      then 0 else Diver.comboCounter (diver g))"
  by (simp add: updateDiver_def Let_def comboTick_counter)

lemma treasureStep_combo:
  "(diver (snd (treasureStep sf t g)) = diver g \<and> score (snd (treasureStep sf t g)) = score g)
   \<or> (Diver.comboCounter (diver (snd (treasureStep sf t g))) = Diver.comboCounter (diver g) + 1
      \<and> score (snd (treasureStep sf t g))
          = score g + Pickup.value t * (Diver.comboCounter (diver g) + 1))"
  by (simp add: treasureStep_def Let_def treasureFall_def)

lemma heartStep_combo:
  "(diver (snd (heartStep sf h g)) = diver g \<and> score (snd (heartStep sf h g)) = score g)
   \<or> (Diver.comboCounter (diver (snd (heartStep sf h g))) = Diver.comboCounter (diver g) + 1
      \<and> score (snd (heartStep sf h g)) = score g + 50 * (Diver.comboCounter (diver g) + 1))"
  by (simp add: heartStep_def Let_def)

lemma bonusStep_combo:
  "(diver (snd (bonusStep sf b g)) = diver g \<and> score (snd (bonusStep sf b g)) = score g)
   \<or> (Diver.comboCounter (diver (snd (bonusStep sf b g))) = Diver.comboCounter (diver g) + 1
      \<and> (score (snd (bonusStep sf b g)) = score g + 250 * (Diver.comboCounter (diver g) + 1)
         \<or> score (snd (bonusStep sf b g)) = score g + 150 * (Diver.comboCounter (diver g) + 1)))"
  by (simp add: bonusStep_def Let_def)

lemma enemyStep_combo:
  "(diver (snd (enemyStep sf e g)) = diver (snd (enemyHitsDiver (moveEnemy sf e) g))
      \<and> score (snd (enemyStep sf e g)) = score g)
   \<or> (Diver.comboCounter (diver (snd (enemyStep sf e g)))
        = Diver.comboCounter (diver (snd (enemyHitsDiver (moveEnemy sf e) g))) + 1
      \<and> (score (snd (enemyStep sf e g))
           = score g + 25 * (Diver.comboCounter (diver (snd (enemyHitsDiver (moveEnemy sf e) g))) + 1)
         \<or> score (snd (enemyStep sf e g))
           = score g + 10 * (Diver.comboCounter (diver (snd (enemyHitsDiver (moveEnemy sf e) g))) + 1)))"
  by (simp add: enemyStep_snd split: option.splits)

lemma combo_mono_loop:
  assumes "\<And>e s. Diver.comboCounter (diver s) \<le> Diver.comboCounter (diver (snd (step e s)))"
  shows "Diver.comboCounter (diver s) \<le> Diver.comboCounter (diver (snd (forEach step xs s)))"
proof (induction xs arbitrary: s)
  case Nil
  show ?case by simp
next
  case (Cons e es)
  have "Diver.comboCounter (diver s) \<le> Diver.comboCounter (diver (snd (step e s)))"
    by (rule assms)
  also have "\<dots> \<le> Diver.comboCounter (diver (snd (forEach step es (snd (step e s)))))"
    by (rule Cons.IH)
  finally show ?case by simp
qed

lemma updateTreasures_combo_mono:
  "Diver.comboCounter (diver g) \<le> Diver.comboCounter (diver (updateTreasures dt g))"
proof -
  have "\<And>e s. Diver.comboCounter (diver s)
       \<le> Diver.comboCounter (diver (snd (treasureStep (dt / (1000 / 60)) e s)))"
    using treasureStep_combo by (metis less_add_one order_less_imp_le order_refl)
  from combo_mono_loop [of "treasureStep (dt / (1000 / 60))", OF this]
  show ?thesis by (simp add: updateTreasures_def Let_def case_prod_beta)
qed

lemma updateHearts_combo_mono:
  "Diver.comboCounter (diver g) \<le> Diver.comboCounter (diver (updateHearts dt g))"
proof -
  have "\<And>e s. Diver.comboCounter (diver s)
       \<le> Diver.comboCounter (diver (snd (heartStep (dt / (1000 / 60)) e s)))"
    using heartStep_combo by (metis less_add_one order_less_imp_le order_refl)
  from combo_mono_loop [of "heartStep (dt / (1000 / 60))", OF this]
  show ?thesis by (simp add: updateHearts_def Let_def case_prod_beta)
qed

lemma bonusLoop_combo_mono:
  "Diver.comboCounter (diver s) \<le> Diver.comboCounter (diver (snd (forEach (bonusStep sf) bs s)))"
proof -
  have "\<And>e s. Diver.comboCounter (diver s)
       \<le> Diver.comboCounter (diver (snd (bonusStep sf e s)))"
    using bonusStep_combo by (metis less_add_one order_less_imp_le order_refl)
  from combo_mono_loop [of "bonusStep sf", OF this] show ?thesis .
qed

lemma updateOxygenBonus_combo_mono:
  "Diver.comboCounter (diver g) \<le> Diver.comboCounter (diver (updateOxygenBonus dt g))"
proof -
  let ?sf = "dt / (1000 / 60)"
  let ?g1 = "if length (oxygenBonus g) = 0
             then (if fst (random g) < 0.0005 * ?sf
                   then generateOxygenBonus (snd (random g)) else snd (random g))
             else g"
  have d: "diver ?g1 = diver g" by (simp add: random_def)
  have "diver (updateOxygenBonus dt g)
          = diver (snd (forEach (bonusStep ?sf) (oxygenBonus ?g1) ?g1))"
    by (simp add: updateOxygenBonus_def Let_def case_prod_beta)
  with bonusLoop_combo_mono [of ?g1 ?sf "oxygenBonus ?g1"] d show ?thesis by simp
qed

lemma updateEnemies_diver:
  "diver (updateEnemies dt g) = diver (snd (forEach (enemyStep (dt / (1000 / 60))) (enemies g) g))"
  by (simp add: updateEnemies_def Let_def case_prod_beta random_def)

lemma breatheAndBubbles_diver [simp]: "diver (breatheAndBubbles sf g) = diver g"
proof -
  have a: "\<And>s bs. diver (snd (forEach (bubbleStep sf) bs s)) = diver s"
    by (rule forEach_field [where h = diver]) (simp add: bubbleStep_def moveBubble_def Let_def)
  have b: "diver (oxygenWarnings sf (depleteOxygen sf g)) = diver g"
    by (simp add: oxygenWarnings_def Let_def random_def)
  show ?thesis
    by (simp add: breatheAndBubbles_def Let_def case_prod_beta random_def a b)
qed

lemma oxygenDeath_combo:
  "Diver.comboCounter (diver (oxygenDeath g)) =
     (if oxygen g \<le> 0 \<and> gameStarted g \<and> \<not> gameOver g \<and> playerLives g - 1 > 0
      then 0 else Diver.comboCounter (diver g))"
  by (simp add: oxygenDeath_def Let_def)

lemma updateLevel_combo [simp]:
  "Diver.comboCounter (diver (updateLevel g)) = Diver.comboCounter (diver g)"
  "Diver.comboTimer (diver (updateLevel g)) = Diver.comboTimer (diver g)"
  by (simp_all add: updateLevel_def Let_def)

lemma updateParticles_diver [simp]: "diver (updateParticles dt g) = diver g"
  by (simp add: updateParticles_def Let_def)

text \<open>
  Claim C9, as the code has it. The subsystems of a tick change the combo counter in
  these ways and in no other:
  \<^item> \<^verbatim>\<open>updateDiver\<close> resets it to 0 exactly when the running combo timer expires;
  \<^item> each treasure, heart or oxygen bonus either leaves diver and score alone or credits
    the score and raises the counter by one, so these loops never lower it;
  \<^item> for each enemy, the collision with the unshielded diver resets it to 0, and a harpoon
    hit then credits the score and raises it by one; the diver after \<^verbatim>\<open>updateEnemies\<close> is
    the diver after that loop;
  \<^item> \<^verbatim>\<open>updateOxygenBubbles\<close> resets it to 0 exactly when the oxygen has run out and the
    diver respawns with lives left;
  \<^item> the weapon, crab, particle and level subsystems leave it unchanged.
\<close>

theorem combo_transitions:
  "Diver.comboCounter (diver (updateDiver dt g)) =
     (if 0 < Diver.comboTimer (diver g) \<and> Diver.comboTimer (diver g) - dt / (1000 / 60) \<le> 0
      then 0 else Diver.comboCounter (diver g))
   \<and> Diver.comboCounter (diver (updateWeaponSystem dt g)) = Diver.comboCounter (diver g)
   \<and> Diver.comboCounter (diver g) \<le> Diver.comboCounter (diver (updateTreasures dt g))
   \<and> ((diver (snd (treasureStep sf t g)) = diver g \<and> score (snd (treasureStep sf t g)) = score g)
       \<or> (Diver.comboCounter (diver (snd (treasureStep sf t g))) = Diver.comboCounter (diver g) + 1
          \<and> score (snd (treasureStep sf t g))
              = score g + Pickup.value t * (Diver.comboCounter (diver g) + 1)))
   \<and> Diver.comboCounter (diver g) \<le> Diver.comboCounter (diver (updateHearts dt g))
   \<and> ((diver (snd (heartStep sf h g)) = diver g \<and> score (snd (heartStep sf h g)) = score g)
       \<or> (Diver.comboCounter (diver (snd (heartStep sf h g))) = Diver.comboCounter (diver g) + 1
          \<and> score (snd (heartStep sf h g)) = score g + 50 * (Diver.comboCounter (diver g) + 1)))
   \<and> diver (updateEnemies dt g)
       = diver (snd (forEach (enemyStep (dt / (1000 / 60))) (enemies g) g))
   \<and> Diver.comboCounter (diver (snd (enemyHitsDiver e g))) =
       (if isColliding True (diver g) e (Enemy.isShark e) \<and> \<not> Diver.isShieldActive (diver g)
        then 0 else Diver.comboCounter (diver g))
   \<and> ((diver (snd (enemyStep sf e g)) = diver (snd (enemyHitsDiver (moveEnemy sf e) g))
          \<and> score (snd (enemyStep sf e g)) = score g)
       \<or> (Diver.comboCounter (diver (snd (enemyStep sf e g)))
            = Diver.comboCounter (diver (snd (enemyHitsDiver (moveEnemy sf e) g))) + 1
          \<and> (score (snd (enemyStep sf e g))
               = score g + 25 * (Diver.comboCounter (diver (snd (enemyHitsDiver (moveEnemy sf e) g))) + 1)
             \<or> score (snd (enemyStep sf e g))
               = score g + 10 * (Diver.comboCounter (diver (snd (enemyHitsDiver (moveEnemy sf e) g))) + 1))))
   \<and> diver (updateCrabs dt g) = diver g
   \<and> Diver.comboCounter (diver (updateOxygenBubbles dt g)) =
       (if oxygen (breatheAndBubbles (dt / (1000 / 60)) g) \<le> 0
           \<and> gameStarted (breatheAndBubbles (dt / (1000 / 60)) g)
           \<and> \<not> gameOver (breatheAndBubbles (dt / (1000 / 60)) g)
           \<and> playerLives (breatheAndBubbles (dt / (1000 / 60)) g) - 1 > 0
        then 0 else Diver.comboCounter (diver g))
   \<and> Diver.comboCounter (diver g) \<le> Diver.comboCounter (diver (updateOxygenBonus dt g))
   \<and> ((diver (snd (bonusStep sf b g)) = diver g \<and> score (snd (bonusStep sf b g)) = score g)
       \<or> (Diver.comboCounter (diver (snd (bonusStep sf b g))) = Diver.comboCounter (diver g) + 1
          \<and> (score (snd (bonusStep sf b g)) = score g + 250 * (Diver.comboCounter (diver g) + 1)
             \<or> score (snd (bonusStep sf b g)) = score g + 150 * (Diver.comboCounter (diver g) + 1))))
   \<and> diver (updateParticles dt g) = diver g
   \<and> Diver.comboCounter (diver (updateLevel g)) = Diver.comboCounter (diver g)"
  using updateDiver_combo [of dt g] updateTreasures_combo_mono [of g dt]
    treasureStep_combo [of sf t g] updateHearts_combo_mono [of g dt] heartStep_combo [of sf h g]
    updateEnemies_diver [of dt g] enemyHitsDiver_combo [of e g] enemyStep_combo [of sf e g]
    updateOxygenBonus_combo_mono [of g dt] bonusStep_combo [of sf b g]
  by (simp add: updateOxygenBubbles_def Let_def oxygenDeath_combo)

theorem combo_transitions_witness:
  "Diver.comboCounter (diver (updateDiver 16 comboGame)) = 5
   \<and> Diver.comboCounter (diver (updateWeaponSystem 16 comboGame)) = 5
   \<and> diver (updateCrabs 16 comboGame) = diver comboGame
   \<and> diver (updateParticles 16 comboGame) = diver comboGame
   \<and> Diver.comboCounter (diver (updateLevel comboGame)) = 5
   \<and> Diver.comboCounter (diver (snd (enemyHitsDiver smallFish comboGame))) = 5"
  using combo_transitions [of 16 comboGame 1 restingHeart restingHeart smallFish risingBonus]
  by (simp add: comboGame_def playingGame_def newGame_def smallFish_def isColliding_def
        canvas_width_def canvas_height_def Let_def)

text \<open>The claim as stated fails: in this tick no hostile exists and the combo timer does
  not expire, yet the counter goes from 5 to 0, because the oxygen has run out and the
  diver respawns.\<close>

lemmas tick_defs = gameLoop_def updateAll_def updateDiver_def updateWeaponSystem_def
  updateTreasures_def updateHearts_def updateEnemies_def updateCrabs_def
  updateOxygenBubbles_def updateOxygenBonus_def updateParticles_def updateLevel_def
  breatheAndBubbles_def depleteOxygen_def oxygenWarnings_def oxygenDeath_def
  moveDiver_def buoyancy_def steerHorizontal_def steerVertical_def integrateDiver_def
  clampDiver_def comboTick_def shieldTick_def weaponCooldownTick_def
  requestAnimationFrame_def render_def random_def constRandoms_def
  canvas_width_def canvas_height_def MAX_OXYGEN_def MAX_PLAYER_LIVES_def
  RAPID_FIRE_THRESHOLD_FACTOR_def List.map_filter_def

theorem combo_reset_by_respawn:
  "Diver.comboCounter (diver comboGame) = 5
   \<and> Diver.comboTimer (diver comboGame) - 16 / (1000 / 60) > 0
   \<and> enemies comboGame = []
   \<and> gameStarted comboGame \<and> \<not> gameOver comboGame
   \<and> Diver.comboCounter (diver (gameLoop 16 comboGame)) = 0
   \<and> enemies (gameLoop 16 comboGame) = []
   \<and> playerLives (gameLoop 16 comboGame) = 2"
  by (simp add: comboGame_def playingGame_def newGame_def tick_defs Let_def)

subsection \<open>A frame whose timestamp goes back\<close>

text \<open>With a negative scale factor the depletion adds oxygen.\<close>

lemma depleteOxygen_negative_scale:
  assumes "sf < 0" "0 < Diver.oxygenDepletionRate (diver g)" "0 \<le> GameObject.y (diver g)"
    "0 \<le> oxygen g"
  shows "oxygen g < oxygen (depleteOxygen sf g)"
proof -
  have "0 < 1 + GameObject.y (diver g) / canvas_height"
    using assms(3) by (simp add: canvas_height_def add_pos_nonneg)
  with assms(2) have "0 < Diver.oxygenDepletionRate (diver g) * (1 + GameObject.y (diver g) / canvas_height)"
    by simp
  with assms(1) have "Diver.oxygenDepletionRate (diver g) * (1 + GameObject.y (diver g) / canvas_height) * sf < 0"
    by (simp add: mult_pos_neg)
  with assms(4) show ?thesis by (simp add: depleteOxygen_def Let_def)
qed

lemma earlyGame_wellFormed: "wellFormed earlyGame"
  by (simp add: wellFormed_def earlyGame_def surfaceGame_def playingGame_def newGame_def
        constRandoms_def MAX_OXYGEN_def MAX_PLAYER_LIVES_def)

text \<open>
  Claim C1 says that after every tick the oxygen is between 0 and \<^verbatim>\<open>MAX_OXYGEN\<close> and
  the lives are between 0 and \<^verbatim>\<open>MAX_PLAYER_LIVES\<close>. The code breaks the upper bound
  on the oxygen in a frame whose timestamp is earlier than \<^verbatim>\<open>game.lastUpdateTime\<close>:
  \<^verbatim>\<open>init\<close> takes that time from \<^verbatim>\<open>performance.now()\<close> when the key is pressed, and
  the frame that follows carries the time at which the frame began. Then \<open>\<Delta>t\<close> and the
  scale factor are negative, \<^verbatim>\<open>gameLoop\<close> tests only \<open>\<Delta>t > 100\<close>, and the depletion,
  which is floored at 0 and has no cap, adds oxygen. Here the clock of a running session
  with full oxygen stands at 1000 ms and the frame carries 995 ms: after the frame the
  oxygen is 300.0150234375, above \<^verbatim>\<open>MAX_OXYGEN = 300\<close>. Every other gain of oxygen
  (bubbles, the bonus) is capped by \<^verbatim>\<open>Math.min(MAX_OXYGEN, ...)\<close>, and for frames whose
  timestamps do not go back the bounds hold (\<open>tick_bounds\<close>).
\<close>

theorem early_frame_exceeds_max_oxygen:
  "gameStarted earlyGame \<and> \<not> gameOver earlyGame
   \<and> oxygen earlyGame = MAX_OXYGEN
   \<and> lastUpdateTime earlyGame = 1000
   \<and> oxygen (gameLoop 995 earlyGame) = 300.0150234375
   \<and> MAX_OXYGEN < oxygen (gameLoop 995 earlyGame)"
  by (simp add: earlyGame_def surfaceGame_def playingGame_def newGame_def tick_defs Let_def)

subsection \<open>Harpoon hits\<close>









lemmas hunt_defs = updateEnemies_def enemyStep_def enemyHitsDiver_def moveEnemy_def
  harpoonHitsEnemy_def enemyDies_def bumpCombo_def harpoonRect_def isColliding_def
  smallFish_def flyingHarpoon_def huntGame_def playingGame_def newGame_def
  random_def constRandoms_def canvas_width_def canvas_height_def forEach.simps(2)


text \<open>Two harpoons overlap a fish with one point of health: the first one kills it and
  is consumed, the second one stays in the list and earns nothing.\<close>

theorem second_harpoon_passes:
  "enemies volleyGame = [smallFish]
   \<and> harpoons volleyGame = [flyingHarpoon, secondHarpoon]
   \<and> isColliding False (harpoonRect flyingHarpoon) (moveEnemy 1 smallFish) False
   \<and> isColliding False (harpoonRect secondHarpoon) (moveEnemy 1 smallFish) False
   \<and> enemies (updateEnemies (50 / 3) volleyGame) = []
   \<and> harpoons (updateEnemies (50 / 3) volleyGame) = [secondHarpoon]
   \<and> score (updateEnemies (50 / 3) volleyGame) = score volleyGame + 25 * (2 + 1)
   \<and> Diver.comboCounter (diver (updateEnemies (50 / 3) volleyGame)) = 2 + 1"
  by (simp add: volleyGame_def secondHarpoon_def hunt_defs Let_def)

subsection \<open>Depth-scaled oxygen depletion\<close>

lemma moveDiver_stays_at_surface:
  assumes "0 \<le> sf" "GameObject.y d = 0" "Diver.dy d \<le> 0" "\<not> ArrowDown ks"
    "0 \<le> Diver.speed d" "GameObject.height d \<le> canvas_height"
  shows "GameObject.y (moveDiver sf ks d) = 0"
proof -
  let ?d3 = "steerVertical sf ks (steerHorizontal sf ks (buoyancy sf d))"
  have dy0: "Diver.dy (steerHorizontal sf ks (buoyancy sf d)) \<le> 0"
    using assms by (simp add: steerHorizontal_def buoyancy_def)
  have sp: "Diver.speed (steerHorizontal sf ks (buoyancy sf d)) = Diver.speed d"
    by (simp add: steerHorizontal_def buoyancy_def)
  have "Diver.dy ?d3 \<le> 0"
    using dy0 sp assms(4,5) by (simp add: steerVertical_def mult_le_0_iff)
  with assms(1) have m: "Diver.dy ?d3 * sf \<le> 0" by (simp add: mult_le_0_iff)
  have y3: "GameObject.y ?d3 = 0" using assms(2) by simp
  have h3: "GameObject.height ?d3 = GameObject.height d" by simp
  have "GameObject.y (moveDiver sf ks d)
          = max 0 (min (canvas_height - GameObject.height ?d3) (GameObject.y ?d3 + Diver.dy ?d3 * sf))"
    by (simp add: moveDiver_def clampDiver_def integrateDiver_def Let_def)
  with m y3 h3 assms(6) show ?thesis by (simp add: max_def min_def)
qed


lemma surface_tick:
  "oxygen (gameLoop (167 / 10) surfaceGame) = 2999499 / 10000"
  by (simp add: surfaceGame_def playingGame_def newGame_def tick_defs Let_def)

lemma init_fields [simp]:
  "oxygen (init now g) = MAX_OXYGEN"
  "playerLives (init now g) = 3"
  "level (init now g) = 1"
  "score (init now g) = 0"
  "gameStarted (init now g)"
  "\<not> gameOver (init now g)"
  "rnd (init now g) = rnd g"
  "hearts (init now g) = []"
  "oxygenBonus (init now g) = []"
  "Diver.oxygenDepletionRate (diver (init now g)) = 0.05"
  "GameObject.y (diver (init now g)) = canvas_height / 2"
  "lastUpdateTime (init now g) = now"
  by (simp_all add: init_def Let_def requestAnimationFrame_def)

text \<open>Collision tests read the box of the first object only: its position and size.\<close>

lemma isColliding_box:
  "GameObject.truncate d = GameObject.truncate d' \<Longrightarrow>
   isColliding b d obj sh = isColliding b d' obj sh"
  by (simp add: GameObject.truncate_def isColliding_def)

lemma isCollidingCircle_box:
  assumes "GameObject.truncate d = GameObject.truncate d'"
  shows "isCollidingCircle b d c = isCollidingCircle b d' c"
proof -
  from assms have eqs: "GameObject.x d = GameObject.x d'" "GameObject.y d = GameObject.y d'"
    "GameObject.width d = GameObject.width d'" "GameObject.height d = GameObject.height d'"
    by (simp_all add: GameObject.truncate_def)
  show ?thesis unfolding isCollidingCircle_def eqs by (rule refl)
qed

lemma box_bumpCombo [simp]:
  "GameObject.truncate (diver (bumpCombo g)) = GameObject.truncate (diver g)"
  by (simp add: GameObject.truncate_def)

lemma updateDiver_lastUpdateTime:
  "diver (updateDiver dt (g\<lparr>lastUpdateTime := t\<rparr>)) = diver (updateDiver dt g)"
  by (simp add: updateDiver_def Let_def)

lemma updateWeaponSystem_box [simp]:
  "GameObject.truncate (diver (updateWeaponSystem dt g)) = GameObject.truncate (diver g)"
  by (simp add: updateWeaponSystem_def fireHarpoon_def weaponCooldownTick_def Let_def
        GameObject.truncate_def)

lemma updateTreasures_quiet:
  "oxygen (updateTreasures dt g) = oxygen g"
  "enemies (updateTreasures dt g) = enemies g"
  "oxygenBubbles (updateTreasures dt g) = oxygenBubbles g"
  "oxygenBonus (updateTreasures dt g) = oxygenBonus g"
  "Diver.oxygenDepletionRate (diver (updateTreasures dt g)) = Diver.oxygenDepletionRate (diver g)"
  "GameObject.truncate (diver (updateTreasures dt g)) = GameObject.truncate (diver g)"
proof -
  let ?h = "\<lambda>s. (oxygen s, enemies s, oxygenBubbles s, oxygenBonus s,
                 Diver.oxygenDepletionRate (diver s), GameObject.truncate (diver s))"
  have "\<And>e s. ?h (snd (treasureStep (dt / (1000 / 60)) e s)) = ?h s"
    by (simp add: treasureStep_def Let_def)
  then have "?h (snd (forEach (treasureStep (dt / (1000 / 60))) (treasures g) g)) = ?h g"
    by (rule forEach_field [where h = ?h])
  then show
    "oxygen (updateTreasures dt g) = oxygen g"
    "enemies (updateTreasures dt g) = enemies g"
    "oxygenBubbles (updateTreasures dt g) = oxygenBubbles g"
    "oxygenBonus (updateTreasures dt g) = oxygenBonus g"
    "Diver.oxygenDepletionRate (diver (updateTreasures dt g)) = Diver.oxygenDepletionRate (diver g)"
    "GameObject.truncate (diver (updateTreasures dt g)) = GameObject.truncate (diver g)"
    by (simp_all add: updateTreasures_def Let_def case_prod_beta)
qed

lemma updateHearts_quiet:
  "oxygen (updateHearts dt g) = oxygen g"
  "enemies (updateHearts dt g) = enemies g"
  "oxygenBubbles (updateHearts dt g) = oxygenBubbles g"
  "oxygenBonus (updateHearts dt g) = oxygenBonus g"
  "Diver.oxygenDepletionRate (diver (updateHearts dt g)) = Diver.oxygenDepletionRate (diver g)"
  "GameObject.truncate (diver (updateHearts dt g)) = GameObject.truncate (diver g)"
proof -
  let ?h = "\<lambda>s. (oxygen s, enemies s, oxygenBubbles s, oxygenBonus s,
                 Diver.oxygenDepletionRate (diver s), GameObject.truncate (diver s))"
  have "\<And>e s. ?h (snd (heartStep (dt / (1000 / 60)) e s)) = ?h s"
    by (simp add: heartStep_def Let_def)
  then have "?h (snd (forEach (heartStep (dt / (1000 / 60))) (hearts g) g)) = ?h g"
    by (rule forEach_field [where h = ?h])
  then show
    "oxygen (updateHearts dt g) = oxygen g"
    "enemies (updateHearts dt g) = enemies g"
    "oxygenBubbles (updateHearts dt g) = oxygenBubbles g"
    "oxygenBonus (updateHearts dt g) = oxygenBonus g"
    "Diver.oxygenDepletionRate (diver (updateHearts dt g)) = Diver.oxygenDepletionRate (diver g)"
    "GameObject.truncate (diver (updateHearts dt g)) = GameObject.truncate (diver g)"
    by (simp_all add: updateHearts_def Let_def case_prod_beta)
qed

lemma enemyHitsDiver_box [simp]:
  "GameObject.truncate (diver (snd (enemyHitsDiver e g))) = GameObject.truncate (diver g)"
  by (simp add: enemyHitsDiver_def Let_def GameObject.truncate_def)

lemma enemyStep_box [simp]:
  "GameObject.truncate (diver (snd (enemyStep sf e g))) = GameObject.truncate (diver g)"
  by (simp add: enemyStep_snd split: option.splits)

lemma updateEnemies_quiet:
  "oxygenBubbles (updateEnemies dt g) = oxygenBubbles g"
  "oxygenBonus (updateEnemies dt g) = oxygenBonus g"
  "Diver.oxygenDepletionRate (diver (updateEnemies dt g)) = Diver.oxygenDepletionRate (diver g)"
  "GameObject.truncate (diver (updateEnemies dt g)) = GameObject.truncate (diver g)"
proof -
  let ?h = "\<lambda>s. (oxygenBubbles s, oxygenBonus s,
                 Diver.oxygenDepletionRate (diver s), GameObject.truncate (diver s))"
  have "?h (snd (forEach (enemyStep (dt / (1000 / 60))) (enemies g) g)) = ?h g"
    by (rule forEach_field [where h = ?h]) simp
  then show
    "oxygenBubbles (updateEnemies dt g) = oxygenBubbles g"
    "oxygenBonus (updateEnemies dt g) = oxygenBonus g"
    "Diver.oxygenDepletionRate (diver (updateEnemies dt g)) = Diver.oxygenDepletionRate (diver g)"
    "GameObject.truncate (diver (updateEnemies dt g)) = GameObject.truncate (diver g)"
    by (simp_all add: updateEnemies_def Let_def case_prod_beta random_def)
qed

text \<open>No hostile that touches the diver: the hostile loop leaves the oxygen alone.\<close>

lemma updateEnemies_no_contact:
  assumes "\<forall>e \<in> set (enemies g).
             \<not> isColliding True (diver g) (moveEnemy (dt / (1000 / 60)) e)
                 (Enemy.isShark (moveEnemy (dt / (1000 / 60)) e))"
  shows "oxygen (updateEnemies dt g) = oxygen g"
proof -
  let ?sf = "dt / (1000 / 60)"
  let ?P = "\<lambda>s. oxygen s = oxygen g \<and> GameObject.truncate (diver s) = GameObject.truncate (diver g)"
  have "?P (snd (forEach (enemyStep ?sf) (enemies g) g))"
  proof (rule forEach_inv [where P = ?P])
    show "?P g" by simp
  next
    fix e and s :: Game assume e: "e \<in> set (enemies g)" and s: "?P s"
    from s have "isColliding True (diver s) (moveEnemy ?sf e) (Enemy.isShark (moveEnemy ?sf e))
        = isColliding True (diver g) (moveEnemy ?sf e) (Enemy.isShark (moveEnemy ?sf e))"
      by (intro isColliding_box) simp
    with assms e have "\<not> isColliding True (diver s) (moveEnemy ?sf e)
        (Enemy.isShark (moveEnemy ?sf e))" by simp
    then have "oxygen (snd (enemyStep ?sf e s)) = oxygen s"
      by (simp add: enemyStep_oxygen enemyHitsDiver_oxygen)
    with s show "?P (snd (enemyStep ?sf e s))" by simp
  qed
  then show ?thesis by (simp add: updateEnemies_def Let_def case_prod_beta random_def)
qed

lemma updateCrabs_quiet:
  "oxygen (updateCrabs dt g) = oxygen g"
  "oxygenBubbles (updateCrabs dt g) = oxygenBubbles g"
  "oxygenBonus (updateCrabs dt g) = oxygenBonus g"
proof -
  let ?h = "\<lambda>s. (oxygen s, oxygenBubbles s, oxygenBonus s)"
  have "\<And>s cs. ?h (snd (forEach (crabStep (dt / (1000 / 60))) cs s)) = ?h s"
    by (rule forEach_field [where h = ?h]) simp
  then show "oxygen (updateCrabs dt g) = oxygen g"
    "oxygenBubbles (updateCrabs dt g) = oxygenBubbles g"
    "oxygenBonus (updateCrabs dt g) = oxygenBonus g"
    by (simp_all add: updateCrabs_def Let_def case_prod_beta random_def)
qed

lemma box_fields:
  "GameObject.truncate a = GameObject.truncate b \<Longrightarrow>
   GameObject.x a = GameObject.x b \<and> GameObject.y a = GameObject.y b
   \<and> GameObject.width a = GameObject.width b \<and> GameObject.height a = GameObject.height b"
  by (simp add: GameObject.truncate_def)

lemma oxygenWarnings_fields [simp]:
  "oxygen (oxygenWarnings sf g) = oxygen g"
  "diver (oxygenWarnings sf g) = diver g"
  "oxygenBubbles (oxygenWarnings sf g) = oxygenBubbles g"
  "oxygenBonus (oxygenWarnings sf g) = oxygenBonus g"
  by (simp_all add: oxygenWarnings_def Let_def random_def)

lemma depleteOxygen_fields [simp]:
  "oxygenBubbles (depleteOxygen sf g) = oxygenBubbles g"
  "oxygenBonus (depleteOxygen sf g) = oxygenBonus g"
  by (simp_all add: depleteOxygen_def Let_def)

lemma bubbleStep_frame [simp]:
  "diver (snd (bubbleStep sf b g)) = diver g"
  "oxygenBonus (snd (bubbleStep sf b g)) = oxygenBonus g"
  by (simp_all add: bubbleStep_def Let_def)

lemma bubbleStep_no_contact:
  "\<not> isCollidingCircle True (diver g) (moveBubble sf b) \<Longrightarrow> snd (bubbleStep sf b g) = g"
  by (simp add: bubbleStep_def Let_def)

lemma breatheAndBubbles_oxygenBonus [simp]:
  "oxygenBonus (breatheAndBubbles sf g) = oxygenBonus g"
proof -
  have a: "\<And>s bs. oxygenBonus (snd (forEach (bubbleStep sf) bs s)) = oxygenBonus s"
    by (rule forEach_field [where h = oxygenBonus]) simp
  show ?thesis
    by (simp add: breatheAndBubbles_def Let_def case_prod_beta random_def a)
qed

text \<open>No bubble that touches the diver: what is left of \<^verbatim>\<open>updateOxygenBubbles\<close> before
  the death check is the depletion.\<close>

lemma breatheAndBubbles_no_contact:
  assumes "\<forall>b \<in> set (oxygenBubbles g). \<not> isCollidingCircle True (diver g) (moveBubble sf b)"
  shows "oxygen (breatheAndBubbles sf g) = oxygen (depleteOxygen sf g)"
proof -
  let ?g1 = "oxygenWarnings sf (depleteOxygen sf g)"
  let ?P = "\<lambda>s. oxygen s = oxygen (depleteOxygen sf g) \<and> diver s = diver g"
  have "?P (snd (forEach (bubbleStep sf) (oxygenBubbles g) ?g1))"
  proof (rule forEach_inv [where P = ?P])
    show "?P ?g1" by simp
  next
    fix b and s :: Game assume b: "b \<in> set (oxygenBubbles g)" and s: "?P s"
    with assms have "\<not> isCollidingCircle True (diver s) (moveBubble sf b)" by simp
    then have "snd (bubbleStep sf b s) = s" by (rule bubbleStep_no_contact)
    with s show "?P (snd (bubbleStep sf b s))" by simp
  qed
  then have a: "oxygen (snd (forEach (bubbleStep sf) (oxygenBubbles g) ?g1))
      = oxygen (depleteOxygen sf g)" by simp
  show ?thesis
    by (simp add: breatheAndBubbles_def Let_def case_prod_beta random_def a)
qed

lemma oxygenDeath_alive: "0 < oxygen g \<Longrightarrow> oxygenDeath g = g"
  by (simp add: oxygenDeath_def)

lemma moveBonus_box [simp]:
  "GameObject.x (moveBonus sf b) = GameObject.x b"
  "GameObject.y (moveBonus sf b) = GameObject.y b + OxygenBonus.dy b * sf"
  "GameObject.width (moveBonus sf b) = GameObject.width b"
  "GameObject.height (moveBonus sf b) = GameObject.height b"
  by (simp_all add: moveBonus_def Let_def)

lemma bonusStep_no_contact:
  assumes "30 < GameObject.y (moveBonus sf b)"
    and "\<not> isColliding True (diver g) (moveBonus sf b) False"
  shows "oxygen (snd (bonusStep sf b g)) = oxygen g \<and> diver (snd (bonusStep sf b g)) = diver g"
  using assms by (simp add: bonusStep_def Let_def)

lemma bonusLoop_no_contact:
  assumes "\<forall>b \<in> set bs. 30 < GameObject.y (moveBonus sf b)
             \<and> \<not> isColliding True (diver s) (moveBonus sf b) False"
  shows "oxygen (snd (forEach (bonusStep sf) bs s)) = oxygen s"
proof -
  let ?P = "\<lambda>s'. oxygen s' = oxygen s \<and> diver s' = diver s"
  have "?P (snd (forEach (bonusStep sf) bs s))"
  proof (rule forEach_inv [where P = ?P])
    show "?P s" by simp
  next
    fix b and s' :: Game assume b: "b \<in> set bs" and s': "?P s'"
    with assms have "30 < GameObject.y (moveBonus sf b)"
      "\<not> isColliding True (diver s') (moveBonus sf b) False" by simp_all
    from bonusStep_no_contact [OF this] s' show "?P (snd (bonusStep sf b s'))" by simp
  qed
  then show ?thesis by simp
qed

text \<open>A bonus that appears in this tick starts at \<open>y = 718\<close>, below a diver whose
  collision box ends at 700 or above.\<close>

lemma fresh_bonus_out_of_reach:
  assumes "oxygenBonus g = []" "dt \<le> 100"
    and "GameObject.y (diver g) + 0.95 * GameObject.height (diver g) \<le> 700"
  shows "\<forall>b \<in> set (oxygenBonus (generateOxygenBonus g)).
           30 < GameObject.y (moveBonus (dt / (1000 / 60)) b)
           \<and> \<not> isColliding True (diver (generateOxygenBonus g)) (moveBonus (dt / (1000 / 60)) b) False"
proof -
  have sf: "dt / (1000 / 60) \<le> 6" using assms(2) by simp
  show ?thesis using assms(1,3) sf
    by (simp add: generateOxygenBonus_def random_def Let_def isColliding_def canvas_height_def)
qed

lemma updateOxygenBonus_no_contact:
  assumes "\<forall>b \<in> set (oxygenBonus g). 30 < GameObject.y (moveBonus (dt / (1000 / 60)) b)
             \<and> \<not> isColliding True (diver g) (moveBonus (dt / (1000 / 60)) b) False"
    and "oxygenBonus g = [] \<longrightarrow>
           GameObject.y (diver g) + 0.95 * GameObject.height (diver g) \<le> 700"
    and "dt \<le> 100"
  shows "oxygen (updateOxygenBonus dt g) = oxygen g"
proof (cases "oxygenBonus g = []")
  case False
  then have "updateOxygenBonus dt g =
      (snd (forEach (bonusStep (dt / (1000 / 60))) (oxygenBonus g) g))
        \<lparr>oxygenBonus := fst (forEach (bonusStep (dt / (1000 / 60))) (oxygenBonus g) g)\<rparr>"
    by (simp add: updateOxygenBonus_def Let_def case_prod_beta)
  with bonusLoop_no_contact [OF assms(1)] show ?thesis by simp
next
  case True
  let ?g' = "snd (random g)"
  have g': "oxygenBonus ?g' = []" "diver ?g' = diver g" "oxygen ?g' = oxygen g"
    using True by (simp_all add: random_def)
  show ?thesis
  proof (cases "fst (random g) < 0.0005 * (dt / (1000 / 60))")
    case spawn: True
    let ?g1 = "generateOxygenBonus ?g'"
    from True spawn have u: "updateOxygenBonus dt g =
      (snd (forEach (bonusStep (dt / (1000 / 60))) (oxygenBonus ?g1) ?g1))
        \<lparr>oxygenBonus := fst (forEach (bonusStep (dt / (1000 / 60))) (oxygenBonus ?g1) ?g1)\<rparr>"
      by (simp add: updateOxygenBonus_def Let_def case_prod_beta)
    have "GameObject.y (diver ?g') + 0.95 * GameObject.height (diver ?g') \<le> 700"
      using assms(2) True g'(2) by simp
    from fresh_bonus_out_of_reach [OF g'(1) assms(3) this]
    have "oxygen (snd (forEach (bonusStep (dt / (1000 / 60))) (oxygenBonus ?g1) ?g1)) = oxygen ?g1"
      by (rule bonusLoop_no_contact)
    with u g'(3) show ?thesis by simp
  next
    case nospawn: False
    from True nospawn have "updateOxygenBonus dt g =
      (snd (forEach (bonusStep (dt / (1000 / 60))) (oxygenBonus ?g') ?g'))
        \<lparr>oxygenBonus := fst (forEach (bonusStep (dt / (1000 / 60))) (oxygenBonus ?g') ?g')\<rparr>"
      by (simp add: updateOxygenBonus_def Let_def case_prod_beta)
    with g' show ?thesis by simp
  qed
qed

lemma updateParticles_oxygen [simp]: "oxygen (updateParticles dt g) = oxygen g"
  by (simp add: updateParticles_def Let_def)

lemma updateLevel_oxygen [simp]: "oxygen (updateLevel g) = oxygen g"
  by (simp add: updateLevel_def Let_def)

lemma gameLoop_update_tick:
  assumes "gameStarted g" "\<not> gameOver g" "timestamp - lastUpdateTime g \<le> 100"
  shows "gameLoop timestamp g = requestAnimationFrame (render
           (updateAll (timestamp - lastUpdateTime g) (g\<lparr>lastUpdateTime := timestamp\<rparr>)))"
  using assms by (simp add: gameLoop_def Let_def)

lemma quiet_tick_oxygen:
  assumes "gameStarted g" and "\<not> gameOver g"
      and "dt = timestamp - lastUpdateTime g" and "dt \<le> 100"
      and "sf = dt / (1000 / 60)"
      and "d' = diver (updateDiver dt g)"
      and "\<forall>e \<in> set (enemies g).
             \<not> isColliding True d' (moveEnemy sf e) (Enemy.isShark (moveEnemy sf e))"
      and "\<forall>b \<in> set (oxygenBubbles g). \<not> isCollidingCircle True d' (moveBubble sf b)"
      and "\<forall>b \<in> set (oxygenBonus g). 30 < GameObject.y (moveBonus sf b)
             \<and> \<not> isColliding True d' (moveBonus sf b) False"
      and "oxygenBonus g = [] \<longrightarrow> GameObject.y d' + 0.95 * GameObject.height d' \<le> 700"
      and "0 < oxygen g - Diver.oxygenDepletionRate (diver g)
                            * (1.0 + GameObject.y d' / canvas_height) * sf"
  shows "oxygen (gameLoop timestamp g)
           = oxygen g - Diver.oxygenDepletionRate (diver g)
                          * (1.0 + GameObject.y d' / canvas_height) * sf"
proof -
  let ?g0 = "g\<lparr>lastUpdateTime := timestamp\<rparr>"
  let ?s1 = "updateWeaponSystem dt (updateDiver dt ?g0)"
  let ?s2 = "updateHearts dt (updateTreasures dt ?s1)"
  let ?s3 = "updateEnemies dt ?s2"
  let ?s4 = "updateCrabs dt ?s3"
  let ?s5 = "updateOxygenBubbles dt ?s4"
  let ?s6 = "updateOxygenBonus dt ?s5"
  have dep: "oxygen (depleteOxygen k' s') = max 0 (oxygen s' - Diver.oxygenDepletionRate (diver s')
                                 * (1.0 + GameObject.y (diver s') / canvas_height) * k')" for k' s'
    by (simp add: depleteOxygen_def Let_def)
  have d0: "diver (updateDiver dt ?g0) = d'"
    using assms(6) by (simp add: updateDiver_lastUpdateTime)
  have r0: "Diver.oxygenDepletionRate d' = Diver.oxygenDepletionRate (diver g)"
    using assms(6) by simp
  have s1: "oxygen ?s1 = oxygen g" "enemies ?s1 = enemies g" "oxygenBubbles ?s1 = oxygenBubbles g"
    "oxygenBonus ?s1 = oxygenBonus g"
    "Diver.oxygenDepletionRate (diver ?s1) = Diver.oxygenDepletionRate (diver g)"
    "GameObject.truncate (diver ?s1) = GameObject.truncate d'"
    using d0 r0 by simp_all
  have s2: "oxygen ?s2 = oxygen g" "enemies ?s2 = enemies g" "oxygenBubbles ?s2 = oxygenBubbles g"
    "oxygenBonus ?s2 = oxygenBonus g"
    "Diver.oxygenDepletionRate (diver ?s2) = Diver.oxygenDepletionRate (diver g)"
    "GameObject.truncate (diver ?s2) = GameObject.truncate d'"
    using s1 by (simp_all add: updateHearts_quiet updateTreasures_quiet)
  have "\<forall>e \<in> set (enemies ?s2).
             \<not> isColliding True (diver ?s2) (moveEnemy sf e) (Enemy.isShark (moveEnemy sf e))"
  proof
    fix e assume "e \<in> set (enemies ?s2)"
    with assms(7) s2(2)
    have "\<not> isColliding True d' (moveEnemy sf e) (Enemy.isShark (moveEnemy sf e))" by simp
    then show "\<not> isColliding True (diver ?s2) (moveEnemy sf e) (Enemy.isShark (moveEnemy sf e))"
      unfolding isColliding_box [OF s2(6)] .
  qed
  then have "\<forall>e \<in> set (enemies ?s2).
             \<not> isColliding True (diver ?s2) (moveEnemy (dt / (1000 / 60)) e)
                 (Enemy.isShark (moveEnemy (dt / (1000 / 60)) e))"
    unfolding assms(5) .
  then have o3: "oxygen ?s3 = oxygen ?s2" by (rule updateEnemies_no_contact)
  have s3: "oxygen ?s3 = oxygen g" "oxygenBubbles ?s3 = oxygenBubbles g"
    "oxygenBonus ?s3 = oxygenBonus g"
    "Diver.oxygenDepletionRate (diver ?s3) = Diver.oxygenDepletionRate (diver g)"
    "GameObject.truncate (diver ?s3) = GameObject.truncate d'"
    using o3 s2 by (simp_all add: updateEnemies_quiet)
  have s4: "oxygen ?s4 = oxygen g" "oxygenBubbles ?s4 = oxygenBubbles g"
    "oxygenBonus ?s4 = oxygenBonus g"
    "Diver.oxygenDepletionRate (diver ?s4) = Diver.oxygenDepletionRate (diver g)"
    "GameObject.truncate (diver ?s4) = GameObject.truncate d'"
    using s3 by (simp_all add: updateCrabs_quiet)
  have y4: "GameObject.y (diver ?s4) = GameObject.y d'"
    "GameObject.height (diver ?s4) = GameObject.height d'"
    using box_fields [OF s4(5)] by simp_all
  have "\<forall>b \<in> set (oxygenBubbles ?s4). \<not> isCollidingCircle True (diver ?s4) (moveBubble sf b)"
  proof
    fix b assume "b \<in> set (oxygenBubbles ?s4)"
    with assms(8) s4(2) have "\<not> isCollidingCircle True d' (moveBubble sf b)" by simp
    then show "\<not> isCollidingCircle True (diver ?s4) (moveBubble sf b)"
      unfolding isCollidingCircle_box [OF s4(5)] .
  qed
  then have "oxygen (breatheAndBubbles sf ?s4) = oxygen (depleteOxygen sf ?s4)"
    by (rule breatheAndBubbles_no_contact)
  also have "\<dots> = max 0 (oxygen g - Diver.oxygenDepletionRate (diver g)
                            * (1.0 + GameObject.y d' / canvas_height) * sf)"
    using s4(1,4) y4(1) by (simp add: dep)
  also have "\<dots> = oxygen g - Diver.oxygenDepletionRate (diver g)
                            * (1.0 + GameObject.y d' / canvas_height) * sf"
    using assms(11) by simp
  finally have b5: "oxygen (breatheAndBubbles sf ?s4) = oxygen g - Diver.oxygenDepletionRate (diver g)
                            * (1.0 + GameObject.y d' / canvas_height) * sf" .
  with assms(11) have "0 < oxygen (breatheAndBubbles sf ?s4)" by simp
  then have "oxygenDeath (breatheAndBubbles sf ?s4) = breatheAndBubbles sf ?s4"
    by (rule oxygenDeath_alive)
  then have u5: "?s5 = breatheAndBubbles sf ?s4"
    unfolding updateOxygenBubbles_def [of dt] Let_def assms(5) .
  have s5: "oxygen ?s5 = oxygen g - Diver.oxygenDepletionRate (diver g)
                            * (1.0 + GameObject.y d' / canvas_height) * sf"
    "oxygenBonus ?s5 = oxygenBonus g" "diver ?s5 = diver ?s4"
    using b5 s4(3) by (simp_all add: u5)
  have t5: "GameObject.truncate (diver ?s5) = GameObject.truncate d'"
    using s4(5) s5(3) by simp
  have "\<forall>b \<in> set (oxygenBonus ?s5). 30 < GameObject.y (moveBonus sf b)
             \<and> \<not> isColliding True (diver ?s5) (moveBonus sf b) False"
  proof
    fix b assume "b \<in> set (oxygenBonus ?s5)"
    with assms(9) s5(2) have "30 < GameObject.y (moveBonus sf b)
             \<and> \<not> isColliding True d' (moveBonus sf b) False" by simp
    then show "30 < GameObject.y (moveBonus sf b)
             \<and> \<not> isColliding True (diver ?s5) (moveBonus sf b) False"
      unfolding isColliding_box [OF t5] .
  qed
  then have "\<forall>b \<in> set (oxygenBonus ?s5). 30 < GameObject.y (moveBonus (dt / (1000 / 60)) b)
             \<and> \<not> isColliding True (diver ?s5) (moveBonus (dt / (1000 / 60)) b) False"
    unfolding assms(5) .
  moreover have "oxygenBonus ?s5 = [] \<longrightarrow>
           GameObject.y (diver ?s5) + 0.95 * GameObject.height (diver ?s5) \<le> 700"
    using assms(10) s5(2,3) y4 by simp
  ultimately have "oxygen ?s6 = oxygen ?s5"
    using assms(4) by (rule updateOxygenBonus_no_contact)
  then have "oxygen (updateAll dt ?g0) = oxygen ?s5"
    by (simp add: updateAll_def)
  moreover have "gameLoop timestamp g = requestAnimationFrame (render (updateAll dt ?g0))"
    using gameLoop_update_tick [of g timestamp] assms(1-4) by simp
  ultimately have tick: "oxygen (gameLoop timestamp g) = oxygen g - Diver.oxygenDepletionRate (diver g)
                            * (1.0 + GameObject.y d' / canvas_height) * sf"
    using s5(1) by (simp add: requestAnimationFrame_def render_def)
  from tick show ?thesis .
qed

text \<open>The state that a tick hands to \<^verbatim>\<open>updateOxygenBubbles\<close>: the diver is where
  \<^verbatim>\<open>updateDiver\<close> has put it, with the depletion rate of the start of the tick.\<close>

lemma before_breathing:
  "Diver.oxygenDepletionRate (diver (updateCrabs dt (updateEnemies dt (updateHearts dt
      (updateTreasures dt (updateWeaponSystem dt (updateDiver dt g)))))))
     = Diver.oxygenDepletionRate (diver g)"
  "GameObject.truncate (diver (updateCrabs dt (updateEnemies dt (updateHearts dt
      (updateTreasures dt (updateWeaponSystem dt (updateDiver dt g)))))))
     = GameObject.truncate (diver (updateDiver dt g))"
  by (simp_all add: updateEnemies_quiet updateHearts_quiet updateTreasures_quiet)

text \<open>
  Claim C4. Let \<open>dt\<close> be the time since the last frame, \<open>sf = dt / (1000 / 60)\<close> the scale
  factor, \<open>d'\<close> the diver after \<^verbatim>\<open>updateDiver\<close> and \<open>pre\<close> the state that the tick hands to
  \<^verbatim>\<open>updateOxygenBubbles\<close>. In every tick of a session in play, \<^verbatim>\<open>updateOxygenBubbles\<close>
  runs on \<open>pre\<close>, and its depletion statement lowers the oxygen by
  \<open>oxygenDepletionRate * (1 + y / canvas_height) * sf\<close>, floored at 0, where
  \<open>oxygenDepletionRate\<close> is the rate at the start of the tick and \<open>y\<close> the depth of the
  diver after its move in this tick. If no bubble touches the diver, that is the oxygen
  at the death check. If in the whole tick no hostile, no bubble and no bonus touches
  the diver, no bonus reaches the surface and the oxygen does not run out, then the
  oxygen after the tick is the oxygen before it minus exactly that amount.
\<close>

theorem oxygen_depletion:
  assumes "dt = timestamp - lastUpdateTime g"
      and "sf = dt / (1000 / 60)"
      and "d' = diver (updateDiver dt g)"
      and "pre = updateCrabs dt (updateEnemies dt (updateHearts dt (updateTreasures dt
                   (updateWeaponSystem dt (updateDiver dt (g\<lparr>lastUpdateTime := timestamp\<rparr>))))))"
  shows "(gameStarted g \<and> \<not> gameOver g \<and> dt \<le> 100 \<longrightarrow>
            gameLoop timestamp g
              = requestAnimationFrame (render (updateLevel (updateParticles dt
                  (updateOxygenBonus dt (updateOxygenBubbles dt pre))))))
       \<and> updateOxygenBubbles dt pre = oxygenDeath (breatheAndBubbles sf pre)
       \<and> oxygen (depleteOxygen sf pre)
           = max 0 (oxygen pre - Diver.oxygenDepletionRate (diver g)
                                   * (1.0 + GameObject.y d' / canvas_height) * sf)
       \<and> ((\<forall>b \<in> set (oxygenBubbles s). \<not> isCollidingCircle True (diver s) (moveBubble k b)) \<longrightarrow>
            oxygen (breatheAndBubbles k s)
              = max 0 (oxygen s - Diver.oxygenDepletionRate (diver s)
                                    * (1.0 + GameObject.y (diver s) / canvas_height) * k))
       \<and> (gameStarted g \<and> \<not> gameOver g \<and> dt \<le> 100
           \<and> (\<forall>e \<in> set (enemies g).
                 \<not> isColliding True d' (moveEnemy sf e) (Enemy.isShark (moveEnemy sf e)))
           \<and> (\<forall>b \<in> set (oxygenBubbles g). \<not> isCollidingCircle True d' (moveBubble sf b))
           \<and> (\<forall>b \<in> set (oxygenBonus g). 30 < GameObject.y (moveBonus sf b)
                 \<and> \<not> isColliding True d' (moveBonus sf b) False)
           \<and> (oxygenBonus g = [] \<longrightarrow> GameObject.y d' + 0.95 * GameObject.height d' \<le> 700)
           \<and> 0 < oxygen g - Diver.oxygenDepletionRate (diver g)
                              * (1.0 + GameObject.y d' / canvas_height) * sf
           \<longrightarrow> oxygen (gameLoop timestamp g)
                 = oxygen g - Diver.oxygenDepletionRate (diver g)
                                * (1.0 + GameObject.y d' / canvas_height) * sf)"
proof -
  let ?g0 = "g\<lparr>lastUpdateTime := timestamp\<rparr>"
  have dep: "oxygen (depleteOxygen k' s') = max 0 (oxygen s' - Diver.oxygenDepletionRate (diver s')
                                 * (1.0 + GameObject.y (diver s') / canvas_height) * k')" for k' s'
    by (simp add: depleteOxygen_def Let_def)
  have a: "gameStarted g \<and> \<not> gameOver g \<and> dt \<le> 100 \<longrightarrow>
            gameLoop timestamp g
              = requestAnimationFrame (render (updateLevel (updateParticles dt
                  (updateOxygenBonus dt (updateOxygenBubbles dt pre)))))"
    using gameLoop_update_tick [of g timestamp] assms(1,4) by (simp add: updateAll_def)
  have b: "updateOxygenBubbles dt pre = oxygenDeath (breatheAndBubbles sf pre)"
    unfolding updateOxygenBubbles_def [of dt] Let_def assms(2) by (rule refl)
  have r: "Diver.oxygenDepletionRate (diver pre) = Diver.oxygenDepletionRate (diver g)"
    unfolding assms(4) using before_breathing(1) [of dt ?g0] by simp
  have "GameObject.truncate (diver pre) = GameObject.truncate (diver (updateDiver dt ?g0))"
    unfolding assms(4) by (rule before_breathing(2))
  then have "GameObject.truncate (diver pre) = GameObject.truncate d'"
    using assms(3) by (simp add: updateDiver_lastUpdateTime)
  from box_fields [OF this] have y: "GameObject.y (diver pre) = GameObject.y d'" by simp
  have c: "oxygen (depleteOxygen sf pre)
           = max 0 (oxygen pre - Diver.oxygenDepletionRate (diver g)
                                   * (1.0 + GameObject.y d' / canvas_height) * sf)"
    using dep [of sf pre] r y by simp
  have d: "(\<forall>b \<in> set (oxygenBubbles s). \<not> isCollidingCircle True (diver s) (moveBubble k b)) \<longrightarrow>
            oxygen (breatheAndBubbles k s)
              = max 0 (oxygen s - Diver.oxygenDepletionRate (diver s)
                                    * (1.0 + GameObject.y (diver s) / canvas_height) * k)"
    using breatheAndBubbles_no_contact [of s k] dep [of k s] by simp
  have e: "gameStarted g \<and> \<not> gameOver g \<and> dt \<le> 100
           \<and> (\<forall>e \<in> set (enemies g).
                 \<not> isColliding True d' (moveEnemy sf e) (Enemy.isShark (moveEnemy sf e)))
           \<and> (\<forall>b \<in> set (oxygenBubbles g). \<not> isCollidingCircle True d' (moveBubble sf b))
           \<and> (\<forall>b \<in> set (oxygenBonus g). 30 < GameObject.y (moveBonus sf b)
                 \<and> \<not> isColliding True d' (moveBonus sf b) False)
           \<and> (oxygenBonus g = [] \<longrightarrow> GameObject.y d' + 0.95 * GameObject.height d' \<le> 700)
           \<and> 0 < oxygen g - Diver.oxygenDepletionRate (diver g)
                              * (1.0 + GameObject.y d' / canvas_height) * sf
           \<longrightarrow> oxygen (gameLoop timestamp g)
                 = oxygen g - Diver.oxygenDepletionRate (diver g)
                                * (1.0 + GameObject.y d' / canvas_height) * sf"
    using quiet_tick_oxygen [OF _ _ assms(1) _ assms(2,3)] by blast
  from a b c d e show ?thesis by (intro conjI)
qed

lemmas patrol_defs = patrolGame_def surfaceGame_def playingGame_def newGame_def updateDiver_def
  moveDiver_def buoyancy_def steerHorizontal_def steerVertical_def integrateDiver_def
  clampDiver_def comboTick_def shieldTick_def canvas_width_def canvas_height_def
  MAX_OXYGEN_def

text \<open>A tick at depth (\<open>y = 387.84\<close>, \<open>\<Delta>t = 16\<close>) with a hostile, a bubble and a bonus in
  the arena, and a tick at the surface (\<open>y = 0\<close>, \<open>\<Delta>t = 16.7\<close>) of a session with full
  oxygen and the initial rate 0.05.\<close>

theorem oxygen_depletion_witness:
  "GameObject.y (diver (updateDiver 16 patrolGame)) = 387.84
   \<and> oxygen (gameLoop 16 patrolGame) = 300 - 0.05 * (1 + 387.84 / 768) * 0.96
   \<and> oxygen (gameLoop 16 patrolGame) = 299.92776
   \<and> GameObject.y (diver (updateDiver (167 / 10) surfaceGame)) = 0
   \<and> oxygen (gameLoop (167 / 10) surfaceGame) = 299.9499"
proof -
  have d: "diver (updateDiver 16 patrolGame)
      = (diver patrolGame)\<lparr>GameObject.x := 707.84, GameObject.y := 387.84,
           Diver.dx := 4, Diver.dy := 4\<rparr>"
    by (simp add: patrol_defs Let_def)
  have y: "GameObject.y (diver (updateDiver 16 patrolGame)) = 387.84"
    by (simp add: d patrol_defs)
  have h0: "(16::real) = 16 - lastUpdateTime patrolGame" "(0.96::real) = 16 / (1000 / 60)"
    by (simp_all add: patrol_defs)
  have h1: "gameStarted patrolGame" "\<not> gameOver patrolGame" "(16::real) \<le> 100"
    by (simp_all add: patrol_defs)
  have h2: "\<forall>e \<in> set (enemies patrolGame).
             \<not> isColliding True (diver (updateDiver 16 patrolGame)) (moveEnemy 0.96 e)
                 (Enemy.isShark (moveEnemy 0.96 e))"
    by (simp add: d patrol_defs isColliding_def moveEnemy_def smallFish_def Let_def)
  have h3: "\<forall>b \<in> set (oxygenBubbles patrolGame).
             \<not> isCollidingCircle True (diver (updateDiver 16 patrolGame)) (moveBubble 0.96 b)"
    by (simp add: d patrol_defs isCollidingCircle_def moveBubble_def smallBubble_def Let_def)
  have h4: "\<forall>b \<in> set (oxygenBonus patrolGame). 30 < GameObject.y (moveBonus 0.96 b)
             \<and> \<not> isColliding True (diver (updateDiver 16 patrolGame)) (moveBonus 0.96 b) False"
    by (simp add: d patrol_defs isColliding_def risingBonus_def Let_def)
  have h5: "oxygenBonus patrolGame = [] \<longrightarrow>
      GameObject.y (diver (updateDiver 16 patrolGame))
        + 0.95 * GameObject.height (diver (updateDiver 16 patrolGame)) \<le> 700"
    by (simp add: patrol_defs)
  have h6: "0 < oxygen patrolGame - Diver.oxygenDepletionRate (diver patrolGame)
                   * (1.0 + GameObject.y (diver (updateDiver 16 patrolGame)) / canvas_height) * 0.96"
    by (simp add: y patrol_defs)
  from oxygen_depletion [OF h0 refl refl] h1 h2 h3 h4 h5 h6
  have "oxygen (gameLoop 16 patrolGame)
           = oxygen patrolGame - Diver.oxygenDepletionRate (diver patrolGame)
                  * (1.0 + GameObject.y (diver (updateDiver 16 patrolGame)) / canvas_height) * 0.96"
    by blast
  then have p: "oxygen (gameLoop 16 patrolGame) = 300 - 0.05 * (1 + 387.84 / 768) * 0.96"
    by (simp add: y patrol_defs)
  have ds: "diver (updateDiver (167 / 10) surfaceGame)
      = (diver surfaceGame)\<lparr>GameObject.x := 708.008, Diver.dx := 4, Diver.dy := - 4\<rparr>"
    by (simp add: patrol_defs Let_def)
  have ys: "GameObject.y (diver (updateDiver (167 / 10) surfaceGame)) = 0"
    by (simp add: ds patrol_defs)
  have s0: "(167 / 10 :: real) = 167 / 10 - lastUpdateTime surfaceGame"
    "(1.002::real) = (167 / 10) / (1000 / 60)"
    by (simp_all add: patrol_defs)
  have s1: "gameStarted surfaceGame" "\<not> gameOver surfaceGame" "(167 / 10 :: real) \<le> 100"
    "enemies surfaceGame = []" "oxygenBubbles surfaceGame = []" "oxygenBonus surfaceGame = []"
    by (simp_all add: patrol_defs)
  have s2: "GameObject.y (diver (updateDiver (167 / 10) surfaceGame))
        + 0.95 * GameObject.height (diver (updateDiver (167 / 10) surfaceGame)) \<le> 700"
    by (simp add: ds patrol_defs)
  have s3: "0 < oxygen surfaceGame - Diver.oxygenDepletionRate (diver surfaceGame)
         * (1.0 + GameObject.y (diver (updateDiver (167 / 10) surfaceGame)) / canvas_height) * 1.002"
    by (simp add: ys patrol_defs)
  have s4: "\<forall>e \<in> set (enemies surfaceGame).
             \<not> isColliding True (diver (updateDiver (167 / 10) surfaceGame)) (moveEnemy 1.002 e)
                 (Enemy.isShark (moveEnemy 1.002 e))"
    "\<forall>b \<in> set (oxygenBubbles surfaceGame).
             \<not> isCollidingCircle True (diver (updateDiver (167 / 10) surfaceGame)) (moveBubble 1.002 b)"
    "\<forall>b \<in> set (oxygenBonus surfaceGame). 30 < GameObject.y (moveBonus 1.002 b)
             \<and> \<not> isColliding True (diver (updateDiver (167 / 10) surfaceGame)) (moveBonus 1.002 b) False"
    by (simp_all add: s1)
  from oxygen_depletion [OF s0 refl refl] s1(1,2,3) s4 s2 s3
  have "oxygen (gameLoop (167 / 10) surfaceGame)
           = oxygen surfaceGame - Diver.oxygenDepletionRate (diver surfaceGame)
              * (1.0 + GameObject.y (diver (updateDiver (167 / 10) surfaceGame)) / canvas_height) * 1.002"
    by blast
  then have q: "oxygen (gameLoop (167 / 10) surfaceGame) = 299.9499"
    by (simp add: ys patrol_defs)
  from y p ys q show ?thesis by simp
qed

subsection \<open>Falling pickups come to rest\<close>

lemma fallRun_Nil [simp]: "fallRun gr [] p = p"
  by (simp add: fallRun_def)

lemma fallRun_Cons [simp]: "fallRun gr (sf # sfs) p = fallRun gr sfs (pickupFall gr sf p)"
  by (simp add: fallRun_def)







text \<open>The pickup loops: every pickup falls, and the ones that then overlap the diver
  are taken out.\<close>

lemma treasureStep_box [simp]:
  "GameObject.truncate (diver (snd (treasureStep sf t g))) = GameObject.truncate (diver g)"
  by (simp add: treasureStep_def Let_def)

lemma heartStep_box [simp]:
  "GameObject.truncate (diver (snd (heartStep sf t g))) = GameObject.truncate (diver g)"
  by (simp add: heartStep_def Let_def)





lemma updateTreasures_hearts [simp]: "hearts (updateTreasures dt g) = hearts g"
proof -
  have "\<And>e s. hearts (snd (treasureStep (dt / (1000 / 60)) e s)) = hearts s"
    by (simp add: treasureStep_def Let_def)
  then have "hearts (snd (forEach (treasureStep (dt / (1000 / 60))) (treasures g) g)) = hearts g"
    by (rule forEach_field [where h = hearts])
  then show ?thesis by (simp add: updateTreasures_def Let_def case_prod_beta)
qed

lemma collectHeart_treasures [simp]: "treasures (collectHeart h g) = treasures g"
  by (simp add: collectHeart_def Let_def bumpCombo_def)

lemma updateHearts_treasures [simp]: "treasures (updateHearts dt g) = treasures g"
proof -
  have "\<And>e s. treasures (snd (heartStep (dt / (1000 / 60)) e s)) = treasures s"
    by (simp add: heartStep_def Let_def)
  then have "treasures (snd (forEach (heartStep (dt / (1000 / 60))) (hearts g) g)) = treasures g"
    by (rule forEach_field [where h = treasures])
  then show ?thesis by (simp add: updateHearts_def Let_def case_prod_beta)
qed

lemma updateDiver_treasures [simp]: "treasures (updateDiver dt g) = treasures g"
  by (simp add: updateDiver_def Let_def)

lemma updateWeaponSystem_treasures [simp]: "treasures (updateWeaponSystem dt g) = treasures g"
  by (simp add: updateWeaponSystem_def fireHarpoon_def Let_def)




lemma bumpCombo_treasures [simp]: "treasures (bumpCombo g) = treasures g"
  by (simp add: bumpCombo_def)

lemma enemyHitsDiver_treasures [simp]: "treasures (snd (enemyHitsDiver e g)) = treasures g"
  by (simp add: enemyHitsDiver_def Let_def)





lemma crabEatsHeart_treasures [simp]: "treasures (snd (crabEatsHeart c h g)) = treasures g"
  by (simp add: crabEatsHeart_def)


lemma crabHarpooned_treasures [simp]: "treasures (snd (crabHarpooned c g)) = treasures g"
  by (simp add: crabHarpooned_def Let_def split: option.splits)



text \<open>The other subsystems do not touch the pickups.\<close>

lemma updateOxygenBubbles_pickups [simp]:
  "treasures (updateOxygenBubbles dt g) = treasures g"
  "hearts (updateOxygenBubbles dt g) = hearts g"
proof -
  let ?h = "\<lambda>s. (treasures s, hearts s)"
  let ?sf = "dt / (1000 / 60)"
  have a: "\<And>s bs. ?h (snd (forEach (bubbleStep ?sf) bs s)) = ?h s"
    by (rule forEach_field [where h = ?h]) (simp add: bubbleStep_def Let_def)
  have b: "?h (oxygenWarnings ?sf (depleteOxygen ?sf g)) = ?h g"
    by (simp add: oxygenWarnings_def depleteOxygen_def Let_def random_def)
  have c: "?h (breatheAndBubbles ?sf g) = ?h g"
    using a [of "oxygenBubbles (oxygenWarnings ?sf (depleteOxygen ?sf g))"
              "oxygenWarnings ?sf (depleteOxygen ?sf g)"] b
    by (simp add: breatheAndBubbles_def Let_def case_prod_beta random_def)
  have d: "\<And>s. ?h (oxygenDeath s) = ?h s"
    by (simp add: oxygenDeath_def Let_def endGame_def)
  from c d [of "breatheAndBubbles ?sf g"]
  show "treasures (updateOxygenBubbles dt g) = treasures g"
    "hearts (updateOxygenBubbles dt g) = hearts g"
    by (simp_all add: updateOxygenBubbles_def Let_def)
qed

lemma updateOxygenBonus_pickups [simp]:
  "treasures (updateOxygenBonus dt g) = treasures g"
  "hearts (updateOxygenBonus dt g) = hearts g"
proof -
  let ?h = "\<lambda>s. (treasures s, hearts s)"
  let ?sf = "dt / (1000 / 60)"
  have s: "\<And>b s. ?h (snd (bonusStep ?sf b s)) = ?h s"
    by (simp add: bonusStep_def Let_def bonusSurfaced_def bonusCollected_def bonusDestroyed_def)
  have a: "\<And>s bs. ?h (snd (forEach (bonusStep ?sf) bs s)) = ?h s"
    by (rule forEach_field [where h = ?h]) (rule s)
  show "treasures (updateOxygenBonus dt g) = treasures g"
    "hearts (updateOxygenBonus dt g) = hearts g"
    using a [of "oxygenBonus g" g] a [of "oxygenBonus (snd (random g))" "snd (random g)"]
      a [of "oxygenBonus (generateOxygenBonus (snd (random g)))" "generateOxygenBonus (snd (random g))"]
    by (simp_all add: updateOxygenBonus_def Let_def case_prod_beta random_def)
qed

lemma updateParticles_pickups [simp]:
  "treasures (updateParticles dt g) = treasures g"
  "hearts (updateParticles dt g) = hearts g"
  by (simp_all add: updateParticles_def Let_def)

lemma updateLevel_pickups [simp]:
  "treasures (updateLevel g) = treasures g"
  "hearts (updateLevel g) = hearts g"
  by (simp_all add: updateLevel_def Let_def)



lemma scaleFactors_length [simp]: "length (scaleFactors l ts) = length ts"
  by (induction ts arbitrary: l) simp_all









lemmas fall_defs = fallGame_def fallingTreasure_def playingGame_def newGame_def tick_defs
  treasureStep_def treasureFall_def pickupFall_def isColliding_def GRAVITY_def forEach.simps(2)


text \<open>Frames that arrive with the timestamp of the frame before them are update ticks
  with a scale factor of zero: every subsystem runs and nothing moves. A treasure that
  is falling then is still falling, at the same height, after any number of them.\<close>

lemma stalled_tick:
  "gameLoop 0 (fallGame\<lparr>rndPos := a, rafCount := b, renderCount := c, animationFrameId := i\<rparr>)
     = fallGame\<lparr>rndPos := Suc (Suc (Suc (Suc (Suc a)))), rafCount := Suc b, renderCount := Suc c,
                animationFrameId := Some (Suc b)\<rparr>"
  by (simp add: fall_defs Let_def)

lemma stalled_run:
  "\<exists>a' b' c' i'.
     runFrames (replicate n 0)
       (fallGame\<lparr>rndPos := a, rafCount := b, renderCount := c, animationFrameId := i\<rparr>)
     = fallGame\<lparr>rndPos := a', rafCount := b', renderCount := c', animationFrameId := i'\<rparr>"
proof (induction n arbitrary: a b c i)
  case 0
  show ?case by (simp del: Game.update_convs) blast
next
  case (Suc n)
  have "\<exists>a' b' c' i'.
     runFrames (replicate n 0)
       (fallGame\<lparr>rndPos := Suc (Suc (Suc (Suc (Suc a)))), rafCount := Suc b,
                 renderCount := Suc c, animationFrameId := Some (Suc b)\<rparr>)
     = fallGame\<lparr>rndPos := a', rafCount := b', renderCount := c', animationFrameId := i'\<rparr>"
    by (rule Suc.IH)
  then show ?case by (simp add: stalled_tick del: Game.update_convs)
qed

theorem stalled_frames_never_land:
  "Pickup.isFalling fallingTreasure
   \<and> treasures fallGame = [fallingTreasure]
   \<and> gameStarted fallGame \<and> \<not> gameOver fallGame
   \<and> lastUpdateTime fallGame = 0
   \<and> (\<forall>n. treasures (runFrames (replicate n 0) fallGame) = [fallingTreasure])"
proof -
  have f: "Pickup.isFalling fallingTreasure" "treasures fallGame = [fallingTreasure]"
    "gameStarted fallGame" "\<not> gameOver fallGame" "lastUpdateTime fallGame = 0"
    by (simp_all add: fallGame_def playingGame_def newGame_def fallingTreasure_def)
  have s: "fallGame = fallGame\<lparr>rndPos := 0, rafCount := 0, renderCount := 0,
                                animationFrameId := None\<rparr>"
    by (simp add: fallGame_def playingGame_def newGame_def)
  have "treasures (runFrames (replicate n 0) fallGame) = [fallingTreasure]" for n
  proof -
    from stalled_run [where n = n and a = 0 and b = 0 and c = 0 and i = None] obtain a' b' c' i' where
      "runFrames (replicate n 0)
         (fallGame\<lparr>rndPos := 0, rafCount := 0, renderCount := 0, animationFrameId := None\<rparr>)
       = fallGame\<lparr>rndPos := a', rafCount := b', renderCount := c', animationFrameId := i'\<rparr>"
      by blast
    with s have "runFrames (replicate n 0) fallGame
       = fallGame\<lparr>rndPos := a', rafCount := b', renderCount := c', animationFrameId := i'\<rparr>"
      by simp
    with f(2) show ?thesis by simp
  qed
  with f show ?thesis by blast
qed

end
